theory Spec2Isabelle
  imports Main
begin

section \<open>Data model (accounts/models.py)\<close>

text \<open>
  Every model has a UUID primary key drawn by \<open>uuid.uuid4\<close>. No public operation deletes a
  row, so a table is the list of its rows in insertion order and the primary key of a row
  is its position in that list: a new row gets a key that no other row has, as a fresh
  UUID does. Points in time are microseconds on the server clock.
\<close>

type_synonym uuid = nat
type_synonym datetime = int

definition timedelta_minutes :: "int \<Rightarrow> int" where
  "timedelta_minutes m = m * 60 * 1000000"

definition timedelta_days :: "int \<Rightarrow> int" where
  "timedelta_days d = d * 24 * 60 * 60 * 1000000"

datatype CustomerType = Retail | Trade

datatype Province =
    EASTERN_CAPE | FREE_STATE | GAUTENG | KWAZULU_NATAL | LIMPOPO
  | MPUMALANGA | NORTHERN_CAPE | NORTH_WEST | WESTERN_CAPE

datatype BusinessType = ELECTRICIAN | CONTRACTOR | RESELLER | OTHER

text \<open>The password hasher is a collaborator: a stored hash remembers which raw password
  it was made from, and \<open>check_password\<close> accepts exactly that password.\<close>

datatype password_hash = Hashed string

fun check_password :: "string \<Rightarrow> password_hash \<Rightarrow> bool" where
  "check_password raw (Hashed p) = (raw = p)"

record Customer =
  customer_type :: CustomerType
  first_name :: string
  last_name :: string
  email :: string
  phone_number :: "string option"
  password :: password_hash
  is_verified :: bool
  is_active :: bool
  is_staff :: bool
  is_superuser :: bool
  created_at :: datetime
  updated_at :: datetime

text \<open>\<open>BillingAddress\<close> and \<open>DeliveryAddress\<close> declare the same fields; one record serves
  both tables.\<close>

record Address =
  user :: uuid
  company_name :: "string option"
  vat_number :: "string option"
  company_registration :: "string option"
  po_number :: "string option"
  address_line_1 :: string
  address_line_2 :: "string option"
  city :: string
  postal_code :: string
  province :: Province
  created_at :: datetime
  updated_at :: datetime

record TradeInformation =
  user :: uuid
  business_type :: BusinessType
  monthly_statement :: "string option"
  procurement_no :: "string option"
  is_approved :: bool
  created_at :: datetime
  updated_at :: datetime

record upload =
  file_name :: string
  file_size :: nat

record TradeDocument =
  trade_info :: uuid
  document :: upload
  created_at :: datetime
  updated_at :: datetime

record OTP =
  email :: string
  otp :: string
  created_at :: datetime
  expires_at :: datetime
  is_used :: bool

text \<open>The tokens of the token library, by their claims.\<close>

record RefreshToken =
  jti :: uuid
  token_user :: uuid
  token_exp :: datetime

record AccessToken =
  access_user :: uuid
  access_exp :: datetime

text \<open>A message handed to \<open>send_mail\<close>. The body is a fixed text around the code; a failure
  of the transport is caught and printed by the views, so the attempt is all that is kept.\<close>

record mail =
  subject :: string
  recipient :: string
  body_code :: string

record db =
  customers :: "Customer list"
  billing_addresses :: "Address list"
  delivery_addresses :: "Address list"
  trade_information :: "TradeInformation list"
  trade_documents :: "TradeDocument list"
  otps :: "OTP list"
  outstanding_tokens :: "RefreshToken list"
  blacklisted_tokens :: "uuid list"
  outbox :: "mail list"

section \<open>Environment and settings\<close>

text \<open>
  What a request reads from outside the store: \<open>now\<close> is \<open>timezone.now()\<close> as read by the
  model code (\<open>OTP.save\<close>, \<open>OTP.is_valid\<close>), \<open>stamp\<close> is the reading that the framework
  writes into \<open>auto_now_add\<close> and \<open>auto_now\<close> columns when a row is saved, and \<open>rnd\<close> is the
  sequence of draws of \<open>random.choices\<close>.
\<close>

record env =
  now :: datetime
  stamp :: datetime
  rnd :: "nat \<Rightarrow> nat"

text \<open>
  The project's settings module is not among the sources, so what the views take from it
  is a parameter: the authentication backend, the e-mail syntax validator behind
  \<open>EmailField\<close>, the password validators behind \<open>validate_password\<close>, and the token
  lifetimes. \<open>ModelBackend\<close> is the framework's default backend; it refuses users whose
  \<open>is_active\<close> is false. \<open>AllowAllUsersModelBackend\<close> does not.
\<close>

datatype backend = ModelBackend | AllowAllUsersModelBackend

record settings =
  AUTHENTICATION_BACKENDS :: backend
  validate_email :: "string \<Rightarrow> bool"
  validate_password :: "string \<Rightarrow> bool"
  ACCESS_TOKEN_LIFETIME :: int
  REFRESH_TOKEN_LIFETIME :: int

section \<open>Query helpers\<close>

text \<open>\<open>objects.filter\<close>: the rows that satisfy the condition, each with its primary key.\<close>

definition objects_filter :: "('a \<Rightarrow> bool) \<Rightarrow> 'a list \<Rightarrow> (uuid \<times> 'a) list" where
  "objects_filter P tbl = filter (\<lambda>(i, r). P r) (enumerate 0 tbl)"

text \<open>\<open>objects.get\<close> raises \<open>DoesNotExist\<close> or \<open>MultipleObjectsReturned\<close> unless exactly one row
  matches.\<close>

datatype 'a lookup = DoesNotExist | MultipleObjectsReturned | Found uuid 'a

definition objects_get :: "('a \<Rightarrow> bool) \<Rightarrow> 'a list \<Rightarrow> 'a lookup" where
  "objects_get P tbl =
     (case objects_filter P tbl of
        [] \<Rightarrow> DoesNotExist
      | [(i, r)] \<Rightarrow> Found i r
      | _ \<Rightarrow> MultipleObjectsReturned)"

text \<open>\<open>latest('created_at')\<close> orders the matching rows by \<open>created_at\<close> descending and takes
  the first; \<open>None\<close> stands for \<open>DoesNotExist\<close>. Among rows with the same \<open>created_at\<close> the
  database is free to pick; the model picks the one inserted first.\<close>

fun latest :: "(uuid \<times> OTP) list \<Rightarrow> (uuid \<times> OTP) option" where
  "latest [] = None"
| "latest (r # rs) =
     (case latest rs of
        None \<Rightarrow> Some r
      | Some m \<Rightarrow> if OTP.created_at (snd r) < OTP.created_at (snd m) then Some m else Some r)"

section \<open>OTP (accounts/models.py)\<close>

text \<open>\<open>OTP.save\<close> on a new instance: \<open>expires_at\<close> is filled in only when the caller gave
  none; \<open>created_at\<close> is an \<open>auto_now_add\<close> column; \<open>is_used\<close> defaults to false.\<close>

definition OTP_new :: "env \<Rightarrow> string \<Rightarrow> string \<Rightarrow> datetime option \<Rightarrow> OTP" where
  "OTP_new e em c explicit_expires_at =
     \<lparr> OTP.email = em, otp = c, OTP.created_at = stamp e,
       expires_at = (case explicit_expires_at of
                       None \<Rightarrow> now e + timedelta_minutes 10
                     | Some x \<Rightarrow> x),
       is_used = False \<rparr>"

text \<open>\<open>OTP.objects.create(email=..., otp=...)\<close>, the only way the views make a row.\<close>

definition OTP_objects_create :: "env \<Rightarrow> string \<Rightarrow> string \<Rightarrow> db \<Rightarrow> db" where
  "OTP_objects_create e em c s = s\<lparr>otps := otps s @ [OTP_new e em c None]\<rparr>"

text \<open>\<open>otp_obj.save()\<close> on a stored row: \<open>expires_at\<close> is set already and stays, \<open>created_at\<close>
  is not touched by an update; the row with this primary key is overwritten.\<close>

definition OTP_save :: "uuid \<Rightarrow> OTP \<Rightarrow> db \<Rightarrow> db" where
  "OTP_save i r s = s\<lparr>otps := (otps s)[i := r]\<rparr>"

definition is_valid :: "env \<Rightarrow> OTP \<Rightarrow> bool" where
  "is_valid e r = (\<not> is_used r \<and> now e < expires_at r)"

definition string_digits :: string where
  "string_digits = ''0123456789''"

definition generate_otp :: "env \<Rightarrow> string" where
  "generate_otp e = map (\<lambda>k. string_digits ! (rnd e k mod 10)) [0..<8]"

section \<open>Responses (utils/response.py)\<close>

datatype user_summary = UserSummary uuid string string string CustomerType bool

datatype profile =
  Profile uuid CustomerType string string string string "string option" bool
    "(uuid \<times> Address) list" "(uuid \<times> Address) list"
    "(uuid \<times> TradeInformation \<times> (uuid \<times> TradeDocument) list) option" datetime datetime

text \<open>The \<open>data\<close> member of the envelope. \<open>Errors\<close> is \<open>serializer.errors\<close>: the fields that
  failed, each with the code of its error. A serialized address or trade information
  is shown by its row (the \<open>user\<close> column is not among the serialized fields).\<close>

datatype payload =
    Empty
  | Errors "(string \<times> string) list"
  | RegisterData uuid string CustomerType
  | AddressData Address
  | TradeInformationData TradeInformation "upload list"
  | LoginData AccessToken RefreshToken user_summary
  | TokenData AccessToken
  | ProfileData profile

record Response =
  success :: bool
  statusCode :: nat
  message :: string
  data :: payload

abbreviation HTTP_200_OK :: nat where "HTTP_200_OK \<equiv> 200"
abbreviation HTTP_201_CREATED :: nat where "HTTP_201_CREATED \<equiv> 201"
abbreviation HTTP_400_BAD_REQUEST :: nat where "HTTP_400_BAD_REQUEST \<equiv> 400"
abbreviation HTTP_401_UNAUTHORIZED :: nat where "HTTP_401_UNAUTHORIZED \<equiv> 401"
abbreviation HTTP_403_FORBIDDEN :: nat where "HTTP_403_FORBIDDEN \<equiv> 403"
abbreviation HTTP_404_NOT_FOUND :: nat where "HTTP_404_NOT_FOUND \<equiv> 404"
abbreviation HTTP_500_INTERNAL_SERVER_ERROR :: nat where "HTTP_500_INTERNAL_SERVER_ERROR \<equiv> 500"

text \<open>\<open>CustomResponse.success\<close> and \<open>CustomResponse.error\<close>; an absent \<open>data\<close> or \<open>errors\<close>
  becomes the empty object. The \<open>timestamp\<close> member is left out.\<close>

definition CustomResponse_success :: "payload option \<Rightarrow> string \<Rightarrow> nat \<Rightarrow> Response" where
  "CustomResponse_success d msg status_code =
     \<lparr> success = True, statusCode = status_code, message = msg,
       data = (case d of None \<Rightarrow> Empty | Some x \<Rightarrow> x) \<rparr>"

definition CustomResponse_error :: "string \<Rightarrow> payload option \<Rightarrow> nat \<Rightarrow> Response" where
  "CustomResponse_error msg errors status_code =
     \<lparr> success = False, statusCode = status_code, message = msg,
       data = (case errors of None \<Rightarrow> Empty | Some x \<Rightarrow> x) \<rparr>"

text \<open>An exception that no handler of the view catches and that is not an exception of the
  REST framework leaves the view; the server answers 500. Rows saved before it stay
  saved, each save being its own transaction.\<close>

definition server_error :: Response where
  "server_error =
     \<lparr> success = False, statusCode = HTTP_500_INTERNAL_SERVER_ERROR,
       message = ''Internal Server Error'', data = Empty \<rparr>"

section \<open>Serializer fields\<close>

text \<open>A member of the request body: absent, \<open>null\<close>, or a value.\<close>

datatype 'a field = Absent | Null | Val 'a

text \<open>What a serializer field makes of it: left out of \<open>validated_data\<close>, a validated value,
  or an error with its code. Trimming of surrounding white space is taken as done.\<close>

datatype 'a checked = Omitted | Valid 'a | Invalid string

definition CharField ::
  "bool \<Rightarrow> bool \<Rightarrow> nat option \<Rightarrow> bool \<Rightarrow> string field \<Rightarrow> string checked" where
  "CharField required allow_blank max_length partial fld =
     (case fld of
        Absent \<Rightarrow> if required \<and> \<not> partial then Invalid ''required'' else Omitted
      | Null \<Rightarrow> Invalid ''null''
      | Val v \<Rightarrow>
          if v = [] then (if allow_blank then Valid v else Invalid ''blank'')
          else (case max_length of
                  None \<Rightarrow> Valid v
                | Some n \<Rightarrow> if n < length v then Invalid ''max_length'' else Valid v))"

definition EmailField :: "settings \<Rightarrow> string field \<Rightarrow> string checked" where
  "EmailField cfg fld =
     (case CharField True False None False fld of
        Valid v \<Rightarrow> if validate_email cfg v then Valid v else Invalid ''invalid''
      | other \<Rightarrow> other)"

definition errors_of :: "string \<Rightarrow> 'a checked \<Rightarrow> (string \<times> string) list" where
  "errors_of name c = (case c of Invalid err \<Rightarrow> [(name, err)] | _ \<Rightarrow> [])"

section \<open>Serializers of the OTP flows (accounts/serializers.py)\<close>

record otp_request =
  in_email :: "string field"
  in_otp :: "string field"

record reset_request = otp_request +
  in_new_password :: "string field"
  in_confirm_password :: "string field"

text \<open>\<open>VerifyEmailSerializer\<close> and \<open>VerifyResetOTPSerializer\<close> declare the same two fields.\<close>

definition VerifyEmailSerializer ::
  "settings \<Rightarrow> 'a otp_request_scheme \<Rightarrow> (string \<times> string) list + string \<times> string" where
  "VerifyEmailSerializer cfg d =
     (let e = EmailField cfg (in_email d);
          c = CharField True False (Some 8) False (in_otp d)
      in case (e, c) of
           (Valid em, Valid cd) \<Rightarrow> Inr (em, cd)
         | _ \<Rightarrow> Inl (errors_of ''email'' e @ errors_of ''otp'' c))"

definition VerifyResetOTPSerializer ::
  "settings \<Rightarrow> 'a otp_request_scheme \<Rightarrow> (string \<times> string) list + string \<times> string" where
  "VerifyResetOTPSerializer = VerifyEmailSerializer"

text \<open>\<open>ResetPasswordSerializer\<close>: the four fields, then \<open>validate\<close>, which compares the two
  passwords and runs the password validators.\<close>

definition ResetPasswordSerializer ::
  "settings \<Rightarrow> reset_request \<Rightarrow> (string \<times> string) list + string \<times> string \<times> string" where
  "ResetPasswordSerializer cfg d =
     (let e = EmailField cfg (in_email d);
          c = CharField True False (Some 8) False (in_otp d);
          p = CharField True False None False (in_new_password d);
          q = CharField True False None False (in_confirm_password d)
      in case (e, c, p, q) of
           (Valid em, Valid cd, Valid pw, Valid cf) \<Rightarrow>
             if pw \<noteq> cf then Inl [(''new_password'', ''Password fields didn't match.'')]
             else if \<not> validate_password cfg pw then Inl [(''new_password'', ''invalid'')]
             else Inr (em, cd, pw)
         | _ \<Rightarrow> Inl (errors_of ''email'' e @ errors_of ''otp'' c
                     @ errors_of ''new_password'' p @ errors_of ''confirm_password'' q))"

section \<open>Views of the OTP flows (accounts/views.py)\<close>

text \<open>\<open>OTP.objects.filter(email=email, otp=otp_code).latest('created_at')\<close>\<close>

definition latest_otp :: "string \<Rightarrow> string \<Rightarrow> db \<Rightarrow> (uuid \<times> OTP) option" where
  "latest_otp em cd s = latest (objects_filter (\<lambda>r. OTP.email r = em \<and> otp r = cd) (otps s))"

text \<open>\<open>customer.save()\<close> on a stored customer: the row is overwritten and \<open>updated_at\<close>, an
  \<open>auto_now\<close> column, takes the time of the save.\<close>

definition Customer_save :: "env \<Rightarrow> uuid \<Rightarrow> Customer \<Rightarrow> db \<Rightarrow> db" where
  "Customer_save e i c s =
     s\<lparr>customers := (customers s)[i := c\<lparr>Customer.updated_at := stamp e\<rparr>]\<rparr>"

definition set_password :: "string \<Rightarrow> Customer \<Rightarrow> Customer" where
  "set_password raw c = c\<lparr>password := Hashed raw\<rparr>"

definition VerifyEmailAPIView_post :: "settings \<Rightarrow> env \<Rightarrow> otp_request \<Rightarrow> db \<Rightarrow> Response \<times> db" where
  "VerifyEmailAPIView_post cfg e req s =
     (case VerifyEmailSerializer cfg req of
        Inl errors \<Rightarrow>
          (CustomResponse_error ''Validation failed'' (Some (Errors errors)) HTTP_400_BAD_REQUEST, s)
      | Inr (em, otp_code) \<Rightarrow>
          (case latest_otp em otp_code s of
             None \<Rightarrow> (CustomResponse_error ''Invalid OTP'' None HTTP_400_BAD_REQUEST, s)
           | Some (i, otp_obj) \<Rightarrow>
               if \<not> is_valid e otp_obj
               then (CustomResponse_error ''Invalid or expired OTP'' None HTTP_400_BAD_REQUEST, s)
               else
                 let s1 = OTP_save i (otp_obj\<lparr>is_used := True\<rparr>) s
                 in (case objects_get (\<lambda>c. Customer.email c = em) (customers s1) of
                       DoesNotExist \<Rightarrow>
                         (CustomResponse_error ''User not found'' None HTTP_404_NOT_FOUND, s1)
                     | MultipleObjectsReturned \<Rightarrow> (server_error, s1)
                     | Found j customer \<Rightarrow>
                         (CustomResponse_success None
                            ''Email verified successfully. Registration complete! You can now login.''
                            HTTP_200_OK,
                          Customer_save e j (customer\<lparr>is_verified := True\<rparr>) s1))))"

definition VerifyResetOTPAPIView_post ::
  "settings \<Rightarrow> env \<Rightarrow> otp_request \<Rightarrow> db \<Rightarrow> Response \<times> db" where
  "VerifyResetOTPAPIView_post cfg e req s =
     (case VerifyResetOTPSerializer cfg req of
        Inl errors \<Rightarrow>
          (CustomResponse_error ''Validation failed'' (Some (Errors errors)) HTTP_400_BAD_REQUEST, s)
      | Inr (em, otp_code) \<Rightarrow>
          (case latest_otp em otp_code s of
             None \<Rightarrow> (CustomResponse_error ''Invalid OTP'' None HTTP_400_BAD_REQUEST, s)
           | Some (i, otp_obj) \<Rightarrow>
               if \<not> is_valid e otp_obj
               then (CustomResponse_error ''Invalid or expired OTP'' None HTTP_400_BAD_REQUEST, s)
               else (CustomResponse_success None
                       ''OTP verified successfully. You can now reset your password.''
                       HTTP_200_OK, s)))"

definition ResetPasswordAPIView_post ::
  "settings \<Rightarrow> env \<Rightarrow> reset_request \<Rightarrow> db \<Rightarrow> Response \<times> db" where
  "ResetPasswordAPIView_post cfg e req s =
     (case ResetPasswordSerializer cfg req of
        Inl errors \<Rightarrow>
          (CustomResponse_error ''Validation failed'' (Some (Errors errors)) HTTP_400_BAD_REQUEST, s)
      | Inr (em, otp_code, new_password) \<Rightarrow>
          (case latest_otp em otp_code s of
             None \<Rightarrow> (CustomResponse_error ''Invalid OTP'' None HTTP_400_BAD_REQUEST, s)
           | Some (i, otp_obj) \<Rightarrow>
               if \<not> is_valid e otp_obj
               then (CustomResponse_error ''Invalid or expired OTP'' None HTTP_400_BAD_REQUEST, s)
               else
                 let s1 = OTP_save i (otp_obj\<lparr>is_used := True\<rparr>) s
                 in (case objects_get (\<lambda>c. Customer.email c = em) (customers s1) of
                       DoesNotExist \<Rightarrow>
                         (CustomResponse_error ''User not found'' None HTTP_404_NOT_FOUND, s1)
                     | MultipleObjectsReturned \<Rightarrow> (server_error, s1)
                     | Found j customer \<Rightarrow>
                         (CustomResponse_success None ''Password reset successful'' HTTP_200_OK,
                          Customer_save e j (set_password new_password customer) s1))))"

section \<open>Serializers of the registration flow (accounts/serializers.py)\<close>

definition CharField_null :: "nat option \<Rightarrow> bool \<Rightarrow> string field \<Rightarrow> string option checked" where
  "CharField_null max_length partial fld =
     (case fld of
        Null \<Rightarrow> Valid None
      | _ \<Rightarrow> (case CharField False True max_length partial fld of
                Valid v \<Rightarrow> Valid (Some v)
              | Invalid err \<Rightarrow> Invalid err
              | Omitted \<Rightarrow> Omitted))"

definition ChoiceField ::
  "(string \<times> 'a) list \<Rightarrow> bool \<Rightarrow> bool \<Rightarrow> string field \<Rightarrow> 'a checked" where
  "ChoiceField choices required partial fld =
     (case fld of
        Absent \<Rightarrow> if required \<and> \<not> partial then Invalid ''required'' else Omitted
      | Null \<Rightarrow> Invalid ''null''
      | Val v \<Rightarrow> (case map_of choices v of
                   None \<Rightarrow> Invalid ''invalid_choice''
                 | Some x \<Rightarrow> Valid x))"

definition CustomerType_choices :: "(string \<times> CustomerType) list" where
  "CustomerType_choices = [(''Retail'', Retail), (''Trade'', Trade)]"

definition Province_choices :: "(string \<times> Province) list" where
  "Province_choices =
     [(''Eastern Cape'', EASTERN_CAPE), (''Free State'', FREE_STATE), (''Gauteng'', GAUTENG),
      (''KwaZulu-Natal'', KWAZULU_NATAL), (''Limpopo'', LIMPOPO), (''Mpumalanga'', MPUMALANGA),
      (''Northern Cape'', NORTHERN_CAPE), (''North West'', NORTH_WEST),
      (''Western Cape'', WESTERN_CAPE)]"

definition BusinessType_choices :: "(string \<times> BusinessType) list" where
  "BusinessType_choices =
     [(''Electrician'', ELECTRICIAN), (''Contractor'', CONTRACTOR), (''Reseller'', RESELLER),
      (''Other'', OTHER)]"

text \<open>The value a field contributes to \<open>validated_data\<close>, if any.\<close>

definition value_of :: "'a checked \<Rightarrow> 'a option" where
  "value_of c = (case c of Valid v \<Rightarrow> Some v | _ \<Rightarrow> None)"

text \<open>An address as it arrives in a request body or in a list of a profile patch. In a
  profile patch the entry may carry an \<open>id\<close>; \<open>address_data.get('id')\<close> is then tested for
  truth and, when true, used in a lookup by primary key. \<open>NoId\<close> is an absent, null or
  otherwise false \<open>id\<close>, \<open>Id k\<close> one that denotes the UUID \<open>k\<close>, and \<open>MalformedId\<close> a true
  value that is not a UUID, on which the lookup raises the framework's \<open>ValidationError\<close>.\<close>

datatype id_member = NoId | MalformedId | Id uuid

record address_data =
  adr_id :: id_member
  adr_company_name :: "string field"
  adr_vat_number :: "string field"
  adr_company_registration :: "string field"
  adr_po_number :: "string field"
  adr_address_line_1 :: "string field"
  adr_address_line_2 :: "string field"
  adr_city :: "string field"
  adr_postal_code :: "string field"
  adr_province :: "string field"

record address_validated =
  v_company_name :: "string option option"
  v_vat_number :: "string option option"
  v_company_registration :: "string option option"
  v_po_number :: "string option option"
  v_address_line_1 :: "string option"
  v_address_line_2 :: "string option option"
  v_city :: "string option"
  v_postal_code :: "string option"
  v_province :: "Province option"

text \<open>\<open>BillingAddressSerializer\<close> and \<open>DeliveryAddressSerializer\<close>: model serializers over the
  same fields; \<open>id\<close>, \<open>created_at\<close> and \<open>updated_at\<close> are read-only and ignored on input.\<close>

definition AddressSerializer ::
  "bool \<Rightarrow> 'a address_data_scheme \<Rightarrow> (string \<times> string) list + address_validated" where
  "AddressSerializer partial d =
     (let cn = CharField_null (Some 255) partial (adr_company_name d);
          vn = CharField_null (Some 100) partial (adr_vat_number d);
          cr = CharField_null (Some 100) partial (adr_company_registration d);
          po = CharField_null (Some 100) partial (adr_po_number d);
          a1 = CharField True False (Some 255) partial (adr_address_line_1 d);
          a2 = CharField_null (Some 255) partial (adr_address_line_2 d);
          ci = CharField True False (Some 100) partial (adr_city d);
          pc = CharField True False (Some 20) partial (adr_postal_code d);
          pr = ChoiceField Province_choices True partial (adr_province d);
          errors = errors_of ''company_name'' cn @ errors_of ''vat_number'' vn
                 @ errors_of ''company_registration'' cr @ errors_of ''po_number'' po
                 @ errors_of ''address_line_1'' a1 @ errors_of ''address_line_2'' a2
                 @ errors_of ''city'' ci @ errors_of ''postal_code'' pc
                 @ errors_of ''province'' pr
      in if errors \<noteq> [] then Inl errors
         else Inr \<lparr> v_company_name = value_of cn, v_vat_number = value_of vn,
                    v_company_registration = value_of cr, v_po_number = value_of po,
                    v_address_line_1 = value_of a1, v_address_line_2 = value_of a2,
                    v_city = value_of ci, v_postal_code = value_of pc,
                    v_province = value_of pr \<rparr>)"

definition or_else :: "'a option \<Rightarrow> 'a \<Rightarrow> 'a" where
  "or_else x d = (case x of None \<Rightarrow> d | Some v \<Rightarrow> v)"

text \<open>\<open>serializer.save(user=customer)\<close> on a serializer without instance: a new row. A column
  left out of \<open>validated_data\<close> takes the model's default, \<open>None\<close> for the nullable columns
  (the required ones are never left out when the serializer is not partial).\<close>

definition Address_create :: "env \<Rightarrow> uuid \<Rightarrow> address_validated \<Rightarrow> Address" where
  "Address_create e u vd =
     \<lparr> Address.user = u,
       company_name = or_else (v_company_name vd) None,
       vat_number = or_else (v_vat_number vd) None,
       company_registration = or_else (v_company_registration vd) None,
       po_number = or_else (v_po_number vd) None,
       address_line_1 = or_else (v_address_line_1 vd) [],
       address_line_2 = or_else (v_address_line_2 vd) None,
       city = or_else (v_city vd) [],
       postal_code = or_else (v_postal_code vd) [],
       province = or_else (v_province vd) EASTERN_CAPE,
       Address.created_at = stamp e, Address.updated_at = stamp e \<rparr>"

text \<open>\<open>serializer.save()\<close> on a serializer with an instance: the validated members are set
  on the row, the others stay, and \<open>updated_at\<close> takes the time of the save.\<close>

definition Address_update :: "env \<Rightarrow> address_validated \<Rightarrow> Address \<Rightarrow> Address" where
  "Address_update e vd r =
     r\<lparr> company_name := or_else (v_company_name vd) (company_name r),
        vat_number := or_else (v_vat_number vd) (vat_number r),
        company_registration := or_else (v_company_registration vd) (company_registration r),
        po_number := or_else (v_po_number vd) (po_number r),
        address_line_1 := or_else (v_address_line_1 vd) (address_line_1 r),
        address_line_2 := or_else (v_address_line_2 vd) (address_line_2 r),
        city := or_else (v_city vd) (city r),
        postal_code := or_else (v_postal_code vd) (postal_code r),
        province := or_else (v_province vd) (province r),
        Address.updated_at := stamp e \<rparr>"

text \<open>\<open>os.path.splitext(name)[1].lower()\<close> on the name of an uploaded file (a base name):
  the extension starts at the last dot, unless only dots precede it.\<close>

definition lower_char :: "char \<Rightarrow> char" where
  "lower_char c = (let n = (of_char c :: nat) in if 65 \<le> n \<and> n \<le> 90 then char_of (n + 32) else c)"

definition lower :: "string \<Rightarrow> string" where
  "lower = map lower_char"

definition splitext_ext :: "string \<Rightarrow> string" where
  "splitext_ext name =
     (let tail = rev (takeWhile (\<lambda>c. c \<noteq> CHR ''.'') (rev name));
          head = take (length name - length tail - 1) name
      in if CHR ''.'' \<in> set name \<and> list_ex (\<lambda>c. c \<noteq> CHR ''.'') head then CHR ''.'' # tail
         else [])"

definition valid_extensions :: "string list" where
  "valid_extensions = [''.pdf'', ''.jpg'', ''.jpeg'', ''.png'']"

text \<open>\<open>TradeInformationSerializer.validate_documents\<close>: the first file with a wrong
  extension or more than 10 MiB raises.\<close>

fun validate_documents :: "upload list \<Rightarrow> string + upload list" where
  "validate_documents [] = Inr []"
| "validate_documents (f # fs) =
     (if lower (splitext_ext (file_name f)) \<notin> set valid_extensions
      then Inl (''File '' @ file_name f @ '': Only PDF, JPG, and PNG files are allowed.'')
      else if 10 * 1024 * 1024 < file_size f
      then Inl (''File '' @ file_name f @ '': File size must not exceed 10MB.'')
      else (case validate_documents fs of Inl err \<Rightarrow> Inl err | Inr r \<Rightarrow> Inr (f # r)))"

text \<open>The \<open>documents\<close> member: a list of files, each checked by \<open>FileField\<close> (it needs a name
  and may not be empty), then \<open>validate_documents\<close>.\<close>

definition documents_field :: "upload list option \<Rightarrow> upload list checked" where
  "documents_field d =
     (case d of
        None \<Rightarrow> Omitted
      | Some fs \<Rightarrow>
          if list_ex (\<lambda>f. file_name f = []) fs then Invalid ''no_name''
          else if list_ex (\<lambda>f. file_size f = 0) fs then Invalid ''empty''
          else (case validate_documents fs of Inl err \<Rightarrow> Invalid err | Inr r \<Rightarrow> Valid r))"

record trade_data =
  trd_business_type :: "string field"
  trd_monthly_statement :: "string field"
  trd_procurement_no :: "string field"
  trd_documents :: "upload list option"

record trade_validated =
  v_business_type :: "BusinessType option"
  v_monthly_statement :: "string option option"
  v_procurement_no :: "string option option"
  v_documents :: "upload list option"

text \<open>\<open>TradeInformationSerializer\<close>; \<open>is_approved\<close> is read-only and ignored on input.\<close>

definition TradeInformationSerializer ::
  "bool \<Rightarrow> 'a trade_data_scheme \<Rightarrow> (string \<times> string) list + trade_validated" where
  "TradeInformationSerializer partial d =
     (let bt = ChoiceField BusinessType_choices True partial (trd_business_type d);
          ms = CharField_null (Some 255) partial (trd_monthly_statement d);
          pn = CharField_null (Some 100) partial (trd_procurement_no d);
          dc = documents_field (trd_documents d);
          errors = errors_of ''business_type'' bt @ errors_of ''monthly_statement'' ms
                 @ errors_of ''procurement_no'' pn @ errors_of ''documents'' dc
      in if errors \<noteq> [] then Inl errors
         else Inr \<lparr> v_business_type = value_of bt, v_monthly_statement = value_of ms,
                    v_procurement_no = value_of pn, v_documents = value_of dc \<rparr>)"

definition TradeDocument_new :: "env \<Rightarrow> uuid \<Rightarrow> upload \<Rightarrow> TradeDocument" where
  "TradeDocument_new e t f =
     \<lparr> trade_info = t, document = f,
       TradeDocument.created_at = stamp e, TradeDocument.updated_at = stamp e \<rparr>"

text \<open>\<open>TradeInformationSerializer.create\<close>: the row, then one \<open>TradeDocument\<close> for each file.\<close>

definition TradeInformation_create :: "env \<Rightarrow> uuid \<Rightarrow> trade_validated \<Rightarrow> db \<Rightarrow> TradeInformation \<times> db" where
  "TradeInformation_create e u vd s =
     (let documents_data = or_else (v_documents vd) [];
          t = \<lparr> TradeInformation.user = u,
                business_type = or_else (v_business_type vd) ELECTRICIAN,
                monthly_statement = or_else (v_monthly_statement vd) None,
                procurement_no = or_else (v_procurement_no vd) None,
                is_approved = False,
                TradeInformation.created_at = stamp e, TradeInformation.updated_at = stamp e \<rparr>;
          k = length (trade_information s)
      in (t, s\<lparr> trade_information := trade_information s @ [t],
                trade_documents := trade_documents s @ map (TradeDocument_new e k) documents_data \<rparr>))"

text \<open>\<open>r'^\+?1?\d{9,15}$'\<close>\<close>

definition is_digit :: "char \<Rightarrow> bool" where
  "is_digit c = (let n = (of_char c :: nat) in 48 \<le> n \<and> n \<le> 57)"

definition digits_9_15 :: "string \<Rightarrow> bool" where
  "digits_9_15 t = (9 \<le> length t \<and> length t \<le> 15 \<and> list_all is_digit t)"

definition phone_regex :: "string \<Rightarrow> bool" where
  "phone_regex v =
     (let t = (case v of [] \<Rightarrow> [] | c # r \<Rightarrow> if c = CHR ''+'' then r else v)
      in digits_9_15 t \<or> (case t of [] \<Rightarrow> False | c # r \<Rightarrow> c = CHR ''1'' \<and> digits_9_15 r))"

definition phone_number_field :: "bool \<Rightarrow> string field \<Rightarrow> string option checked" where
  "phone_number_field partial fld =
     (case CharField_null (Some 17) partial fld of
        Valid (Some v) \<Rightarrow> if v = [] \<or> phone_regex v then Valid (Some v) else Invalid ''invalid''
      | other \<Rightarrow> other)"

record register_request =
  reg_customer_type :: "string field"
  reg_first_name :: "string field"
  reg_last_name :: "string field"
  reg_email :: "string field"
  reg_phone_number :: "string field"
  reg_password :: "string field"
  reg_confirm_password :: "string field"

record register_validated =
  vr_customer_type :: "CustomerType option"
  vr_first_name :: "string option"
  vr_last_name :: "string option"
  vr_email :: string
  vr_phone_number :: "string option option"
  vr_password :: string

text \<open>\<open>CustomerRegistrationSerializer\<close>: the model's \<open>email\<close> column is unique, so the field
  carries a uniqueness validator over the customers; \<open>validate\<close> compares the two
  passwords and runs the password validators.\<close>

definition registration_email_field :: "settings \<Rightarrow> db \<Rightarrow> string field \<Rightarrow> string checked" where
  "registration_email_field cfg s fld =
     (case EmailField cfg fld of
        Valid v \<Rightarrow>
          if 254 < length v then Invalid ''max_length''
          else if list_ex (\<lambda>c. Customer.email c = v) (customers s) then Invalid ''unique''
          else Valid v
      | other \<Rightarrow> other)"

definition CustomerRegistrationSerializer ::
  "settings \<Rightarrow> db \<Rightarrow> register_request \<Rightarrow> (string \<times> string) list + register_validated" where
  "CustomerRegistrationSerializer cfg s d =
     (let ct = ChoiceField CustomerType_choices False False (reg_customer_type d);
          fn = CharField False True (Some 150) False (reg_first_name d);
          ln = CharField False True (Some 150) False (reg_last_name d);
          em = registration_email_field cfg s (reg_email d);
          ph = phone_number_field False (reg_phone_number d);
          pw = CharField True False None False (reg_password d);
          cf = CharField True False None False (reg_confirm_password d);
          errors = errors_of ''customer_type'' ct @ errors_of ''first_name'' fn
                 @ errors_of ''last_name'' ln @ errors_of ''email'' em
                 @ errors_of ''phone_number'' ph @ errors_of ''password'' pw
                 @ errors_of ''confirm_password'' cf
      in case (em, pw, cf) of
           (Valid e1, Valid p1, Valid c1) \<Rightarrow>
             if errors \<noteq> [] then Inl errors
             else if p1 \<noteq> c1 then Inl [(''password'', ''Password fields didn't match.'')]
             else if \<not> validate_password cfg p1 then Inl [(''password'', ''invalid'')]
             else Inr \<lparr> vr_customer_type = value_of ct, vr_first_name = value_of fn,
                        vr_last_name = value_of ln, vr_email = e1,
                        vr_phone_number = value_of ph, vr_password = p1 \<rparr>
         | _ \<Rightarrow> Inl errors)"

text \<open>\<open>BaseUserManager.normalize_email\<close>: the part after the last \<open>@\<close> in lower case.\<close>

definition normalize_email :: "string \<Rightarrow> string" where
  "normalize_email a =
     (if CHR ''@'' \<notin> set a then a
      else let domain_part = rev (takeWhile (\<lambda>c. c \<noteq> CHR ''@'') (rev a));
               email_name = take (length a - length domain_part - 1) a
           in email_name @ ''@'' @ lower domain_part)"

text \<open>\<open>CustomerManager.create_user\<close> through \<open>CustomerRegistrationSerializer.create\<close>. The
  columns that the serializer does not carry take the model's defaults: not verified,
  active, not staff. The insert fails on the unique index when the normalized address
  is taken already.\<close>

datatype 'a raised = ValueError | IntegrityError | Returned 'a

definition create_user :: "env \<Rightarrow> register_validated \<Rightarrow> db \<Rightarrow> (uuid \<times> Customer \<times> db) raised" where
  "create_user e vd s =
     (if vr_email vd = [] then ValueError
      else
        let em = normalize_email (vr_email vd);
            u = \<lparr> customer_type = or_else (vr_customer_type vd) Retail,
                  first_name = or_else (vr_first_name vd) [],
                  last_name = or_else (vr_last_name vd) [],
                  Customer.email = em,
                  phone_number = or_else (vr_phone_number vd) None,
                  password = Hashed (vr_password vd),
                  is_verified = False, is_active = True, is_staff = False,
                  is_superuser = False,
                  Customer.created_at = stamp e, Customer.updated_at = stamp e \<rparr>
        in if list_ex (\<lambda>c. Customer.email c = em) (customers s) then IntegrityError
           else Returned (length (customers s), u, s\<lparr>customers := customers s @ [u]\<rparr>))"

section \<open>Views of the registration flow (accounts/views.py)\<close>

text \<open>\<open>send_mail\<close>: the views catch and print any failure, so a call only adds to the list of
  attempts.\<close>

definition send_mail :: "string \<Rightarrow> string \<Rightarrow> string \<Rightarrow> db \<Rightarrow> db" where
  "send_mail subj rcpt otp_code s =
     s\<lparr>outbox := outbox s @ [\<lparr> subject = subj, recipient = rcpt, body_code = otp_code \<rparr>]\<rparr>"

text \<open>\<open>request.data.get('email')\<close> followed by \<open>if not email\<close>: \<open>None\<close> when the member is
  absent, null or empty.\<close>

definition request_email :: "string field \<Rightarrow> string option" where
  "request_email fld = (case fld of Val v \<Rightarrow> if v = [] then None else Some v | _ \<Rightarrow> None)"

definition RegisterAPIView_post ::
  "settings \<Rightarrow> env \<Rightarrow> register_request \<Rightarrow> db \<Rightarrow> Response \<times> db" where
  "RegisterAPIView_post cfg e req s =
     (case CustomerRegistrationSerializer cfg s req of
        Inl errors \<Rightarrow>
          (CustomResponse_error ''Registration failed'' (Some (Errors errors)) HTTP_400_BAD_REQUEST, s)
      | Inr vd \<Rightarrow>
          (case create_user e vd s of
             ValueError \<Rightarrow> (server_error, s)
           | IntegrityError \<Rightarrow> (server_error, s)
           | Returned (k, customer, s1) \<Rightarrow>
               (CustomResponse_success
                  (Some (RegisterData k (Customer.email customer) (customer_type customer)))
                  ''Registration successful. Please complete billing address.''
                  HTTP_201_CREATED, s1)))"

record address_request = address_data +
  adr_email :: "string field"

definition BillingAddressRegisterAPIView_post ::
  "settings \<Rightarrow> env \<Rightarrow> address_request \<Rightarrow> db \<Rightarrow> Response \<times> db" where
  "BillingAddressRegisterAPIView_post cfg e req s =
     (case request_email (adr_email req) of
        None \<Rightarrow> (CustomResponse_error ''Email is required'' None HTTP_400_BAD_REQUEST, s)
      | Some em \<Rightarrow>
          (case objects_get (\<lambda>c. Customer.email c = em) (customers s) of
             DoesNotExist \<Rightarrow>
               (CustomResponse_error ''Customer not found. Please register first.'' None
                  HTTP_404_NOT_FOUND, s)
           | MultipleObjectsReturned \<Rightarrow> (server_error, s)
           | Found j customer \<Rightarrow>
               (case AddressSerializer False req of
                  Inl errors \<Rightarrow>
                    (CustomResponse_error ''Validation failed'' (Some (Errors errors))
                       HTTP_400_BAD_REQUEST, s)
                | Inr vd \<Rightarrow>
                    let a = Address_create e j vd
                    in (CustomResponse_success (Some (AddressData a))
                          ''Billing address added successfully. Please complete delivery address.''
                          HTTP_201_CREATED,
                        s\<lparr>billing_addresses := billing_addresses s @ [a]\<rparr>))))"

definition DeliveryAddressRegisterAPIView_post ::
  "settings \<Rightarrow> env \<Rightarrow> address_request \<Rightarrow> db \<Rightarrow> Response \<times> db" where
  "DeliveryAddressRegisterAPIView_post cfg e req s =
     (case request_email (adr_email req) of
        None \<Rightarrow> (CustomResponse_error ''Email is required'' None HTTP_400_BAD_REQUEST, s)
      | Some em \<Rightarrow>
          (case objects_get (\<lambda>c. Customer.email c = em) (customers s) of
             DoesNotExist \<Rightarrow>
               (CustomResponse_error ''Customer not found. Please register first.'' None
                  HTTP_404_NOT_FOUND, s)
           | MultipleObjectsReturned \<Rightarrow> (server_error, s)
           | Found j customer \<Rightarrow>
               (case AddressSerializer False req of
                  Inl errors \<Rightarrow>
                    (CustomResponse_error ''Validation failed'' (Some (Errors errors))
                       HTTP_400_BAD_REQUEST, s)
                | Inr vd \<Rightarrow>
                    let a = Address_create e j vd;
                        s1 = s\<lparr>delivery_addresses := delivery_addresses s @ [a]\<rparr>
                    in if customer_type customer = Trade
                       then (CustomResponse_success (Some (AddressData a))
                               ''Delivery address added successfully. Please complete trade information.''
                               HTTP_201_CREATED, s1)
                       else
                         let otp_code = generate_otp e;
                             s2 = OTP_objects_create e (Customer.email customer) otp_code s1;
                             s3 = send_mail ''Email Verification - Seidik Ecommerce''
                                    (Customer.email customer) otp_code s2
                         in (CustomResponse_success (Some (AddressData a))
                               ''Delivery address added successfully. Verification email sent. Please verify your email.''
                               HTTP_201_CREATED, s3))))"

record trade_request = trade_data +
  trd_email :: "string field"

definition TradeInformationRegisterAPIView_post ::
  "settings \<Rightarrow> env \<Rightarrow> trade_request \<Rightarrow> db \<Rightarrow> Response \<times> db" where
  "TradeInformationRegisterAPIView_post cfg e req s =
     (case request_email (trd_email req) of
        None \<Rightarrow> (CustomResponse_error ''Email is required'' None HTTP_400_BAD_REQUEST, s)
      | Some em \<Rightarrow>
          (case objects_get (\<lambda>c. Customer.email c = em) (customers s) of
             DoesNotExist \<Rightarrow>
               (CustomResponse_error ''Customer not found. Please register first.'' None
                  HTTP_404_NOT_FOUND, s)
           | MultipleObjectsReturned \<Rightarrow> (server_error, s)
           | Found j customer \<Rightarrow>
               if customer_type customer \<noteq> Trade
               then (CustomResponse_error ''Only Trade customers can submit trade information'' None
                       HTTP_403_FORBIDDEN, s)
               else
                 (case objects_get (\<lambda>t. TradeInformation.user t = j) (trade_information s) of
                    Found k t \<Rightarrow>
                      (CustomResponse_error ''Trade information already exists for this customer''
                         None HTTP_400_BAD_REQUEST, s)
                  | MultipleObjectsReturned \<Rightarrow> (server_error, s)
                  | DoesNotExist \<Rightarrow>
                      (case TradeInformationSerializer False req of
                         Inl errors \<Rightarrow>
                           (CustomResponse_error ''Validation failed'' (Some (Errors errors))
                              HTTP_400_BAD_REQUEST, s)
                       | Inr vd \<Rightarrow>
                           let (t, s1) = TradeInformation_create e j vd s;
                               otp_code = generate_otp e;
                               s2 = OTP_objects_create e (Customer.email customer) otp_code s1;
                               s3 = send_mail ''Email Verification - Seidik Ecommerce''
                                      (Customer.email customer) otp_code s2
                           in (CustomResponse_success
                                 (Some (TradeInformationData t (or_else (v_documents vd) [])))
                                 ''Trade information submitted successfully. Verification email sent. Please verify your email.''
                                 HTTP_201_CREATED, s3)))))"

record email_request =
  er_email :: "string field"

text \<open>\<open>ResendOTPSerializer\<close> and \<open>ForgotPasswordSerializer\<close>: one required e-mail field.\<close>

definition ResendOTPSerializer ::
  "settings \<Rightarrow> email_request \<Rightarrow> (string \<times> string) list + string" where
  "ResendOTPSerializer cfg d =
     (let em = EmailField cfg (er_email d)
      in case em of Valid v \<Rightarrow> Inr v | _ \<Rightarrow> Inl (errors_of ''email'' em))"

definition ForgotPasswordSerializer ::
  "settings \<Rightarrow> email_request \<Rightarrow> (string \<times> string) list + string" where
  "ForgotPasswordSerializer = ResendOTPSerializer"

definition ResendOTPAPIView_post ::
  "settings \<Rightarrow> env \<Rightarrow> email_request \<Rightarrow> db \<Rightarrow> Response \<times> db" where
  "ResendOTPAPIView_post cfg e req s =
     (case ResendOTPSerializer cfg req of
        Inl errors \<Rightarrow>
          (CustomResponse_error ''Validation failed'' (Some (Errors errors)) HTTP_400_BAD_REQUEST, s)
      | Inr em \<Rightarrow>
          (case objects_get (\<lambda>c. Customer.email c = em) (customers s) of
             DoesNotExist \<Rightarrow> (CustomResponse_error ''User not found'' None HTTP_404_NOT_FOUND, s)
           | MultipleObjectsReturned \<Rightarrow> (server_error, s)
           | Found j customer \<Rightarrow>
               if is_verified customer
               then (CustomResponse_error ''Email is already verified'' None HTTP_400_BAD_REQUEST, s)
               else
                 let otp_code = generate_otp e;
                     s1 = OTP_objects_create e em otp_code s;
                     s2 = send_mail ''Email Verification'' em otp_code s1
                 in (CustomResponse_success None ''OTP sent successfully'' HTTP_200_OK, s2)))"

definition ForgotPasswordAPIView_post ::
  "settings \<Rightarrow> env \<Rightarrow> email_request \<Rightarrow> db \<Rightarrow> Response \<times> db" where
  "ForgotPasswordAPIView_post cfg e req s =
     (case ForgotPasswordSerializer cfg req of
        Inl errors \<Rightarrow>
          (CustomResponse_error ''Validation failed'' (Some (Errors errors)) HTTP_400_BAD_REQUEST, s)
      | Inr em \<Rightarrow>
          (case objects_get (\<lambda>c. Customer.email c = em) (customers s) of
             DoesNotExist \<Rightarrow>
               (CustomResponse_error ''User with this email does not exist'' None
                  HTTP_404_NOT_FOUND, s)
           | MultipleObjectsReturned \<Rightarrow> (server_error, s)
           | Found j customer \<Rightarrow>
               let otp_code = generate_otp e;
                   s1 = OTP_objects_create e em otp_code s;
                   s2 = send_mail ''Password Reset Code'' em otp_code s1
               in (CustomResponse_success None ''Password reset OTP sent to your email''
                     HTTP_200_OK, s2)))"

section \<open>Authentication views (accounts/views.py)\<close>

record login_request =
  lg_email :: "string field"
  lg_password :: "string field"
  lg_remember_me :: "bool field"

definition LoginSerializer ::
  "settings \<Rightarrow> login_request \<Rightarrow> (string \<times> string) list + string \<times> string \<times> bool" where
  "LoginSerializer cfg d =
     (let em = EmailField cfg (lg_email d);
          pw = CharField True False None False (lg_password d);
          rm = (case lg_remember_me d of
                  Absent \<Rightarrow> Valid False
                | Null \<Rightarrow> Invalid ''null''
                | Val b \<Rightarrow> Valid b)
      in case (em, pw, rm) of
           (Valid a, Valid p, Valid r) \<Rightarrow> Inr (a, p, r)
         | _ \<Rightarrow> Inl (errors_of ''email'' em @ errors_of ''password'' pw
                     @ errors_of ''remember_me'' rm))"

text \<open>\<open>django.contrib.auth.authenticate(email=..., password=...)\<close> with the configured
  backend: the customer is fetched by the \<open>USERNAME_FIELD\<close>, the password is checked, and
  \<open>user_can_authenticate\<close> is asked, which under \<open>ModelBackend\<close> is \<open>is_active\<close> and under
  \<open>AllowAllUsersModelBackend\<close> is always true. Every refusal is the result \<open>None\<close>.\<close>

definition user_can_authenticate :: "settings \<Rightarrow> Customer \<Rightarrow> bool" where
  "user_can_authenticate cfg u =
     (case AUTHENTICATION_BACKENDS cfg of
        ModelBackend \<Rightarrow> is_active u
      | AllowAllUsersModelBackend \<Rightarrow> True)"

datatype authenticated = NoUser | RaisedMultipleObjectsReturned | User uuid Customer

definition authenticate :: "settings \<Rightarrow> string \<Rightarrow> string \<Rightarrow> db \<Rightarrow> authenticated" where
  "authenticate cfg em raw s =
     (case objects_get (\<lambda>c. Customer.email c = em) (customers s) of
        DoesNotExist \<Rightarrow> NoUser
      | MultipleObjectsReturned \<Rightarrow> RaisedMultipleObjectsReturned
      | Found j u \<Rightarrow>
          if check_password raw (password u) \<and> user_can_authenticate cfg u then User j u
          else NoUser)"

text \<open>\<open>RefreshToken.for_user(user)\<close> with the blacklist application installed (the admin
  module unregisters its models): the token is recorded as outstanding. Its identifier
  is fresh.\<close>

definition RefreshToken_for_user :: "settings \<Rightarrow> env \<Rightarrow> uuid \<Rightarrow> db \<Rightarrow> RefreshToken \<times> db" where
  "RefreshToken_for_user cfg e j s =
     (let t = \<lparr> jti = length (outstanding_tokens s), token_user = j,
                token_exp = now e + REFRESH_TOKEN_LIFETIME cfg \<rparr>
      in (t, s\<lparr>outstanding_tokens := outstanding_tokens s @ [t]\<rparr>))"

definition access_token :: "settings \<Rightarrow> env \<Rightarrow> RefreshToken \<Rightarrow> AccessToken" where
  "access_token cfg e t =
     \<lparr> access_user = token_user t, access_exp = now e + ACCESS_TOKEN_LIFETIME cfg \<rparr>"

definition LoginAPIView_post ::
  "settings \<Rightarrow> env \<Rightarrow> login_request \<Rightarrow> db \<Rightarrow> Response \<times> db" where
  "LoginAPIView_post cfg e req s =
     (case LoginSerializer cfg req of
        Inl errors \<Rightarrow>
          (CustomResponse_error ''Validation failed'' (Some (Errors errors)) HTTP_400_BAD_REQUEST, s)
      | Inr (em, raw, remember_me) \<Rightarrow>
          (case authenticate cfg em raw s of
             RaisedMultipleObjectsReturned \<Rightarrow> (server_error, s)
           | NoUser \<Rightarrow>
               (CustomResponse_error ''Invalid credentials'' None HTTP_401_UNAUTHORIZED, s)
           | User j u \<Rightarrow>
               if \<not> is_verified u
               then (CustomResponse_error ''Email not verified. Please verify your email first.''
                       None HTTP_403_FORBIDDEN, s)
               else if \<not> is_active u
               then (CustomResponse_error ''Account is deactivated'' None HTTP_403_FORBIDDEN, s)
               else
                 let (t, s1) = RefreshToken_for_user cfg e j s;
                     refresh = (if remember_me then t\<lparr>token_exp := now e + timedelta_days 30\<rparr>
                                else t)
                 in (CustomResponse_success
                       (Some (LoginData (access_token cfg e refresh) refresh
                                (UserSummary j (Customer.email u) (first_name u) (last_name u)
                                   (customer_type u) (is_verified u))))
                       ''Login successful'' HTTP_200_OK, s1)))"

text \<open>A token as a request presents it: none, a text that does not decode to a signed
  token of the right type, or a token. The constructor \<open>RefreshToken(text)\<close> raises
  \<open>TokenError\<close> unless the token decodes, has not expired and is not blacklisted.\<close>

datatype 'a presented = Missing | Undecodable | Decoded 'a

definition RefreshToken_verify :: "env \<Rightarrow> db \<Rightarrow> RefreshToken presented \<Rightarrow> RefreshToken option" where
  "RefreshToken_verify e s p =
     (case p of
        Decoded t \<Rightarrow>
          if token_exp t \<le> now e \<or> jti t \<in> set (blacklisted_tokens s) then None else Some t
      | _ \<Rightarrow> None)"

text \<open>The permission \<open>IsAuthenticated\<close> over the token library's authentication: the access
  token must decode and not have expired, its customer must exist and be active.
  Otherwise the framework answers 401 through \<open>custom_exception_handler\<close>.\<close>

definition api_exception :: "nat \<Rightarrow> (string \<times> string) list \<Rightarrow> Response" where
  "api_exception status_code detail =
     \<lparr> success = False, statusCode = status_code,
       message = (case detail of [] \<Rightarrow> [] | (k, v) # _ \<Rightarrow> v),
       data = Errors detail \<rparr>"

definition request_user :: "env \<Rightarrow> db \<Rightarrow> AccessToken presented \<Rightarrow> Response + uuid \<times> Customer" where
  "request_user e s p =
     (case p of
        Missing \<Rightarrow>
          Inl (api_exception HTTP_401_UNAUTHORIZED
                 [(''detail'', ''Authentication credentials were not provided.'')])
      | Undecodable \<Rightarrow>
          Inl (api_exception HTTP_401_UNAUTHORIZED
                 [(''detail'', ''Given token not valid for any token type'')])
      | Decoded t \<Rightarrow>
          if access_exp t \<le> now e
          then Inl (api_exception HTTP_401_UNAUTHORIZED
                      [(''detail'', ''Given token not valid for any token type'')])
          else if length (customers s) \<le> access_user t
          then Inl (api_exception HTTP_401_UNAUTHORIZED [(''detail'', ''User not found'')])
          else if \<not> is_active (customers s ! access_user t)
          then Inl (api_exception HTTP_401_UNAUTHORIZED [(''detail'', ''User is inactive'')])
          else Inr (access_user t, customers s ! access_user t))"

record logout_request =
  lo_auth :: "AccessToken presented"
  lo_refresh :: "RefreshToken presented"

text \<open>\<open>token.blacklist()\<close>: the token is recorded as outstanding if it is not yet, and as
  blacklisted if it is not yet.\<close>

definition blacklist :: "RefreshToken \<Rightarrow> db \<Rightarrow> db" where
  "blacklist t s =
     s\<lparr> outstanding_tokens :=
          (if jti t \<in> jti ` set (outstanding_tokens s) then outstanding_tokens s
           else outstanding_tokens s @ [t]),
        blacklisted_tokens :=
          (if jti t \<in> set (blacklisted_tokens s) then blacklisted_tokens s
           else blacklisted_tokens s @ [jti t]) \<rparr>"

definition LogoutAPIView_post ::
  "settings \<Rightarrow> env \<Rightarrow> logout_request \<Rightarrow> db \<Rightarrow> Response \<times> db" where
  "LogoutAPIView_post cfg e req s =
     (case request_user e s (lo_auth req) of
        Inl denied \<Rightarrow> (denied, s)
      | Inr (j, u) \<Rightarrow>
          (case lo_refresh req of
             Missing \<Rightarrow>
               (CustomResponse_error ''Refresh token is required'' None HTTP_400_BAD_REQUEST, s)
           | p \<Rightarrow>
               (case RefreshToken_verify e s p of
                  None \<Rightarrow>
                    (CustomResponse_error ''Invalid or expired token'' None HTTP_400_BAD_REQUEST, s)
                | Some t \<Rightarrow>
                    (CustomResponse_success None ''Logout successful'' HTTP_200_OK,
                     blacklist t s))))"

record refresh_request =
  rf_refresh :: "RefreshToken presented"

definition RefreshTokenAPIView_post ::
  "settings \<Rightarrow> env \<Rightarrow> refresh_request \<Rightarrow> db \<Rightarrow> Response \<times> db" where
  "RefreshTokenAPIView_post cfg e req s =
     (case rf_refresh req of
        Missing \<Rightarrow>
          (CustomResponse_error ''Validation failed'' (Some (Errors [(''refresh'', ''required'')]))
             HTTP_400_BAD_REQUEST, s)
      | p \<Rightarrow>
          (case RefreshToken_verify e s p of
             None \<Rightarrow>
               (CustomResponse_error ''Invalid or expired refresh token'' None
                  HTTP_401_UNAUTHORIZED, s)
           | Some t \<Rightarrow>
               (CustomResponse_success (Some (TokenData (access_token cfg e t)))
                  ''Token refreshed successfully'' HTTP_200_OK, s)))"

record change_password_request =
  cp_auth :: "AccessToken presented"
  cp_old_password :: "string field"
  cp_new_password :: "string field"
  cp_confirm_password :: "string field"

text \<open>\<open>ChangePasswordSerializer\<close>: \<open>validate_old_password\<close> belongs to the field, \<open>validate\<close>
  runs once every field has passed.\<close>

definition ChangePasswordSerializer ::
  "settings \<Rightarrow> Customer \<Rightarrow> change_password_request \<Rightarrow> (string \<times> string) list + string" where
  "ChangePasswordSerializer cfg u d =
     (let old = (case CharField True False None False (cp_old_password d) of
                   Valid v \<Rightarrow> if check_password v (password u) then Valid v
                              else Invalid ''Old password is incorrect.''
                 | other \<Rightarrow> other);
          new = CharField True False None False (cp_new_password d);
          cnf = CharField True False None False (cp_confirm_password d)
      in case (old, new, cnf) of
           (Valid ov, Valid nv, Valid cv) \<Rightarrow>
             if nv \<noteq> cv then Inl [(''new_password'', ''Password fields didn't match.'')]
             else if \<not> validate_password cfg nv then Inl [(''new_password'', ''invalid'')]
             else Inr nv
         | _ \<Rightarrow> Inl (errors_of ''old_password'' old @ errors_of ''new_password'' new
                     @ errors_of ''confirm_password'' cnf))"

definition ChangePasswordAPIView_post ::
  "settings \<Rightarrow> env \<Rightarrow> change_password_request \<Rightarrow> db \<Rightarrow> Response \<times> db" where
  "ChangePasswordAPIView_post cfg e req s =
     (case request_user e s (cp_auth req) of
        Inl denied \<Rightarrow> (denied, s)
      | Inr (j, u) \<Rightarrow>
          (case ChangePasswordSerializer cfg u req of
             Inl errors \<Rightarrow>
               (CustomResponse_error ''Validation failed'' (Some (Errors errors))
                  HTTP_400_BAD_REQUEST, s)
           | Inr new_password \<Rightarrow>
               (CustomResponse_success None ''Password changed successfully'' HTTP_200_OK,
                Customer_save e j (set_password new_password u) s)))"

section \<open>Profile (accounts/serializers.py, accounts/views.py)\<close>

definition get_full_name :: "Customer \<Rightarrow> string" where
  "get_full_name u =
     (if first_name u \<noteq> [] \<and> last_name u \<noteq> [] then first_name u @ '' '' @ last_name u
      else if first_name u \<noteq> [] then first_name u
      else if last_name u \<noteq> [] then last_name u
      else Customer.email u)"

text \<open>\<open>CustomerProfileSerializer(...).data\<close>; \<open>None\<close> when \<open>get_trade_information\<close> raises
  \<open>MultipleObjectsReturned\<close>.\<close>

definition CustomerProfileSerializer_data :: "uuid \<Rightarrow> Customer \<Rightarrow> db \<Rightarrow> profile option" where
  "CustomerProfileSerializer_data j u s =
     (let billing = objects_filter (\<lambda>a. Address.user a = j) (billing_addresses s);
          delivery = objects_filter (\<lambda>a. Address.user a = j) (delivery_addresses s);
          mk = (\<lambda>t. Profile j (customer_type u) (first_name u) (last_name u) (get_full_name u)
                        (Customer.email u) (phone_number u) (is_verified u) billing delivery t
                        (Customer.created_at u) (Customer.updated_at u))
      in case objects_get (\<lambda>t. TradeInformation.user t = j) (trade_information s) of
           DoesNotExist \<Rightarrow> Some (mk None)
         | MultipleObjectsReturned \<Rightarrow> None
         | Found k t \<Rightarrow>
             Some (mk (Some (k, t, objects_filter (\<lambda>d. trade_info d = k) (trade_documents s)))))"

record profile_request =
  pr_auth :: "AccessToken presented"

definition ProfileAPIView_get ::
  "settings \<Rightarrow> env \<Rightarrow> profile_request \<Rightarrow> db \<Rightarrow> Response \<times> db" where
  "ProfileAPIView_get cfg e req s =
     (case request_user e s (pr_auth req) of
        Inl denied \<Rightarrow> (denied, s)
      | Inr (j, u) \<Rightarrow>
          (case CustomerProfileSerializer_data j u s of
             None \<Rightarrow> (server_error, s)
           | Some p \<Rightarrow>
               (CustomResponse_success (Some (ProfileData p)) ''Profile retrieved successfully''
                  HTTP_200_OK, s)))"

record profile_patch = profile_request +
  pp_first_name :: "string field"
  pp_last_name :: "string field"
  pp_phone_number :: "string field"
  pp_billing_addresses :: "address_data list option"
  pp_delivery_addresses :: "address_data list option"
  pp_trade_information :: "trade_data option"

record profile_validated =
  vp_first_name :: "string option"
  vp_last_name :: "string option"
  vp_phone_number :: "string option option"
  vp_billing_addresses :: "address_data list option"
  vp_delivery_addresses :: "address_data list option"
  vp_trade_information :: "trade_data option"

text \<open>\<open>CustomerProfileUpdateSerializer\<close>, always used with \<open>partial=True\<close>. The two lists and
  the dictionary are passed on as they came: their members are not validated here.\<close>

definition CustomerProfileUpdateSerializer ::
  "profile_patch \<Rightarrow> (string \<times> string) list + profile_validated" where
  "CustomerProfileUpdateSerializer d =
     (let fn = CharField False True (Some 150) True (pp_first_name d);
          ln = CharField False True (Some 150) True (pp_last_name d);
          ph = phone_number_field True (pp_phone_number d);
          errors = errors_of ''first_name'' fn @ errors_of ''last_name'' ln
                 @ errors_of ''phone_number'' ph
      in if errors \<noteq> [] then Inl errors
         else Inr \<lparr> vp_first_name = value_of fn, vp_last_name = value_of ln,
                    vp_phone_number = value_of ph,
                    vp_billing_addresses = pp_billing_addresses d,
                    vp_delivery_addresses = pp_delivery_addresses d,
                    vp_trade_information = pp_trade_information d \<rparr>)"

text \<open>What can leave \<open>update\<close>: the REST framework's \<open>ValidationError\<close> with its errors
  (\<open>is_valid(raise_exception=True)\<close> and the explicit \<open>raise\<close>), the framework's own
  \<open>ValidationError\<close> of a lookup by a value that is not a UUID, and
  \<open>MultipleObjectsReturned\<close>.\<close>

datatype exn =
    SerializerValidationError "(string \<times> string) list"
  | DjangoValidationError
  | MultipleObjects

text \<open>One round of the loop over \<open>billing_addresses_data\<close> (and of the identical loop over
  \<open>delivery_addresses_data\<close>), on the table it writes to. With an \<open>id\<close>: the row with that
  primary key and this customer as \<open>user\<close> is fetched, \<open>DoesNotExist\<close> is passed over in
  silence, a found row is updated from the entry through the partial serializer.
  Without: a new row for this customer through the full serializer.\<close>

definition update_address ::
  "env \<Rightarrow> uuid \<Rightarrow> address_data \<Rightarrow> Address list \<Rightarrow> exn + Address list" where
  "update_address e instance address_data tbl =
     (case adr_id address_data of
        Id address_id \<Rightarrow>
          if address_id < length tbl \<and> Address.user (tbl ! address_id) = instance
          then (case AddressSerializer True address_data of
                  Inl errors \<Rightarrow> Inl (SerializerValidationError errors)
                | Inr vd \<Rightarrow> Inr (tbl[address_id := Address_update e vd (tbl ! address_id)]))
          else Inr tbl
      | MalformedId \<Rightarrow> Inl DjangoValidationError
      | NoId \<Rightarrow>
          (case AddressSerializer False address_data of
             Inl errors \<Rightarrow> Inl (SerializerValidationError errors)
           | Inr vd \<Rightarrow> Inr (tbl @ [Address_create e instance vd])))"

text \<open>The loop: an exception ends it; what earlier rounds wrote stays written.\<close>

fun update_addresses ::
  "env \<Rightarrow> uuid \<Rightarrow> address_data list \<Rightarrow> Address list \<Rightarrow> exn option \<times> Address list" where
  "update_addresses e instance [] tbl = (None, tbl)"
| "update_addresses e instance (address_data # rest) tbl =
     (case update_address e instance address_data tbl of
        Inl x \<Rightarrow> (Some x, tbl)
      | Inr tbl' \<Rightarrow> update_addresses e instance rest tbl')"

definition TradeInformation_update ::
  "env \<Rightarrow> trade_validated \<Rightarrow> TradeInformation \<Rightarrow> TradeInformation" where
  "TradeInformation_update e vd t =
     t\<lparr> business_type := or_else (v_business_type vd) (business_type t),
        monthly_statement := or_else (v_monthly_statement vd) (monthly_statement t),
        procurement_no := or_else (v_procurement_no vd) (procurement_no t),
        TradeInformation.updated_at := stamp e \<rparr>"

text \<open>The last part of \<open>update\<close>: trade information, for Trade customers only. The
  \<open>documents\<close> are taken out of the dictionary before the serializer sees it and are
  stored afterwards, unchecked.\<close>

definition update_trade_information ::
  "env \<Rightarrow> uuid \<Rightarrow> Customer \<Rightarrow> trade_data \<Rightarrow> db \<Rightarrow> exn option \<times> db" where
  "update_trade_information e j instance trade_information_data s =
     (if customer_type instance \<noteq> Trade
      then (Some (SerializerValidationError
                    [(''trade_information'', ''Only Trade customers can have trade information'')]), s)
      else
        let documents_data = trd_documents trade_information_data;
            rest = trade_information_data\<lparr>trd_documents := None\<rparr>;
            attach = (\<lambda>k s'. case documents_data of
                               None \<Rightarrow> s'
                             | Some fs \<Rightarrow>
                                 s'\<lparr>trade_documents :=
                                      trade_documents s' @ map (TradeDocument_new e k) fs\<rparr>)
        in case objects_get (\<lambda>t. TradeInformation.user t = j) (trade_information s) of
             MultipleObjectsReturned \<Rightarrow> (Some MultipleObjects, s)
           | Found k t \<Rightarrow>
               (case TradeInformationSerializer True rest of
                  Inl errors \<Rightarrow> (Some (SerializerValidationError errors), s)
                | Inr vd \<Rightarrow>
                    (None, attach k (s\<lparr>trade_information :=
                                         (trade_information s)[k := TradeInformation_update e vd t]\<rparr>)))
           | DoesNotExist \<Rightarrow>
               (case TradeInformationSerializer False rest of
                  Inl errors \<Rightarrow> (Some (SerializerValidationError errors), s)
                | Inr vd \<Rightarrow>
                    (None, attach (length (trade_information s))
                             (snd (TradeInformation_create e j vd s)))))"

text \<open>\<open>CustomerProfileUpdateSerializer.update\<close>\<close>

definition update :: "env \<Rightarrow> uuid \<Rightarrow> Customer \<Rightarrow> profile_validated \<Rightarrow> db \<Rightarrow> exn option \<times> db" where
  "update e j instance validated_data s =
     (let instance1 = instance\<lparr> first_name := or_else (vp_first_name validated_data) (first_name instance),
                                last_name := or_else (vp_last_name validated_data) (last_name instance),
                                phone_number := or_else (vp_phone_number validated_data)
                                                  (phone_number instance) \<rparr>;
          s1 = Customer_save e j instance1 s;
          (x2, s2) = (case vp_billing_addresses validated_data of
                        None \<Rightarrow> (None, s1)
                      | Some billing_addresses_data \<Rightarrow>
                          (let (x, tbl) = update_addresses e j billing_addresses_data
                                            (billing_addresses s1)
                           in (x, s1\<lparr>billing_addresses := tbl\<rparr>)))
      in case x2 of
           Some x \<Rightarrow> (Some x, s2)
         | None \<Rightarrow>
             let (x3, s3) = (case vp_delivery_addresses validated_data of
                               None \<Rightarrow> (None, s2)
                             | Some delivery_addresses_data \<Rightarrow>
                                 (let (x, tbl) = update_addresses e j delivery_addresses_data
                                                   (delivery_addresses s2)
                                  in (x, s2\<lparr>delivery_addresses := tbl\<rparr>)))
             in case x3 of
                  Some x \<Rightarrow> (Some x, s3)
                | None \<Rightarrow>
                    (case vp_trade_information validated_data of
                       None \<Rightarrow> (None, s3)
                     | Some trade_information_data \<Rightarrow>
                         update_trade_information e j instance1 trade_information_data s3))"

text \<open>How an exception that leaves the view is answered: the REST framework's
  \<open>ValidationError\<close> through \<open>custom_exception_handler\<close> with 400, anything else with 500.\<close>

definition exception_response :: "exn \<Rightarrow> Response" where
  "exception_response x =
     (case x of
        SerializerValidationError errors \<Rightarrow> api_exception HTTP_400_BAD_REQUEST errors
      | DjangoValidationError \<Rightarrow> server_error
      | MultipleObjects \<Rightarrow> server_error)"

definition ProfileUpdateAPIView_patch ::
  "settings \<Rightarrow> env \<Rightarrow> profile_patch \<Rightarrow> db \<Rightarrow> Response \<times> db" where
  "ProfileUpdateAPIView_patch cfg e req s =
     (case request_user e s (pr_auth req) of
        Inl denied \<Rightarrow> (denied, s)
      | Inr (j, u) \<Rightarrow>
          (case CustomerProfileUpdateSerializer req of
             Inl errors \<Rightarrow>
               (CustomResponse_error ''Validation failed'' (Some (Errors errors))
                  HTTP_400_BAD_REQUEST, s)
           | Inr validated_data \<Rightarrow>
               (case update e j u validated_data s of
                  (Some x, s1) \<Rightarrow> (exception_response x, s1)
                | (None, s1) \<Rightarrow>
                    (case CustomerProfileSerializer_data j (customers s1 ! j) s1 of
                       None \<Rightarrow> (server_error, s1)
                     | Some p \<Rightarrow>
                         (CustomResponse_success (Some (ProfileData p))
                            ''Profile updated successfully'' HTTP_200_OK, s1)))))"

text \<open>What a profile update of customer \<open>u\<close> may do to an address table: rows are only
  added, every row keeps its owner, the rows of other customers stay as they are, and
  the added rows belong to \<open>u\<close>.\<close>

abbreviation only_own_rows_written :: "uuid \<Rightarrow> Address list \<Rightarrow> Address list \<Rightarrow> bool" where
  "only_own_rows_written u tbl tbl' \<equiv>
     length tbl \<le> length tbl'
     \<and> (\<forall>k < length tbl. Address.user (tbl' ! k) = Address.user (tbl ! k)
            \<and> (Address.user (tbl ! k) \<noteq> u \<longrightarrow> tbl' ! k = tbl ! k))
     \<and> (\<forall>k. length tbl \<le> k \<and> k < length tbl' \<longrightarrow> Address.user (tbl' ! k) = u)"

section \<open>The public operations (accounts/urls.py)\<close>

datatype request =
    Register register_request
  | RegisterBilling address_request
  | RegisterDelivery address_request
  | RegisterTrade trade_request
  | VerifyEmail otp_request
  | ResendOTP email_request
  | Login login_request
  | Logout logout_request
  | TokenRefresh refresh_request
  | ForgotPassword email_request
  | VerifyResetOTP otp_request
  | ResetPassword reset_request
  | ChangePassword change_password_request
  | GetProfile profile_request
  | ProfileUpdate profile_patch

fun dispatch :: "settings \<Rightarrow> env \<Rightarrow> request \<Rightarrow> db \<Rightarrow> Response \<times> db" where
  "dispatch cfg e (Register d) s = RegisterAPIView_post cfg e d s"
| "dispatch cfg e (RegisterBilling d) s = BillingAddressRegisterAPIView_post cfg e d s"
| "dispatch cfg e (RegisterDelivery d) s = DeliveryAddressRegisterAPIView_post cfg e d s"
| "dispatch cfg e (RegisterTrade d) s = TradeInformationRegisterAPIView_post cfg e d s"
| "dispatch cfg e (VerifyEmail d) s = VerifyEmailAPIView_post cfg e d s"
| "dispatch cfg e (ResendOTP d) s = ResendOTPAPIView_post cfg e d s"
| "dispatch cfg e (Login d) s = LoginAPIView_post cfg e d s"
| "dispatch cfg e (Logout d) s = LogoutAPIView_post cfg e d s"
| "dispatch cfg e (TokenRefresh d) s = RefreshTokenAPIView_post cfg e d s"
| "dispatch cfg e (ForgotPassword d) s = ForgotPasswordAPIView_post cfg e d s"
| "dispatch cfg e (VerifyResetOTP d) s = VerifyResetOTPAPIView_post cfg e d s"
| "dispatch cfg e (ResetPassword d) s = ResetPasswordAPIView_post cfg e d s"
| "dispatch cfg e (ChangePassword d) s = ChangePasswordAPIView_post cfg e d s"
| "dispatch cfg e (GetProfile d) s = ProfileAPIView_get cfg e d s"
| "dispatch cfg e (ProfileUpdate d) s = ProfileUpdateAPIView_patch cfg e d s"

text \<open>A sequence of requests, each with what it reads from outside, served one after the
  other: the responses and the final store.\<close>

fun serve :: "settings \<Rightarrow> (env \<times> request) list \<Rightarrow> db \<Rightarrow> Response list \<times> db" where
  "serve cfg [] s = ([], s)"
| "serve cfg ((e, rq) # rest) s =
     (let (resp, s1) = dispatch cfg e rq s;
          (resps, s2) = serve cfg rest s1
      in (resp # resps, s2))"

text \<open>Two relations between the store before and after a request. The first: customers
  are only added, every customer there before keeps the value of \<open>is_verified\<close>, and the
  added ones are not verified. The second: OTP rows are only added and a used row stays
  used.\<close>

abbreviation verified_flags_kept :: "db \<Rightarrow> db \<Rightarrow> bool" where
  "verified_flags_kept s s' \<equiv>
     length (customers s) \<le> length (customers s')
     \<and> (\<forall>k < length (customers s).
            is_verified (customers s' ! k) = is_verified (customers s ! k))
     \<and> (\<forall>k. length (customers s) \<le> k \<and> k < length (customers s')
            \<longrightarrow> \<not> is_verified (customers s' ! k))"

abbreviation used_flags_kept :: "db \<Rightarrow> db \<Rightarrow> bool" where
  "used_flags_kept s s' \<equiv>
     length (otps s) \<le> length (otps s')
     \<and> (\<forall>i < length (otps s). is_used (otps s ! i) \<longrightarrow> is_used (otps s' ! i))"

section \<open>Sample data\<close>

text \<open>A configuration, a clock and a small store on which the theorems below are run.\<close>

definition example_settings :: settings where
  "example_settings =
     \<lparr> AUTHENTICATION_BACKENDS = ModelBackend,
       validate_email = (\<lambda>a. CHR ''@'' \<in> set a),
       validate_password = (\<lambda>p. 8 \<le> length p),
       ACCESS_TOKEN_LIFETIME = timedelta_minutes 5,
       REFRESH_TOKEN_LIFETIME = timedelta_days 1 \<rparr>"

definition example_env :: "datetime \<Rightarrow> env" where
  "example_env t = \<lparr> now = t, stamp = t, rnd = (\<lambda>k. k) \<rparr>"

definition example_customer :: "string \<Rightarrow> CustomerType \<Rightarrow> Customer" where
  "example_customer em ct =
     \<lparr> customer_type = ct, first_name = ''Ann'', last_name = ''Lee'', Customer.email = em,
       phone_number = None, password = Hashed ''correct horse'', is_verified = False,
       is_active = True, is_staff = False, is_superuser = False,
       Customer.created_at = 0, Customer.updated_at = 0 \<rparr>"

definition example_otp :: OTP where
  "example_otp =
     \<lparr> OTP.email = ''ann@example.com'', otp = ''12345678'', OTP.created_at = 10,
       expires_at = 600000010, is_used = False \<rparr>"

definition empty_db :: db where
  "empty_db =
     \<lparr> customers = [], billing_addresses = [], delivery_addresses = [],
       trade_information = [], trade_documents = [], otps = [],
       outstanding_tokens = [], blacklisted_tokens = [], outbox = [] \<rparr>"

definition example_db :: db where
  "example_db = empty_db\<lparr> customers := [example_customer ''ann@example.com'' Retail],
                          otps := [example_otp] \<rparr>"

definition example_otp_request :: otp_request where
  "example_otp_request = \<lparr> in_email = Val ''ann@example.com'', in_otp = Val ''12345678'' \<rparr>"

definition example_reset_request :: reset_request where
  "example_reset_request =
     \<lparr> in_email = Val ''ann@example.com'', in_otp = Val ''12345678'',
       in_new_password = Val ''tr0ub4dor and 3'', in_confirm_password = Val ''tr0ub4dor and 3'' \<rparr>"

text \<open>A store where the code was issued to an address that no customer has, and one
  where the customer's code has been used.\<close>

definition orphan_otp_db :: db where
  "orphan_otp_db = empty_db\<lparr> otps := [example_otp] \<rparr>"

definition used_otp_db :: db where
  "used_otp_db = example_db\<lparr> otps := [example_otp\<lparr>is_used := True\<rparr>] \<rparr>"

text \<open>An address with its required members, sent for a given e-mail address; a Trade
  customer before and after the trade-information step, and the request of that step.\<close>

definition example_address_request :: "string \<Rightarrow> address_request" where
  "example_address_request em =
     \<lparr> adr_id = NoId, adr_company_name = Absent, adr_vat_number = Absent,
       adr_company_registration = Absent, adr_po_number = Absent,
       adr_address_line_1 = Val ''1 Main Road'', adr_address_line_2 = Absent,
       adr_city = Val ''Durban'', adr_postal_code = Val ''4001'',
       adr_province = Val ''KwaZulu-Natal'', adr_email = Val em \<rparr>"

definition trade_db :: db where
  "trade_db = empty_db\<lparr> customers := [example_customer ''bob@example.com'' Trade] \<rparr>"

definition example_trade_information :: TradeInformation where
  "example_trade_information =
     \<lparr> TradeInformation.user = 0, business_type = RESELLER, monthly_statement = None,
       procurement_no = None, is_approved = False,
       TradeInformation.created_at = 5, TradeInformation.updated_at = 5 \<rparr>"

definition trade_db_with_information :: db where
  "trade_db_with_information = trade_db\<lparr> trade_information := [example_trade_information] \<rparr>"

definition example_trade_request :: "string \<Rightarrow> trade_request" where
  "example_trade_request em =
     \<lparr> trd_business_type = Val ''Contractor'', trd_monthly_statement = Absent,
       trd_procurement_no = Absent, trd_documents = None, trd_email = Val em \<rparr>"

text \<open>A resend-otp or forgot-password request for a given e-mail address.\<close>

definition example_email_request :: "string \<Rightarrow> email_request" where
  "example_email_request em = \<lparr> er_email = Val em \<rparr>"

text \<open>A login with the right password, and a store whose only customer is verified and
  has been deactivated.\<close>

definition example_login_request :: login_request where
  "example_login_request =
     \<lparr> lg_email = Val ''ann@example.com'', lg_password = Val ''correct horse'',
       lg_remember_me = Absent \<rparr>"

definition deactivated_db :: db where
  "deactivated_db =
     empty_db\<lparr> customers := [(example_customer ''ann@example.com'' Retail)
                                 \<lparr>is_verified := True, is_active := False\<rparr>] \<rparr>"

text \<open>Two address rows, the first owned by customer 0 and the second by customer 1;
  entries of a profile patch: a complete one without \<open>id\<close>, one that changes the city of
  the row with a given \<open>id\<close>, and one without \<open>id\<close> that lacks required members; and a patch
  sent by customer 0.\<close>

definition example_address :: "uuid \<Rightarrow> Address" where
  "example_address u =
     \<lparr> Address.user = u, company_name = None, vat_number = None,
       company_registration = None, po_number = None, address_line_1 = ''1 Main Road'',
       address_line_2 = None, city = ''Durban'', postal_code = ''4001'',
       province = KWAZULU_NATAL, Address.created_at = 3, Address.updated_at = 3 \<rparr>"

definition example_new_entry :: address_data where
  "example_new_entry =
     \<lparr> adr_id = NoId, adr_company_name = Absent, adr_vat_number = Absent,
       adr_company_registration = Absent, adr_po_number = Absent,
       adr_address_line_1 = Val ''7 Long Street'', adr_address_line_2 = Absent,
       adr_city = Val ''Cape Town'', adr_postal_code = Val ''8001'',
       adr_province = Val ''Western Cape'' \<rparr>"

definition example_city_entry :: "id_member \<Rightarrow> address_data" where
  "example_city_entry i =
     \<lparr> adr_id = i, adr_company_name = Absent, adr_vat_number = Absent,
       adr_company_registration = Absent, adr_po_number = Absent,
       adr_address_line_1 = Absent, adr_address_line_2 = Absent,
       adr_city = Val ''Cape Town'', adr_postal_code = Absent, adr_province = Absent \<rparr>"

definition example_patch :: "address_data list \<Rightarrow> profile_patch" where
  "example_patch entries =
     \<lparr> pr_auth = Decoded \<lparr> access_user = 0, access_exp = 5000 \<rparr>,
       pp_first_name = Val ''A'', pp_last_name = Absent, pp_phone_number = Absent,
       pp_billing_addresses = Some entries, pp_delivery_addresses = None,
       pp_trade_information = None \<rparr>"

definition two_customers_db :: db where
  "two_customers_db =
     empty_db\<lparr> customers := [example_customer ''ann@example.com'' Retail,
                               example_customer ''bob@example.com'' Trade],
               billing_addresses := [example_address 0, example_address 1] \<rparr>"

section \<open>Queries\<close>

lemma latest_eq_None [simp]: "latest xs = None \<longleftrightarrow> xs = []"
  by (induction xs) (auto split: option.splits)

lemma latest_mem: "latest xs = Some m \<Longrightarrow> m \<in> set xs"
  by (induction xs arbitrary: m) (auto split: option.splits if_splits)

lemma latest_max:
  "latest xs = Some m \<Longrightarrow> x \<in> set xs \<Longrightarrow> OTP.created_at (snd x) \<le> OTP.created_at (snd m)"
proof (induction xs arbitrary: m)
  case Nil
  then show ?case by simp
next
  case (Cons a xs)
  show ?case
  proof (cases "latest xs")
    case None
    with Cons.prems show ?thesis by simp
  next
    case (Some k)
    from Cons.prems Some Cons.IH[OF Some] show ?thesis
      by (auto split: if_splits)
  qed
qed

lemma objects_filter_mem:
  "(i, r) \<in> set (objects_filter P tbl) \<longleftrightarrow> i < length tbl \<and> tbl ! i = r \<and> P r"
  by (auto simp: objects_filter_def in_set_enumerate_eq)

lemma objects_filter_empty:
  "objects_filter P tbl = [] \<longleftrightarrow> (\<forall>r \<in> set tbl. \<not> P r)"
proof
  assume e: "objects_filter P tbl = []"
  show "\<forall>r \<in> set tbl. \<not> P r"
  proof
    fix r assume "r \<in> set tbl"
    then obtain i where "i < length tbl" "tbl ! i = r" by (auto simp: in_set_conv_nth)
    then have "P r \<Longrightarrow> (i, r) \<in> set (objects_filter P tbl)" by (simp add: objects_filter_mem)
    with e show "\<not> P r" by auto
  qed
next
  assume a: "\<forall>r \<in> set tbl. \<not> P r"
  show "objects_filter P tbl = []"
  proof (cases "objects_filter P tbl")
    case Nil
    then show ?thesis .
  next
    case (Cons x xs)
    obtain i r where x: "x = (i, r)" by (cases x)
    with Cons have "(i, r) \<in> set (objects_filter P tbl)" by simp
    then have "i < length tbl" "tbl ! i = r" "P r" by (simp_all add: objects_filter_mem)
    with a show ?thesis by (metis nth_mem)
  qed
qed

lemma latest_otp_None:
  "latest_otp em cd s = None \<longleftrightarrow> (\<forall>r \<in> set (otps s). \<not> (OTP.email r = em \<and> otp r = cd))"
  by (simp add: latest_otp_def objects_filter_empty)

lemma latest_otp_Some:
  assumes "latest_otp em cd s = Some (i, r)"
  shows "i < length (otps s)" "otps s ! i = r" "OTP.email r = em" "otp r = cd"
    "\<And>r'. r' \<in> set (otps s) \<Longrightarrow> OTP.email r' = em \<Longrightarrow> otp r' = cd
       \<Longrightarrow> OTP.created_at r' \<le> OTP.created_at r"
proof -
  let ?P = "\<lambda>r. OTP.email r = em \<and> otp r = cd"
  from assms have m: "(i, r) \<in> set (objects_filter ?P (otps s))"
    by (auto simp: latest_otp_def dest: latest_mem)
  then show "i < length (otps s)" "otps s ! i = r" "OTP.email r = em" "otp r = cd"
    by (simp_all add: objects_filter_mem)
  fix r' assume "r' \<in> set (otps s)" "OTP.email r' = em" "otp r' = cd"
  then obtain j where "j < length (otps s)" "otps s ! j = r'" "?P r'"
    by (auto simp: in_set_conv_nth)
  then have "(j, r') \<in> set (objects_filter ?P (otps s))"
    by (simp add: objects_filter_mem)
  with assms show "OTP.created_at r' \<le> OTP.created_at r"
    using latest_max[of "objects_filter ?P (otps s)" "(i, r)" "(j, r')"]
    by (simp add: latest_otp_def)
qed

section \<open>The OTP views, branch by branch\<close>

lemma customers_OTP_save [simp]: "customers (OTP_save i r s) = customers s"
  and otps_OTP_save [simp]: "otps (OTP_save i r s) = (otps s)[i := r]"
  by (simp_all add: OTP_save_def)

lemma otps_Customer_save [simp]: "otps (Customer_save e j c s) = otps s"
  and customers_Customer_save [simp]:
    "customers (Customer_save e j c s) = (customers s)[j := c\<lparr>Customer.updated_at := stamp e\<rparr>]"
  by (simp_all add: Customer_save_def)

lemma VerifyEmail_no_row:
  "VerifyEmailSerializer cfg req = Inr (em, cd) \<Longrightarrow> latest_otp em cd s = None \<Longrightarrow>
   VerifyEmailAPIView_post cfg e req s =
     (CustomResponse_error ''Invalid OTP'' None HTTP_400_BAD_REQUEST, s)"
  by (simp add: VerifyEmailAPIView_post_def)

lemma VerifyEmail_invalid_row:
  "VerifyEmailSerializer cfg req = Inr (em, cd) \<Longrightarrow> latest_otp em cd s = Some (i, r) \<Longrightarrow>
   \<not> is_valid e r \<Longrightarrow>
   VerifyEmailAPIView_post cfg e req s =
     (CustomResponse_error ''Invalid or expired OTP'' None HTTP_400_BAD_REQUEST, s)"
  by (simp add: VerifyEmailAPIView_post_def)

lemma VerifyEmail_valid_row:
  "VerifyEmailSerializer cfg req = Inr (em, cd) \<Longrightarrow> latest_otp em cd s = Some (i, r) \<Longrightarrow>
   is_valid e r \<Longrightarrow>
   VerifyEmailAPIView_post cfg e req s =
     (case objects_get (\<lambda>c. Customer.email c = em) (customers s) of
        DoesNotExist \<Rightarrow>
          (CustomResponse_error ''User not found'' None HTTP_404_NOT_FOUND,
           OTP_save i (r\<lparr>is_used := True\<rparr>) s)
      | MultipleObjectsReturned \<Rightarrow> (server_error, OTP_save i (r\<lparr>is_used := True\<rparr>) s)
      | Found j customer \<Rightarrow>
          (CustomResponse_success None
             ''Email verified successfully. Registration complete! You can now login.''
             HTTP_200_OK,
           Customer_save e j (customer\<lparr>is_verified := True\<rparr>) (OTP_save i (r\<lparr>is_used := True\<rparr>) s)))"
  by (simp add: VerifyEmailAPIView_post_def Let_def)

lemma success_simps [simp]:
  "success (CustomResponse_error m d c) = False"
  "success (CustomResponse_success p m c) = True"
  "success server_error = False"
  "statusCode (CustomResponse_error m d c) = c"
  "statusCode (CustomResponse_success p m c) = c"
  "statusCode server_error = 500"
  "message (CustomResponse_error m d c) = m"
  "message (CustomResponse_success p m c) = m"
  by (simp_all add: CustomResponse_error_def CustomResponse_success_def server_error_def)

lemma VerifyEmail_valid_request:
  assumes ser: "VerifyEmailSerializer cfg req = Inr (em, cd)"
    and post: "VerifyEmailAPIView_post cfg e req s = (resp, s')"
  shows
    "(latest_otp em cd s = None \<longleftrightarrow> (\<forall>r \<in> set (otps s). \<not> (OTP.email r = em \<and> otp r = cd)))
     \<and> (latest_otp em cd s = None \<longrightarrow>
          statusCode resp = HTTP_400_BAD_REQUEST \<and> \<not> success resp \<and> s' = s)
     \<and> (\<forall>i r. latest_otp em cd s = Some (i, r) \<longrightarrow>
          i < length (otps s) \<and> otps s ! i = r \<and> OTP.email r = em \<and> otp r = cd
          \<and> (\<forall>r' \<in> set (otps s). OTP.email r' = em \<and> otp r' = cd
                \<longrightarrow> OTP.created_at r' \<le> OTP.created_at r)
          \<and> (\<not> is_valid e r \<longrightarrow>
                statusCode resp = HTTP_400_BAD_REQUEST \<and> \<not> success resp \<and> s' = s)
          \<and> (success resp \<longrightarrow>
                is_valid e r \<and> otps s' = (otps s)[i := r\<lparr>is_used := True\<rparr>]
                \<and> (\<exists>j c. objects_get (\<lambda>c. Customer.email c = em) (customers s) = Found j c
                      \<and> customers s' =
                          (customers s)[j := c\<lparr>is_verified := True,
                                                 Customer.updated_at := stamp e\<rparr>])))"
proof (intro conjI allI impI ballI)
  show "latest_otp em cd s = None \<longleftrightarrow> (\<forall>r \<in> set (otps s). \<not> (OTP.email r = em \<and> otp r = cd))"
    by (rule latest_otp_None)
next
  assume n: "latest_otp em cd s = None"
  from VerifyEmail_no_row[OF ser n, of e] post
  show "statusCode resp = HTTP_400_BAD_REQUEST" "\<not> success resp" "s' = s" by auto
next
  fix i r assume l: "latest_otp em cd s = Some (i, r)"
  from latest_otp_Some[OF l]
  show "i < length (otps s)" "otps s ! i = r" "OTP.email r = em" "otp r = cd" by simp_all
  { fix r' assume "r' \<in> set (otps s)" "OTP.email r' = em \<and> otp r' = cd"
    then show "OTP.created_at r' \<le> OTP.created_at r" using latest_otp_Some(5)[OF l] by blast }
  { assume "\<not> is_valid e r"
    from VerifyEmail_invalid_row[OF ser l this] post
    show "statusCode resp = HTTP_400_BAD_REQUEST" "\<not> success resp" "s' = s" by auto }
  { assume ok: "success resp"
    show v: "is_valid e r"
    proof (rule ccontr)
      assume "\<not> is_valid e r"
      from VerifyEmail_invalid_row[OF ser l this] post ok show False by auto
    qed
    from VerifyEmail_valid_row[OF ser l v] post ok
    show "otps s' = (otps s)[i := r\<lparr>is_used := True\<rparr>]"
      by (auto split: lookup.splits)
    from VerifyEmail_valid_row[OF ser l v] post ok
    show "\<exists>j c. objects_get (\<lambda>c. Customer.email c = em) (customers s) = Found j c
            \<and> customers s' = (customers s)[j := c\<lparr>is_verified := True, Customer.updated_at := stamp e\<rparr>]"
      by (auto split: lookup.splits) }
qed

text \<open>
  Claim C1. A verify-email request whose body does not pass the serializer is
  answered 400 and changes nothing. One that passes looks up the most recently created
  OTP row with exactly the submitted address and code. If there is no such row, the
  answer is 400 and nothing changes. If the selected row is not valid, the answer is 400
  and nothing changes. If the request succeeds, the selected row was valid, it is now
  marked used, and the one customer with that address has \<open>is_verified\<close> true.
\<close>

theorem verify_email_latest_matching_otp:
  assumes post: "VerifyEmailAPIView_post cfg e req s = (resp, s')"
  shows
    "(\<forall>errors. VerifyEmailSerializer cfg req = Inl errors \<longrightarrow>
        statusCode resp = HTTP_400_BAD_REQUEST \<and> \<not> success resp \<and> s' = s)
     \<and> (\<forall>em cd. VerifyEmailSerializer cfg req = Inr (em, cd) \<longrightarrow>
    (latest_otp em cd s = None \<longleftrightarrow> (\<forall>r \<in> set (otps s). \<not> (OTP.email r = em \<and> otp r = cd)))
        \<and> (latest_otp em cd s = None \<longrightarrow>
             statusCode resp = HTTP_400_BAD_REQUEST \<and> \<not> success resp \<and> s' = s)
        \<and> (\<forall>i r. latest_otp em cd s = Some (i, r) \<longrightarrow>
             i < length (otps s) \<and> otps s ! i = r \<and> OTP.email r = em \<and> otp r = cd
             \<and> (\<forall>r' \<in> set (otps s). OTP.email r' = em \<and> otp r' = cd
                   \<longrightarrow> OTP.created_at r' \<le> OTP.created_at r)
             \<and> (\<not> is_valid e r \<longrightarrow>
                   statusCode resp = HTTP_400_BAD_REQUEST \<and> \<not> success resp \<and> s' = s)
             \<and> (success resp \<longrightarrow>
                   is_valid e r \<and> otps s' = (otps s)[i := r\<lparr>is_used := True\<rparr>]
                   \<and> (\<exists>j c. objects_get (\<lambda>c. Customer.email c = em) (customers s) = Found j c
                         \<and> customers s' =
                             (customers s)[j := c\<lparr>is_verified := True,
                                                    Customer.updated_at := stamp e\<rparr>]))))"
proof (rule conjI)
  show "\<forall>errors. VerifyEmailSerializer cfg req = Inl errors \<longrightarrow>
        statusCode resp = HTTP_400_BAD_REQUEST \<and> \<not> success resp \<and> s' = s"
    using post by (auto simp: VerifyEmailAPIView_post_def)
  show "\<forall>em cd. VerifyEmailSerializer cfg req = Inr (em, cd) \<longrightarrow>
    (latest_otp em cd s = None \<longleftrightarrow> (\<forall>r \<in> set (otps s). \<not> (OTP.email r = em \<and> otp r = cd)))
        \<and> (latest_otp em cd s = None \<longrightarrow>
             statusCode resp = HTTP_400_BAD_REQUEST \<and> \<not> success resp \<and> s' = s)
        \<and> (\<forall>i r. latest_otp em cd s = Some (i, r) \<longrightarrow>
             i < length (otps s) \<and> otps s ! i = r \<and> OTP.email r = em \<and> otp r = cd
             \<and> (\<forall>r' \<in> set (otps s). OTP.email r' = em \<and> otp r' = cd
                   \<longrightarrow> OTP.created_at r' \<le> OTP.created_at r)
             \<and> (\<not> is_valid e r \<longrightarrow>
                   statusCode resp = HTTP_400_BAD_REQUEST \<and> \<not> success resp \<and> s' = s)
             \<and> (success resp \<longrightarrow>
                   is_valid e r \<and> otps s' = (otps s)[i := r\<lparr>is_used := True\<rparr>]
                   \<and> (\<exists>j c. objects_get (\<lambda>c. Customer.email c = em) (customers s) = Found j c
                         \<and> customers s' =
                             (customers s)[j := c\<lparr>is_verified := True,
                                                    Customer.updated_at := stamp e\<rparr>])))"
  proof (intro allI, rule impI)
    fix em cd assume ser: "VerifyEmailSerializer cfg req = Inr (em, cd)"
    show "(latest_otp em cd s = None \<longleftrightarrow> (\<forall>r \<in> set (otps s). \<not> (OTP.email r = em \<and> otp r = cd)))
     \<and> (latest_otp em cd s = None \<longrightarrow>
          statusCode resp = HTTP_400_BAD_REQUEST \<and> \<not> success resp \<and> s' = s)
     \<and> (\<forall>i r. latest_otp em cd s = Some (i, r) \<longrightarrow>
          i < length (otps s) \<and> otps s ! i = r \<and> OTP.email r = em \<and> otp r = cd
          \<and> (\<forall>r' \<in> set (otps s). OTP.email r' = em \<and> otp r' = cd
                \<longrightarrow> OTP.created_at r' \<le> OTP.created_at r)
          \<and> (\<not> is_valid e r \<longrightarrow>
                statusCode resp = HTTP_400_BAD_REQUEST \<and> \<not> success resp \<and> s' = s)
          \<and> (success resp \<longrightarrow>
                is_valid e r \<and> otps s' = (otps s)[i := r\<lparr>is_used := True\<rparr>]
                \<and> (\<exists>j c. objects_get (\<lambda>c. Customer.email c = em) (customers s) = Found j c
                      \<and> customers s' =
                          (customers s)[j := c\<lparr>is_verified := True,
                                                 Customer.updated_at := stamp e\<rparr>])))"
      by (rule VerifyEmail_valid_request[OF ser post])
  qed
qed

lemmas example_defs = example_settings_def example_env_def example_customer_def example_otp_def
  empty_db_def example_db_def example_otp_request_def example_reset_request_def
  orphan_otp_db_def used_otp_db_def example_address_request_def trade_db_def
  example_trade_information_def trade_db_with_information_def example_trade_request_def
  example_login_request_def deactivated_db_def example_address_def example_new_entry_def
  example_city_entry_def example_patch_def two_customers_db_def example_email_request_def

lemmas field_defs = CharField_def EmailField_def errors_of_def

lemma ex_ser: "VerifyEmailSerializer example_settings example_otp_request
         = Inr (''ann@example.com'', ''12345678'')"
  by (simp add: VerifyEmailSerializer_def field_defs example_defs)

lemma ex_latest: "latest_otp ''ann@example.com'' ''12345678'' example_db = Some (0, example_otp)"
  by (simp add: latest_otp_def objects_filter_def example_defs)

lemma ex_get: "objects_get (\<lambda>c. Customer.email c = ''ann@example.com'') (customers example_db)
   = Found 0 (example_customer ''ann@example.com'' Retail)"
  by (simp add: objects_get_def objects_filter_def example_defs)

lemma ex_valid: "is_valid (example_env 1000) example_otp"
  by (simp add: is_valid_def example_defs)

lemma ex_post: "VerifyEmailAPIView_post example_settings (example_env 1000) example_otp_request example_db
   = (CustomResponse_success None
             ''Email verified successfully. Registration complete! You can now login.''
             HTTP_200_OK,
      example_db\<lparr> customers := [(example_customer ''ann@example.com'' Retail)\<lparr>is_verified := True, Customer.updated_at := 1000\<rparr>],
         otps := [example_otp\<lparr>is_used := True\<rparr>] \<rparr>)"
  by (simp add: VerifyEmail_valid_row[OF ex_ser ex_latest ex_valid] ex_get)
     (simp add: example_defs Customer_save_def OTP_save_def)

lemma VerifyResetOTP_no_row:
  "VerifyResetOTPSerializer cfg req = Inr (em, cd) \<Longrightarrow> latest_otp em cd s = None \<Longrightarrow>
   VerifyResetOTPAPIView_post cfg e req s =
     (CustomResponse_error ''Invalid OTP'' None HTTP_400_BAD_REQUEST, s)"
  by (simp add: VerifyResetOTPAPIView_post_def)

lemma VerifyResetOTP_invalid_row:
  "VerifyResetOTPSerializer cfg req = Inr (em, cd) \<Longrightarrow> latest_otp em cd s = Some (i, r) \<Longrightarrow>
   \<not> is_valid e r \<Longrightarrow>
   VerifyResetOTPAPIView_post cfg e req s =
     (CustomResponse_error ''Invalid or expired OTP'' None HTTP_400_BAD_REQUEST, s)"
  by (simp add: VerifyResetOTPAPIView_post_def)

lemma VerifyResetOTP_valid_row:
  "VerifyResetOTPSerializer cfg req = Inr (em, cd) \<Longrightarrow> latest_otp em cd s = Some (i, r) \<Longrightarrow>
   is_valid e r \<Longrightarrow>
   VerifyResetOTPAPIView_post cfg e req s =
     (CustomResponse_success None ''OTP verified successfully. You can now reset your password.''
        HTTP_200_OK, s)"
  by (simp add: VerifyResetOTPAPIView_post_def)

lemma ResetPassword_no_row:
  "ResetPasswordSerializer cfg req = Inr (em, cd, pw) \<Longrightarrow> latest_otp em cd s = None \<Longrightarrow>
   ResetPasswordAPIView_post cfg e req s =
     (CustomResponse_error ''Invalid OTP'' None HTTP_400_BAD_REQUEST, s)"
  by (simp add: ResetPasswordAPIView_post_def)

lemma ResetPassword_invalid_row:
  "ResetPasswordSerializer cfg req = Inr (em, cd, pw) \<Longrightarrow> latest_otp em cd s = Some (i, r) \<Longrightarrow>
   \<not> is_valid e r \<Longrightarrow>
   ResetPasswordAPIView_post cfg e req s =
     (CustomResponse_error ''Invalid or expired OTP'' None HTTP_400_BAD_REQUEST, s)"
  by (simp add: ResetPasswordAPIView_post_def)

lemma ResetPassword_valid_row:
  "ResetPasswordSerializer cfg req = Inr (em, cd, pw) \<Longrightarrow> latest_otp em cd s = Some (i, r) \<Longrightarrow>
   is_valid e r \<Longrightarrow>
   ResetPasswordAPIView_post cfg e req s =
     (case objects_get (\<lambda>c. Customer.email c = em) (customers s) of
        DoesNotExist \<Rightarrow>
          (CustomResponse_error ''User not found'' None HTTP_404_NOT_FOUND,
           OTP_save i (r\<lparr>is_used := True\<rparr>) s)
      | MultipleObjectsReturned \<Rightarrow> (server_error, OTP_save i (r\<lparr>is_used := True\<rparr>) s)
      | Found j customer \<Rightarrow>
          (CustomResponse_success None ''Password reset successful'' HTTP_200_OK,
           Customer_save e j (set_password pw customer) (OTP_save i (r\<lparr>is_used := True\<rparr>) s)))"
  by (simp add: ResetPasswordAPIView_post_def Let_def)

text \<open>A row appended with the newest time stamp is the one that \<open>latest\<close> selects.\<close>

lemma objects_filter_append:
  "objects_filter P (tbl @ [r]) =
     objects_filter P tbl @ (if P r then [(length tbl, r)] else [])"
  by (simp add: objects_filter_def enumerate_append_eq)

lemma latest_snoc_newer:
  "\<forall>x \<in> set xs. OTP.created_at (snd x) < OTP.created_at (snd y) \<Longrightarrow> latest (xs @ [y]) = Some y"
  by (induction xs) auto

lemma latest_otp_after_create:
  assumes "\<forall>r \<in> set (otps s). OTP.email r = em \<and> otp r = cd \<longrightarrow> OTP.created_at r < stamp e0"
  shows "latest_otp em cd (OTP_objects_create e0 em cd s)
           = Some (length (otps s), OTP_new e0 em cd None)"
proof -
  let ?P = "\<lambda>r. OTP.email r = em \<and> otp r = cd"
  let ?n = "OTP_new e0 em cd None"
  have n: "?P ?n" "OTP.created_at ?n = stamp e0" by (simp_all add: OTP_new_def)
  have "\<forall>x \<in> set (objects_filter ?P (otps s)). OTP.created_at (snd x) < OTP.created_at (snd (length (otps s), ?n))"
  proof
    fix x assume x: "x \<in> set (objects_filter ?P (otps s))"
    obtain i r where xr: "x = (i, r)" by (cases x)
    with x have "r \<in> set (otps s)" "?P r" by (auto simp: objects_filter_mem)
    with assms n xr show "OTP.created_at (snd x) < OTP.created_at (snd (length (otps s), ?n))"
      by auto
  qed
  then have "latest (objects_filter ?P (otps s) @ [(length (otps s), ?n)]) = Some (length (otps s), ?n)"
    by (rule latest_snoc_newer)
  with n show ?thesis
    by (simp add: latest_otp_def OTP_objects_create_def objects_filter_append)
qed

text \<open>
  Claim C2. An OTP row is valid exactly when it is not used and the clock is strictly
  before \<open>expires_at\<close>. A row made without an explicit \<open>expires_at\<close> expires ten minutes
  (600 000 000 microseconds) after the clock reading of its \<open>save\<close>; the \<open>created_at\<close>
  column is stamped by the framework during the same save, so \<open>expires_at\<close> is
  \<open>created_at\<close> plus ten minutes when the two readings coincide and not later than that
  when the stamp is the later one. Hence, once ten minutes have passed since the code was
  issued, verify-email with the right code is refused as invalid or expired and changes
  nothing (the older rows with the same address and code being older than the issued one).
\<close>

theorem otp_valid_until_ten_minutes_after_issue:
  "(is_valid e r \<longleftrightarrow> \<not> is_used r \<and> now e < expires_at r)
   \<and> expires_at (OTP_new e0 em cd None) = now e0 + timedelta_minutes 10
   \<and> timedelta_minutes 10 = 10 * 60 * 1000000
   \<and> (stamp e0 = now e0 \<longrightarrow>
        expires_at (OTP_new e0 em cd None)
          = OTP.created_at (OTP_new e0 em cd None) + timedelta_minutes 10)
   \<and> (now e0 \<le> stamp e0 \<longrightarrow>
        expires_at (OTP_new e0 em cd None)
          \<le> OTP.created_at (OTP_new e0 em cd None) + timedelta_minutes 10)
   \<and> otps (OTP_objects_create e0 em cd s) = otps s @ [OTP_new e0 em cd None]
   \<and> (VerifyEmailSerializer cfg req = Inr (em, cd)
        \<and> (\<forall>r' \<in> set (otps s). OTP.email r' = em \<and> otp r' = cd \<longrightarrow> OTP.created_at r' < stamp e0)
        \<and> now e0 + timedelta_minutes 10 \<le> now e
      \<longrightarrow> VerifyEmailAPIView_post cfg e req (OTP_objects_create e0 em cd s)
            = (CustomResponse_error ''Invalid or expired OTP'' None HTTP_400_BAD_REQUEST,
               OTP_objects_create e0 em cd s))"
proof (intro conjI impI)
  show "is_valid e r \<longleftrightarrow> \<not> is_used r \<and> now e < expires_at r" by (simp add: is_valid_def)
  show "expires_at (OTP_new e0 em cd None) = now e0 + timedelta_minutes 10"
    by (simp add: OTP_new_def)
  show "timedelta_minutes 10 = 10 * 60 * 1000000" by (simp add: timedelta_minutes_def)
  show "otps (OTP_objects_create e0 em cd s) = otps s @ [OTP_new e0 em cd None]"
    by (simp add: OTP_objects_create_def)
next
  assume "stamp e0 = now e0"
  then show "expires_at (OTP_new e0 em cd None)
          = OTP.created_at (OTP_new e0 em cd None) + timedelta_minutes 10"
    by (simp add: OTP_new_def)
next
  assume "now e0 \<le> stamp e0"
  then show "expires_at (OTP_new e0 em cd None)
          \<le> OTP.created_at (OTP_new e0 em cd None) + timedelta_minutes 10"
    by (simp add: OTP_new_def)
next
  assume a: "VerifyEmailSerializer cfg req = Inr (em, cd)
        \<and> (\<forall>r' \<in> set (otps s). OTP.email r' = em \<and> otp r' = cd \<longrightarrow> OTP.created_at r' < stamp e0)
        \<and> now e0 + timedelta_minutes 10 \<le> now e"
  then have l: "latest_otp em cd (OTP_objects_create e0 em cd s)
           = Some (length (otps s), OTP_new e0 em cd None)"
    by (intro latest_otp_after_create) simp
  from a have "\<not> is_valid e (OTP_new e0 em cd None)"
    by (simp add: is_valid_def OTP_new_def)
  with a l show "VerifyEmailAPIView_post cfg e req (OTP_objects_create e0 em cd s)
            = (CustomResponse_error ''Invalid or expired OTP'' None HTTP_400_BAD_REQUEST,
               OTP_objects_create e0 em cd s)"
    by (intro VerifyEmail_invalid_row) auto
qed

theorem otp_valid_until_ten_minutes_after_issue_witness:
  "VerifyEmailSerializer example_settings example_otp_request
     = Inr (''ann@example.com'', ''12345678'')
   \<and> otps empty_db = []
   \<and> stamp (example_env 0) = now (example_env 0)
   \<and> now (example_env 0) + timedelta_minutes 10 \<le> now (example_env 600000000)
   \<and> expires_at (OTP_new (example_env 0) ''ann@example.com'' ''12345678'' None) = 600000000
   \<and> OTP.created_at (OTP_new (example_env 0) ''ann@example.com'' ''12345678'' None) = 0
   \<and> statusCode (fst (VerifyEmailAPIView_post example_settings (example_env 600000000)
        example_otp_request
        (OTP_objects_create (example_env 0) ''ann@example.com'' ''12345678'' empty_db))) = 400
   \<and> snd (VerifyEmailAPIView_post example_settings (example_env 600000000)
        example_otp_request
        (OTP_objects_create (example_env 0) ''ann@example.com'' ''12345678'' empty_db))
      = OTP_objects_create (example_env 0) ''ann@example.com'' ''12345678'' empty_db"
proof -
  have h1: "VerifyEmailSerializer example_settings example_otp_request
     = Inr (''ann@example.com'', ''12345678'')" by (rule ex_ser)
  have h2: "otps empty_db = []" by (simp add: empty_db_def)
  have h3: "stamp (example_env 0) = now (example_env 0)" by (simp add: example_env_def)
  have h4: "now (example_env 0) + timedelta_minutes 10 \<le> now (example_env 600000000)"
    by (simp add: example_env_def timedelta_minutes_def)
  from otp_valid_until_ten_minutes_after_issue
    [of "example_env 600000000" example_otp "example_env 0" "''ann@example.com''" "''12345678''"
        empty_db example_settings example_otp_request]
    h1 h2 h3 h4
  show ?thesis by (simp add: example_env_def timedelta_minutes_def)
qed

lemma ex_post_empty:
  "VerifyEmailAPIView_post example_settings (example_env 1000) example_otp_request empty_db
     = (CustomResponse_error ''Invalid OTP'' None HTTP_400_BAD_REQUEST, empty_db)"
  by (rule VerifyEmail_no_row[OF ex_ser]) (simp add: latest_otp_None empty_db_def)

theorem verify_email_latest_matching_otp_witness:
  "VerifyEmailSerializer example_settings example_otp_request
     = Inr (''ann@example.com'', ''12345678'')
   \<and> latest_otp ''ann@example.com'' ''12345678'' example_db = Some (0, example_otp)
   \<and> is_valid (example_env 1000) example_otp
   \<and> success (fst (VerifyEmailAPIView_post example_settings (example_env 1000)
                     example_otp_request example_db))
   \<and> otps (snd (VerifyEmailAPIView_post example_settings (example_env 1000)
                     example_otp_request example_db))
       = (otps example_db)[0 := example_otp\<lparr>is_used := True\<rparr>]
   \<and> latest_otp ''ann@example.com'' ''12345678'' empty_db = None
   \<and> statusCode (fst (VerifyEmailAPIView_post example_settings (example_env 1000)
                     example_otp_request empty_db)) = 400
   \<and> snd (VerifyEmailAPIView_post example_settings (example_env 1000)
                     example_otp_request empty_db) = empty_db"
proof -
  note a = verify_email_latest_matching_otp[OF ex_post, THEN conjunct2, THEN spec, THEN spec,
             THEN mp, OF ex_ser]
  note b = verify_email_latest_matching_otp[OF ex_post_empty, THEN conjunct2, THEN spec,
             THEN spec, THEN mp, OF ex_ser]
  have n: "latest_otp ''ann@example.com'' ''12345678'' empty_db = None"
    using b[THEN conjunct1] by (simp add: empty_db_def)
  have ok: "success (fst (VerifyEmailAPIView_post example_settings (example_env 1000)
                     example_otp_request example_db))"
    unfolding ex_post by simp
  have u: "otps (snd (VerifyEmailAPIView_post example_settings (example_env 1000)
                     example_otp_request example_db))
       = (otps example_db)[0 := example_otp\<lparr>is_used := True\<rparr>]"
    using a ex_latest ok unfolding ex_post fst_conv snd_conv by blast
  have e: "statusCode (fst (VerifyEmailAPIView_post example_settings (example_env 1000)
                     example_otp_request empty_db)) = 400
     \<and> snd (VerifyEmailAPIView_post example_settings (example_env 1000)
                     example_otp_request empty_db) = empty_db"
    using b n unfolding ex_post_empty fst_conv snd_conv by blast
  from ex_ser ex_latest ex_valid ok u n e show ?thesis by blast
qed

lemma VerifyResetOTP_success:
  assumes ser: "VerifyResetOTPSerializer cfg req = Inr (em, cd)"
    and post: "VerifyResetOTPAPIView_post cfg e req s = (resp, s')"
    and ok: "success resp"
  shows "s' = s
     \<and> (\<exists>i r. latest_otp em cd s' = Some (i, r) \<and> otps s' ! i = r \<and> \<not> is_used r
           \<and> now e < expires_at r
           \<and> (\<forall>e' req' pw resp' s''.
                 ResetPasswordSerializer cfg req' = Inr (em, cd, pw)
                 \<and> now e' < expires_at r
                 \<and> ResetPasswordAPIView_post cfg e' req' s' = (resp', s'')
                 \<longrightarrow> statusCode resp' \<noteq> HTTP_400_BAD_REQUEST
                     \<and> otps s'' = (otps s')[i := r\<lparr>is_used := True\<rparr>]
                     \<and> (\<forall>j c. objects_get (\<lambda>c. Customer.email c = em) (customers s') = Found j c
                           \<longrightarrow> success resp'
                               \<and> customers s'' =
                                   (customers s')[j := c\<lparr>password := Hashed pw,
                                                          Customer.updated_at := stamp e'\<rparr>])))"
proof -
  obtain i r where l: "latest_otp em cd s = Some (i, r)"
  proof (cases "latest_otp em cd s")
    case None
    from VerifyResetOTP_no_row[OF ser None, of e] post ok show ?thesis by simp
  next
    case (Some m)
    then show ?thesis using that by (cases m) auto
  qed
  have v: "is_valid e r"
  proof (rule ccontr)
    assume "\<not> is_valid e r"
    from VerifyResetOTP_invalid_row[OF ser l this] post ok show False by simp
  qed
  from VerifyResetOTP_valid_row[OF ser l v] post have s: "s' = s" by simp
  from v have u: "\<not> is_used r" "now e < expires_at r" by (simp_all add: is_valid_def)
  have later: "statusCode resp' \<noteq> HTTP_400_BAD_REQUEST
                     \<and> otps s'' = (otps s)[i := r\<lparr>is_used := True\<rparr>]
                     \<and> (\<forall>j c. objects_get (\<lambda>c. Customer.email c = em) (customers s) = Found j c
                           \<longrightarrow> success resp'
                               \<and> customers s'' =
                                   (customers s)[j := c\<lparr>password := Hashed pw,
                                                          Customer.updated_at := stamp e'\<rparr>])"
    if r: "ResetPasswordSerializer cfg req' = Inr (em, cd, pw)"
      and t: "now e' < expires_at r"
      and p: "ResetPasswordAPIView_post cfg e' req' s = (resp', s'')"
    for e' req' pw resp' s''
  proof -
    from u t have "is_valid e' r" by (simp add: is_valid_def)
    from ResetPassword_valid_row[OF r l this] p show ?thesis
      by (auto split: lookup.splits simp: set_password_def)
  qed
  from l latest_otp_Some(2)[OF l] u s later show ?thesis by blast
qed

text \<open>
  Claim C7. A verify-reset-otp request that succeeds has passed its serializer and
  leaves the whole store as it was; the row it matched is still unused and keeps its
  \<open>expires_at\<close>. A reset-password request that presents the same address and code
  before the row expires, with a new password that passes the serializer, is therefore
  not refused as invalid: it marks that row used, and when the address belongs to one
  customer it succeeds and stores the new password.
\<close>

theorem verify_reset_otp_does_not_consume:
  assumes post: "VerifyResetOTPAPIView_post cfg e req s = (resp, s')"
    and ok: "success resp"
  shows "\<exists>em cd. VerifyResetOTPSerializer cfg req = Inr (em, cd) \<and> s' = s
     \<and> (\<exists>i r. latest_otp em cd s' = Some (i, r) \<and> otps s' ! i = r \<and> \<not> is_used r
           \<and> now e < expires_at r
           \<and> (\<forall>e' req' pw resp' s''.
                 ResetPasswordSerializer cfg req' = Inr (em, cd, pw)
                 \<and> now e' < expires_at r
                 \<and> ResetPasswordAPIView_post cfg e' req' s' = (resp', s'')
                 \<longrightarrow> statusCode resp' \<noteq> HTTP_400_BAD_REQUEST
                     \<and> otps s'' = (otps s')[i := r\<lparr>is_used := True\<rparr>]
                     \<and> (\<forall>j c. objects_get (\<lambda>c. Customer.email c = em) (customers s') = Found j c
                           \<longrightarrow> success resp'
                               \<and> customers s'' =
                                   (customers s')[j := c\<lparr>password := Hashed pw,
                                                          Customer.updated_at := stamp e'\<rparr>])))"
proof (cases "VerifyResetOTPSerializer cfg req")
  case (Inl errors)
  with post ok show ?thesis by (auto simp: VerifyResetOTPAPIView_post_def)
next
  case (Inr v)
  obtain em cd where ser: "VerifyResetOTPSerializer cfg req = Inr (em, cd)"
    using Inr by (cases v) auto
  show ?thesis
    by (rule exI[of _ em], rule exI[of _ cd],
        rule conjI[OF ser VerifyResetOTP_success[OF ser post ok]])
qed

lemma enumerate_list_update:
  "i < length tbl \<Longrightarrow>
   enumerate 0 (tbl[i := f (tbl ! i)])
     = map (\<lambda>(k, x). (k, if k = i then f x else x)) (enumerate 0 tbl)"
  by (rule nth_equalityI) (auto simp: nth_enumerate_eq nth_list_update)

lemma objects_filter_update:
  assumes "i < length tbl" "P (f (tbl ! i)) = P (tbl ! i)"
  shows "objects_filter P (tbl[i := f (tbl ! i)])
           = map (\<lambda>(k, x). (k, if k = i then f x else x)) (objects_filter P tbl)"
proof -
  let ?g = "\<lambda>(k, x). (k, if k = i then f x else x)"
  have "filter ((\<lambda>(k, x). P x) \<circ> ?g) (enumerate 0 tbl) = filter (\<lambda>(k, x). P x) (enumerate 0 tbl)"
  proof (rule filter_cong[OF refl])
    fix x assume "x \<in> set (enumerate 0 tbl)"
    moreover obtain k y where "x = (k, y)" by (cases x)
    ultimately have "x = (k, tbl ! k)" "k < length tbl"
      by (simp_all add: in_set_enumerate_eq)
    with assms show "((\<lambda>(k, x). P x) \<circ> ?g) x = (\<lambda>(k, x). P x) x"
      by (cases "k = i") simp_all
  qed
  with assms(1) show ?thesis
    by (simp add: objects_filter_def enumerate_list_update filter_map)
qed

lemma latest_map:
  "(\<And>x. OTP.created_at (snd (g x)) = OTP.created_at (snd x)) \<Longrightarrow>
   latest (map g xs) = map_option g (latest xs)"
  by (induction xs) (auto split: option.splits)

lemma latest_otp_after_use:
  assumes l: "latest_otp em cd s = Some (i, r)"
  shows "latest_otp em cd (OTP_save i (r\<lparr>is_used := True\<rparr>) s) = Some (i, r\<lparr>is_used := True\<rparr>)"
proof -
  let ?P = "\<lambda>r. OTP.email r = em \<and> otp r = cd"
  let ?f = "\<lambda>x. x\<lparr>is_used := True\<rparr>"
  let ?g = "\<lambda>(k, x). (k, if k = i then ?f x else x)"
  note f = latest_otp_Some[OF l]
  have "objects_filter ?P ((otps s)[i := ?f (otps s ! i)]) = map ?g (objects_filter ?P (otps s))"
    using f by (intro objects_filter_update) auto
  moreover have "latest (map ?g (objects_filter ?P (otps s)))
                   = map_option ?g (latest (objects_filter ?P (otps s)))"
    by (rule latest_map) (auto split: prod.splits)
  ultimately show ?thesis using l f(2) by (simp add: latest_otp_def)
qed

text \<open>
  Claim C8, as the code has it. A failing OTP verification answers 400 and changes
  nothing in both branches, in each of verify-email, verify-reset-otp and
  reset-password, but the two branches word it differently: "Invalid OTP" when no row
  matches, "Invalid or expired OTP" when the selected row is expired or used. The
  response tells the two branches apart; it does not tell expired from used.
\<close>

theorem otp_failure_messages:
  "(VerifyEmailSerializer cfg req = Inr (em, cd) \<longrightarrow>
      (latest_otp em cd s = None \<longrightarrow>
         VerifyEmailAPIView_post cfg e req s
           = (CustomResponse_error ''Invalid OTP'' None HTTP_400_BAD_REQUEST, s))
      \<and> (\<forall>i r. latest_otp em cd s = Some (i, r) \<and> \<not> is_valid e r \<longrightarrow>
         VerifyEmailAPIView_post cfg e req s
           = (CustomResponse_error ''Invalid or expired OTP'' None HTTP_400_BAD_REQUEST, s)))
   \<and> (VerifyResetOTPSerializer cfg req = Inr (em, cd) \<longrightarrow>
      (latest_otp em cd s = None \<longrightarrow>
         VerifyResetOTPAPIView_post cfg e req s
           = (CustomResponse_error ''Invalid OTP'' None HTTP_400_BAD_REQUEST, s))
      \<and> (\<forall>i r. latest_otp em cd s = Some (i, r) \<and> \<not> is_valid e r \<longrightarrow>
         VerifyResetOTPAPIView_post cfg e req s
           = (CustomResponse_error ''Invalid or expired OTP'' None HTTP_400_BAD_REQUEST, s)))
   \<and> (ResetPasswordSerializer cfg req' = Inr (em, cd, pw) \<longrightarrow>
      (latest_otp em cd s = None \<longrightarrow>
         ResetPasswordAPIView_post cfg e req' s
           = (CustomResponse_error ''Invalid OTP'' None HTTP_400_BAD_REQUEST, s))
      \<and> (\<forall>i r. latest_otp em cd s = Some (i, r) \<and> \<not> is_valid e r \<longrightarrow>
         ResetPasswordAPIView_post cfg e req' s
           = (CustomResponse_error ''Invalid or expired OTP'' None HTTP_400_BAD_REQUEST, s)))
   \<and> (\<forall>i r. \<not> is_valid e r \<longleftrightarrow> is_used r \<or> expires_at r \<le> now e)
   \<and> statusCode (CustomResponse_error ''Invalid OTP'' None HTTP_400_BAD_REQUEST)
       = statusCode (CustomResponse_error ''Invalid or expired OTP'' None HTTP_400_BAD_REQUEST)
   \<and> message (CustomResponse_error ''Invalid OTP'' None HTTP_400_BAD_REQUEST)
       \<noteq> message (CustomResponse_error ''Invalid or expired OTP'' None HTTP_400_BAD_REQUEST)"
  using VerifyEmail_no_row[of cfg req em cd s e] VerifyEmail_invalid_row[of cfg req em cd s _ _ e]
    VerifyResetOTP_no_row[of cfg req em cd s e] VerifyResetOTP_invalid_row[of cfg req em cd s _ _ e]
    ResetPassword_no_row[of cfg req' em cd pw s e] ResetPassword_invalid_row[of cfg req' em cd pw s _ _ e]
  by (auto simp: is_valid_def)

lemma ex_reset_ser:
  "ResetPasswordSerializer example_settings example_reset_request
     = Inr (''ann@example.com'', ''12345678'', ''tr0ub4dor and 3'')"
  by (simp add: ResetPasswordSerializer_def field_defs example_defs)

lemma ex_vr_ser:
  "VerifyResetOTPSerializer example_settings example_otp_request
     = Inr (''ann@example.com'', ''12345678'')"
  by (simp add: VerifyResetOTPSerializer_def ex_ser)

lemma ex_vr_post:
  "VerifyResetOTPAPIView_post example_settings (example_env 1000) example_otp_request example_db
     = (CustomResponse_success None ''OTP verified successfully. You can now reset your password.''
          HTTP_200_OK, example_db)"
  by (rule VerifyResetOTP_valid_row[OF ex_vr_ser ex_latest ex_valid])

lemma ex_valid_later: "is_valid (example_env 2000) example_otp"
  by (simp add: is_valid_def example_defs)

lemma ex_reset_post:
  "ResetPasswordAPIView_post example_settings (example_env 2000) example_reset_request example_db
     = (CustomResponse_success None ''Password reset successful'' HTTP_200_OK,
        Customer_save (example_env 2000) 0
          (set_password ''tr0ub4dor and 3'' (example_customer ''ann@example.com'' Retail))
          (OTP_save 0 (example_otp\<lparr>is_used := True\<rparr>) example_db))"
  by (simp add: ResetPassword_valid_row[OF ex_reset_ser ex_latest ex_valid_later] ex_get)

theorem verify_reset_otp_does_not_consume_witness:
  "VerifyResetOTPSerializer example_settings example_otp_request
     = Inr (''ann@example.com'', ''12345678'')
   \<and> success (fst (VerifyResetOTPAPIView_post example_settings (example_env 1000)
                     example_otp_request example_db))
   \<and> snd (VerifyResetOTPAPIView_post example_settings (example_env 1000)
                     example_otp_request example_db) = example_db
   \<and> ResetPasswordSerializer example_settings example_reset_request
        = Inr (''ann@example.com'', ''12345678'', ''tr0ub4dor and 3'')
   \<and> now (example_env 2000) < expires_at example_otp
   \<and> success (fst (ResetPasswordAPIView_post example_settings (example_env 2000)
                     example_reset_request example_db))
   \<and> otps (snd (ResetPasswordAPIView_post example_settings (example_env 2000)
                     example_reset_request example_db))
       = (otps example_db)[0 := example_otp\<lparr>is_used := True\<rparr>]"
proof -
  have ok: "success (CustomResponse_success None
              ''OTP verified successfully. You can now reset your password.'' HTTP_200_OK)"
    by simp
  from verify_reset_otp_does_not_consume[OF ex_vr_post ok]
  obtain em cd where "VerifyResetOTPSerializer example_settings example_otp_request = Inr (em, cd)"
    and g: "\<exists>i r. latest_otp em cd example_db = Some (i, r) \<and> otps example_db ! i = r
           \<and> \<not> is_used r \<and> now (example_env 1000) < expires_at r
           \<and> (\<forall>e' req' pw resp' s''.
                 ResetPasswordSerializer example_settings req' = Inr (em, cd, pw)
                 \<and> now e' < expires_at r
                 \<and> ResetPasswordAPIView_post example_settings e' req' example_db = (resp', s'')
                 \<longrightarrow> statusCode resp' \<noteq> HTTP_400_BAD_REQUEST
                     \<and> otps s'' = (otps example_db)[i := r\<lparr>is_used := True\<rparr>]
                     \<and> (\<forall>j c. objects_get (\<lambda>c. Customer.email c = em) (customers example_db) = Found j c
                           \<longrightarrow> success resp'
                               \<and> customers s'' =
                                   (customers example_db)[j := c\<lparr>password := Hashed pw,
                                                          Customer.updated_at := stamp e'\<rparr>]))"
    by (elim exE conjE) (rule that, assumption, intro exI conjI, assumption+)
  with ex_vr_ser have emcd: "em = ''ann@example.com''" "cd = ''12345678''" by simp_all
  from g[unfolded emcd]
  obtain i r where l: "latest_otp ''ann@example.com'' ''12345678'' example_db = Some (i, r)"
    and f: "\<forall>e' req' pw resp' s''.
                 ResetPasswordSerializer example_settings req' = Inr (''ann@example.com'', ''12345678'', pw)
                 \<and> now e' < expires_at r
                 \<and> ResetPasswordAPIView_post example_settings e' req' example_db = (resp', s'')
                 \<longrightarrow> statusCode resp' \<noteq> HTTP_400_BAD_REQUEST
                     \<and> otps s'' = (otps example_db)[i := r\<lparr>is_used := True\<rparr>]
                     \<and> (\<forall>j c. objects_get (\<lambda>c. Customer.email c = ''ann@example.com'') (customers example_db) = Found j c
                           \<longrightarrow> success resp'
                               \<and> customers s'' =
                                   (customers example_db)[j := c\<lparr>password := Hashed pw,
                                                          Customer.updated_at := stamp e'\<rparr>])"
    by blast
  from l ex_latest have ir: "i = 0" "r = example_otp" by simp_all
  have t: "now (example_env 2000) < expires_at example_otp" by (simp add: example_defs)
  from f[rule_format, OF conjI[OF ex_reset_ser conjI[OF t[folded ir(2)] ex_reset_post]]] ex_get ir
  have "success (CustomResponse_success None ''Password reset successful'' HTTP_200_OK)
      \<and> otps (Customer_save (example_env 2000) 0
          (set_password ''tr0ub4dor and 3'' (example_customer ''ann@example.com'' Retail))
          (OTP_save 0 (example_otp\<lparr>is_used := True\<rparr>) example_db))
         = (otps example_db)[0 := example_otp\<lparr>is_used := True\<rparr>]"
    by blast
  with ex_vr_ser ex_reset_ser t show ?thesis
    unfolding ex_vr_post ex_reset_post fst_conv snd_conv by simp
qed

lemma ex_used_latest:
  "latest_otp ''ann@example.com'' ''12345678'' used_otp_db = Some (0, example_otp\<lparr>is_used := True\<rparr>)"
  by (simp add: latest_otp_def objects_filter_def example_defs)

lemma ex_used_invalid: "\<not> is_valid (example_env 1000) (example_otp\<lparr>is_used := True\<rparr>)"
  by (simp add: is_valid_def)

theorem otp_failure_message_not_uniform:
  "message (fst (VerifyEmailAPIView_post example_settings (example_env 1000)
                   example_otp_request empty_db)) = ''Invalid OTP''
   \<and> message (fst (VerifyEmailAPIView_post example_settings (example_env 1000)
                   example_otp_request used_otp_db)) = ''Invalid or expired OTP''
   \<and> message (fst (VerifyEmailAPIView_post example_settings (example_env 1000)
                   example_otp_request empty_db))
       \<noteq> message (fst (VerifyEmailAPIView_post example_settings (example_env 1000)
                   example_otp_request used_otp_db))
   \<and> message (fst (VerifyEmailAPIView_post example_settings (example_env 1000)
                   example_otp_request empty_db)) \<noteq> ''Invalid or expired OTP''"
  by (simp add: ex_post_empty VerifyEmail_invalid_row[OF ex_ser ex_used_latest ex_used_invalid])

theorem otp_failure_messages_witness:
  "VerifyEmailSerializer example_settings example_otp_request
       = Inr (''ann@example.com'', ''12345678'')
   \<and> VerifyResetOTPSerializer example_settings example_otp_request
       = Inr (''ann@example.com'', ''12345678'')
   \<and> ResetPasswordSerializer example_settings example_reset_request
        = Inr (''ann@example.com'', ''12345678'', ''tr0ub4dor and 3'')
   \<and> latest_otp ''ann@example.com'' ''12345678'' empty_db = None
   \<and> latest_otp ''ann@example.com'' ''12345678'' used_otp_db
        = Some (0, example_otp\<lparr>is_used := True\<rparr>)
   \<and> \<not> is_valid (example_env 1000) (example_otp\<lparr>is_used := True\<rparr>)
   \<and> VerifyEmailAPIView_post example_settings (example_env 1000) example_otp_request empty_db
        = (CustomResponse_error ''Invalid OTP'' None HTTP_400_BAD_REQUEST, empty_db)
   \<and> VerifyResetOTPAPIView_post example_settings (example_env 1000) example_otp_request empty_db
        = (CustomResponse_error ''Invalid OTP'' None HTTP_400_BAD_REQUEST, empty_db)
   \<and> ResetPasswordAPIView_post example_settings (example_env 1000) example_reset_request empty_db
        = (CustomResponse_error ''Invalid OTP'' None HTTP_400_BAD_REQUEST, empty_db)
   \<and> VerifyEmailAPIView_post example_settings (example_env 1000) example_otp_request used_otp_db
        = (CustomResponse_error ''Invalid or expired OTP'' None HTTP_400_BAD_REQUEST, used_otp_db)
   \<and> VerifyResetOTPAPIView_post example_settings (example_env 1000) example_otp_request used_otp_db
        = (CustomResponse_error ''Invalid or expired OTP'' None HTTP_400_BAD_REQUEST, used_otp_db)
   \<and> ResetPasswordAPIView_post example_settings (example_env 1000) example_reset_request used_otp_db
        = (CustomResponse_error ''Invalid or expired OTP'' None HTTP_400_BAD_REQUEST, used_otp_db)"
proof -
  have n: "latest_otp ''ann@example.com'' ''12345678'' empty_db = None"
    by (simp add: latest_otp_None empty_db_def)
  note a = otp_failure_messages[of example_settings example_otp_request "''ann@example.com''"
             "''12345678''" empty_db "example_env 1000" example_reset_request "''tr0ub4dor and 3''"]
  note b = otp_failure_messages[of example_settings example_otp_request "''ann@example.com''"
             "''12345678''" used_otp_db "example_env 1000" example_reset_request "''tr0ub4dor and 3''"]
  note u = conjI[OF ex_used_latest ex_used_invalid]
  note e1 = a[THEN conjunct1, THEN mp, OF ex_ser, THEN conjunct1, THEN mp, OF n]
  note e2 = a[THEN conjunct2, THEN conjunct1, THEN mp, OF ex_vr_ser, THEN conjunct1, THEN mp, OF n]
  note e3 = a[THEN conjunct2, THEN conjunct2, THEN conjunct1, THEN mp, OF ex_reset_ser,
              THEN conjunct1, THEN mp, OF n]
  note u1 = b[THEN conjunct1, THEN mp, OF ex_ser, THEN conjunct2, THEN spec, THEN spec,
              THEN mp, OF u]
  note u2 = b[THEN conjunct2, THEN conjunct1, THEN mp, OF ex_vr_ser, THEN conjunct2, THEN spec,
              THEN spec, THEN mp, OF u]
  note u3 = b[THEN conjunct2, THEN conjunct2, THEN conjunct1, THEN mp, OF ex_reset_ser,
              THEN conjunct2, THEN spec, THEN spec, THEN mp, OF u]
  show ?thesis
    by (intro conjI) (rule ex_ser ex_vr_ser ex_reset_ser n ex_used_latest ex_used_invalid
                           e1 e2 e3 u1 u2 u3)+
qed

lemma otps_send_mail [simp]: "otps (send_mail subj rcpt c s) = otps s"
  and outbox_send_mail [simp]:
    "outbox (send_mail subj rcpt c s)
       = outbox s @ [\<lparr> subject = subj, recipient = rcpt, body_code = c \<rparr>]"
  and customers_send_mail [simp]: "customers (send_mail subj rcpt c s) = customers s"
  by (simp_all add: send_mail_def)

lemma otps_OTP_objects_create [simp]:
    "otps (OTP_objects_create e em c s) = otps s @ [OTP_new e em c None]"
  and outbox_OTP_objects_create [simp]: "outbox (OTP_objects_create e em c s) = outbox s"
  and customers_OTP_objects_create [simp]: "customers (OTP_objects_create e em c s) = customers s"
  by (simp_all add: OTP_objects_create_def)

lemma TradeInformation_create_frame [simp]:
  "otps (snd (TradeInformation_create e j vd s)) = otps s"
  "outbox (snd (TradeInformation_create e j vd s)) = outbox s"
  "customers (snd (TradeInformation_create e j vd s)) = customers s"
  by (simp_all add: TradeInformation_create_def Let_def)

lemma TradeInformation_create_frame':
  "TradeInformation_create e j vd s = (t, s1) \<Longrightarrow>
     otps s1 = otps s \<and> outbox s1 = outbox s \<and> customers s1 = customers s"
  by (auto simp: TradeInformation_create_def Let_def)

lemma create_user_frame:
  "create_user e vd s = Returned (k, u, s1) \<Longrightarrow>
     otps s1 = otps s \<and> outbox s1 = outbox s \<and> customers s1 = customers s @ [u]
     \<and> \<not> is_verified u \<and> k = length (customers s)"
  by (auto simp: create_user_def Let_def split: if_splits)

lemma Register_otps:
  "RegisterAPIView_post cfg e req s = (resp, s') \<Longrightarrow> otps s' = otps s \<and> outbox s' = outbox s"
  by (auto simp: RegisterAPIView_post_def split: sum.splits raised.splits dest: create_user_frame)

lemma Billing_otps:
  "BillingAddressRegisterAPIView_post cfg e req s = (resp, s') \<Longrightarrow>
     otps s' = otps s \<and> outbox s' = outbox s"
  by (auto simp: BillingAddressRegisterAPIView_post_def Let_def
           split: option.splits lookup.splits sum.splits)

lemma Delivery_found:
  assumes "request_email (adr_email req) = Some em"
    and "objects_get (\<lambda>c. Customer.email c = em) (customers s) = Found j customer"
    and "AddressSerializer False req = Inr vd"
  shows "DeliveryAddressRegisterAPIView_post cfg e req s =
     (if customer_type customer = Trade
      then (CustomResponse_success (Some (AddressData (Address_create e j vd)))
              ''Delivery address added successfully. Please complete trade information.''
              HTTP_201_CREATED,
            s\<lparr>delivery_addresses := delivery_addresses s @ [Address_create e j vd]\<rparr>)
      else (CustomResponse_success (Some (AddressData (Address_create e j vd)))
              ''Delivery address added successfully. Verification email sent. Please verify your email.''
              HTTP_201_CREATED,
            send_mail ''Email Verification - Seidik Ecommerce'' (Customer.email customer)
              (generate_otp e)
              (OTP_objects_create e (Customer.email customer) (generate_otp e)
                 (s\<lparr>delivery_addresses := delivery_addresses s @ [Address_create e j vd]\<rparr>))))"
  using assms by (simp add: DeliveryAddressRegisterAPIView_post_def Let_def)

lemma Delivery_success_found:
  assumes "DeliveryAddressRegisterAPIView_post cfg e req s = (resp, s')" "success resp"
  obtains em j customer vd where
    "request_email (adr_email req) = Some em"
    "objects_get (\<lambda>c. Customer.email c = em) (customers s) = Found j customer"
    "AddressSerializer False req = Inr vd"
  using assms
  by (auto simp: DeliveryAddressRegisterAPIView_post_def
           split: option.splits lookup.splits sum.splits)

lemma Delivery_success:
  assumes p: "DeliveryAddressRegisterAPIView_post cfg e req s = (resp, s')" and ok: "success resp"
  shows "\<exists>em j customer vd.
           request_email (adr_email req) = Some em
         \<and> objects_get (\<lambda>c. Customer.email c = em) (customers s) = Found j customer
         \<and> AddressSerializer False req = Inr vd
         \<and> delivery_addresses s' = delivery_addresses s @ [Address_create e j vd]
         \<and> (if customer_type customer = Trade
             then otps s' = otps s \<and> outbox s' = outbox s
             else otps s' = otps s @ [OTP_new e (Customer.email customer) (generate_otp e) None]
                \<and> outbox s' = outbox s @
                     [\<lparr> subject = ''Email Verification - Seidik Ecommerce'',
                        recipient = Customer.email customer, body_code = generate_otp e \<rparr>])"
proof -
  from p ok obtain em j customer vd where
    f: "request_email (adr_email req) = Some em"
      "objects_get (\<lambda>c. Customer.email c = em) (customers s) = Found j customer"
      "AddressSerializer False req = Inr vd"
    by (rule Delivery_success_found)
  from Delivery_found[OF f, of cfg e] p
  have "delivery_addresses s' = delivery_addresses s @ [Address_create e j vd]
         \<and> (if customer_type customer = Trade
             then otps s' = otps s \<and> outbox s' = outbox s
             else otps s' = otps s @ [OTP_new e (Customer.email customer) (generate_otp e) None]
                \<and> outbox s' = outbox s @
                     [\<lparr> subject = ''Email Verification - Seidik Ecommerce'',
                        recipient = Customer.email customer, body_code = generate_otp e \<rparr>])"
    by (auto simp: send_mail_def OTP_objects_create_def split: if_splits)
  with f show ?thesis by blast
qed

lemma Trade_success:
  assumes "TradeInformationRegisterAPIView_post cfg e req s = (resp, s')" "success resp"
  shows "\<exists>em j customer.
           request_email (trd_email req) = Some em
         \<and> objects_get (\<lambda>c. Customer.email c = em) (customers s) = Found j customer
         \<and> customer_type customer = Trade
         \<and> otps s' = otps s @ [OTP_new e (Customer.email customer) (generate_otp e) None]
         \<and> outbox s' = outbox s @
                     [\<lparr> subject = ''Email Verification - Seidik Ecommerce'',
                        recipient = Customer.email customer, body_code = generate_otp e \<rparr>]"
  using assms
  by (auto simp: TradeInformationRegisterAPIView_post_def Let_def
           split: option.splits lookup.splits sum.splits if_splits prod.splits
           dest: TradeInformation_create_frame')

lemma Trade_failure:
  assumes "TradeInformationRegisterAPIView_post cfg e req s = (resp, s')" "\<not> success resp"
  shows "s' = s"
  using assms
  by (auto simp: TradeInformationRegisterAPIView_post_def Let_def
           split: option.splits lookup.splits sum.splits if_splits prod.splits)

lemma length_generate_otp: "length (generate_otp e) = 8"
  by (simp add: generate_otp_def)

lemma digits_generate_otp:
  assumes "c \<in> set (generate_otp e)"
  shows "c \<in> set string_digits"
proof -
  from assms obtain k where c: "c = string_digits ! (rnd e k mod 10)"
    by (auto simp: generate_otp_def)
  have "rnd e k mod 10 < length string_digits" by (simp add: string_digits_def)
  then have "string_digits ! (rnd e k mod 10) \<in> set string_digits" by (rule nth_mem)
  with c show ?thesis by simp
qed

text \<open>
  The four steps of the registration. A successful add-delivery-address request for a
  Retail customer adds exactly one OTP row, for the customer's address, unused, and hands
  one verification mail with that code to the mail transport. For a Trade customer it adds
  no OTP row and sends nothing; neither do the register and add-billing-address steps. A
  successful add-trade-information step adds the row and sends the mail; when it fails it
  changes nothing.
\<close>

lemma registration_steps_otps:
  "(DeliveryAddressRegisterAPIView_post cfg e req s = (resp, s') \<and> success resp \<longrightarrow>
      (\<exists>em j customer.
          request_email (adr_email req) = Some em
        \<and> objects_get (\<lambda>c. Customer.email c = em) (customers s) = Found j customer
        \<and> (customer_type customer = Retail \<longrightarrow>
              (\<exists>row. otps s' = otps s @ [row]
                 \<and> OTP.email row = Customer.email customer \<and> otp row = generate_otp e
                 \<and> \<not> is_used row \<and> expires_at row = now e + timedelta_minutes 10
                 \<and> outbox s' = outbox s @
                      [\<lparr> subject = ''Email Verification - Seidik Ecommerce'',
                         recipient = Customer.email customer, body_code = otp row \<rparr>]))
        \<and> (customer_type customer = Trade \<longrightarrow> otps s' = otps s \<and> outbox s' = outbox s)))
   \<and> (TradeInformationRegisterAPIView_post cfg e treq s = (tresp, ts') \<longrightarrow>
        (success tresp \<longrightarrow>
           (\<exists>em j customer row.
               request_email (trd_email treq) = Some em
             \<and> objects_get (\<lambda>c. Customer.email c = em) (customers s) = Found j customer
             \<and> customer_type customer = Trade
             \<and> otps ts' = otps s @ [row]
             \<and> OTP.email row = Customer.email customer \<and> otp row = generate_otp e
             \<and> \<not> is_used row \<and> expires_at row = now e + timedelta_minutes 10
             \<and> outbox ts' = outbox s @
                  [\<lparr> subject = ''Email Verification - Seidik Ecommerce'',
                     recipient = Customer.email customer, body_code = otp row \<rparr>]))
      \<and> (\<not> success tresp \<longrightarrow> ts' = s))
   \<and> (RegisterAPIView_post cfg e rreq s = (rresp, rs') \<longrightarrow>
        otps rs' = otps s \<and> outbox rs' = outbox s)
   \<and> (BillingAddressRegisterAPIView_post cfg e breq s = (bresp, bs') \<longrightarrow>
        otps bs' = otps s \<and> outbox bs' = outbox s)"
proof (intro conjI impI)
  assume a: "DeliveryAddressRegisterAPIView_post cfg e req s = (resp, s') \<and> success resp"
  from Delivery_success[of cfg e req s resp s'] a
  obtain em j customer where
    f: "request_email (adr_email req) = Some em"
       "objects_get (\<lambda>c. Customer.email c = em) (customers s) = Found j customer"
    and g: "if customer_type customer = Trade
             then otps s' = otps s \<and> outbox s' = outbox s
             else otps s' = otps s @ [OTP_new e (Customer.email customer) (generate_otp e) None]
                \<and> outbox s' = outbox s @
                     [\<lparr> subject = ''Email Verification - Seidik Ecommerce'',
                        recipient = Customer.email customer, body_code = generate_otp e \<rparr>]"
    by blast
  have r: "\<exists>row. otps s' = otps s @ [row]
                 \<and> OTP.email row = Customer.email customer \<and> otp row = generate_otp e
                 \<and> \<not> is_used row \<and> expires_at row = now e + timedelta_minutes 10
                 \<and> outbox s' = outbox s @
                      [\<lparr> subject = ''Email Verification - Seidik Ecommerce'',
                         recipient = Customer.email customer, body_code = otp row \<rparr>]"
    if "customer_type customer = Retail"
    using g that
    by (intro exI[of _ "OTP_new e (Customer.email customer) (generate_otp e) None"])
       (simp add: OTP_new_def)
  have t: "otps s' = otps s \<and> outbox s' = outbox s" if "customer_type customer = Trade"
    using g that by simp
  from f r t
  show "\<exists>em j customer.
          request_email (adr_email req) = Some em
        \<and> objects_get (\<lambda>c. Customer.email c = em) (customers s) = Found j customer
        \<and> (customer_type customer = Retail \<longrightarrow>
              (\<exists>row. otps s' = otps s @ [row]
                 \<and> OTP.email row = Customer.email customer \<and> otp row = generate_otp e
                 \<and> \<not> is_used row \<and> expires_at row = now e + timedelta_minutes 10
                 \<and> outbox s' = outbox s @
                      [\<lparr> subject = ''Email Verification - Seidik Ecommerce'',
                         recipient = Customer.email customer, body_code = otp row \<rparr>]))
        \<and> (customer_type customer = Trade \<longrightarrow> otps s' = otps s \<and> outbox s' = outbox s)"
    by blast
next
  assume p: "TradeInformationRegisterAPIView_post cfg e treq s = (tresp, ts')"
    and ok: "success tresp"
  from Trade_success[OF p ok]
  obtain em j customer where
    f: "request_email (trd_email treq) = Some em"
       "objects_get (\<lambda>c. Customer.email c = em) (customers s) = Found j customer"
       "customer_type customer = Trade"
       "otps ts' = otps s @ [OTP_new e (Customer.email customer) (generate_otp e) None]"
       "outbox ts' = outbox s @
                     [\<lparr> subject = ''Email Verification - Seidik Ecommerce'',
                        recipient = Customer.email customer, body_code = generate_otp e \<rparr>]"
    by blast
  let ?row = "OTP_new e (Customer.email customer) (generate_otp e) None"
  have "OTP.email ?row = Customer.email customer \<and> otp ?row = generate_otp e
             \<and> \<not> is_used ?row \<and> expires_at ?row = now e + timedelta_minutes 10"
    by (simp add: OTP_new_def)
  with f show "\<exists>em j customer row.
               request_email (trd_email treq) = Some em
             \<and> objects_get (\<lambda>c. Customer.email c = em) (customers s) = Found j customer
             \<and> customer_type customer = Trade
             \<and> otps ts' = otps s @ [row]
             \<and> OTP.email row = Customer.email customer \<and> otp row = generate_otp e
             \<and> \<not> is_used row \<and> expires_at row = now e + timedelta_minutes 10
             \<and> outbox ts' = outbox s @
                  [\<lparr> subject = ''Email Verification - Seidik Ecommerce'',
                     recipient = Customer.email customer, body_code = otp row \<rparr>]"
    by (intro exI[of _ em] exI[of _ j] exI[of _ customer] exI[of _ ?row]) simp
next
  assume "TradeInformationRegisterAPIView_post cfg e treq s = (tresp, ts')" "\<not> success tresp"
  then show "ts' = s" by (rule Trade_failure)
next
  assume "RegisterAPIView_post cfg e rreq s = (rresp, rs')"
  then show "otps rs' = otps s" "outbox rs' = outbox s" by (simp_all add: Register_otps)
next
  assume "BillingAddressRegisterAPIView_post cfg e breq s = (bresp, bs')"
  then show "otps bs' = otps s" "outbox bs' = outbox s" by (simp_all add: Billing_otps)
qed

lemma ex_addr_ser:
  "AddressSerializer False (example_address_request em)
     = Inr \<lparr> v_company_name = None, v_vat_number = None, v_company_registration = None,
             v_po_number = None, v_address_line_1 = Some ''1 Main Road'',
             v_address_line_2 = None, v_city = Some ''Durban'', v_postal_code = Some ''4001'',
             v_province = Some KWAZULU_NATAL \<rparr>"
  by (simp add: AddressSerializer_def CharField_null_def ChoiceField_def CharField_def
        errors_of_def value_of_def Province_choices_def example_address_request_def)

lemma ex_addr_email:
  "request_email (adr_email (example_address_request ''ann@example.com'')) = Some ''ann@example.com''"
  "request_email (adr_email (example_address_request ''bob@example.com'')) = Some ''bob@example.com''"
  by (simp_all add: request_email_def example_address_request_def)

lemma ex_get_bob:
  "objects_get (\<lambda>c. Customer.email c = ''bob@example.com'') (customers trade_db)
     = Found 0 (example_customer ''bob@example.com'' Trade)"
  by (simp add: objects_get_def objects_filter_def example_defs)

lemma ex_types:
  "customer_type (example_customer em Retail) = Retail"
  "customer_type (example_customer em Trade) = Trade"
  by (simp_all add: example_customer_def)

lemma ex_trade_email:
  "request_email (trd_email (example_trade_request ''bob@example.com'')) = Some ''bob@example.com''"
  by (simp add: request_email_def example_trade_request_def)

lemma ex_trade_ser:
  "TradeInformationSerializer False (example_trade_request em)
     = Inr \<lparr> v_business_type = Some CONTRACTOR, v_monthly_statement = None,
             v_procurement_no = None, v_documents = None \<rparr>"
  by (simp add: TradeInformationSerializer_def CharField_null_def ChoiceField_def CharField_def
        errors_of_def value_of_def BusinessType_choices_def documents_field_def
        example_trade_request_def)

lemma ex_no_trade_information:
  "objects_get (\<lambda>t. TradeInformation.user t = 0) (trade_information trade_db) = DoesNotExist"
  by (simp add: objects_get_def objects_filter_def example_defs)

lemma ex_trade_ok:
  "success (fst (TradeInformationRegisterAPIView_post example_settings (example_env 1000)
                   (example_trade_request ''bob@example.com'') trade_db))"
  by (simp add: TradeInformationRegisterAPIView_post_def ex_trade_email ex_get_bob ex_types
        ex_no_trade_information ex_trade_ser Let_def split: prod.splits)

lemma objects_get_DoesNotExist:
  "objects_get P tbl = DoesNotExist \<longleftrightarrow> \<not> list_ex P tbl"
proof -
  have "objects_get P tbl = DoesNotExist \<longleftrightarrow> objects_filter P tbl = []"
    by (auto simp: objects_get_def split: list.splits)
  then show ?thesis by (simp add: objects_filter_empty list_ex_iff)
qed

lemma objects_get_Found:
  "objects_get P tbl = Found i r \<Longrightarrow> i < length tbl \<and> tbl ! i = r \<and> P r"
proof -
  assume "objects_get P tbl = Found i r"
  then have "objects_filter P tbl = [(i, r)]"
    by (auto simp: objects_get_def split: list.splits)
  then have "(i, r) \<in> set (objects_filter P tbl)" by simp
  then show ?thesis by (simp add: objects_filter_mem)
qed

text \<open>
  Claim C4, as the code has it. An add-trade-information request for an existing
  customer is refused with 403 when the customer is not a Trade customer, and with 400
  (not 409) when the customer is a Trade customer whose trade information exists
  already. Whenever a trade-information row of the customer exists the request does not
  succeed, and every refusal leaves the store, and so the existing row, as it was.
\<close>

theorem trade_information_refusals:
  assumes "request_email (trd_email req) = Some em"
    and "objects_get (\<lambda>c. Customer.email c = em) (customers s) = Found j customer"
  shows
    "(customer_type customer \<noteq> Trade \<longrightarrow>
        TradeInformationRegisterAPIView_post cfg e req s
          = (CustomResponse_error ''Only Trade customers can submit trade information'' None
               HTTP_403_FORBIDDEN, s))
     \<and> (\<forall>k t. customer_type customer = Trade
            \<and> objects_get (\<lambda>t. TradeInformation.user t = j) (trade_information s) = Found k t
          \<longrightarrow> TradeInformationRegisterAPIView_post cfg e req s
                = (CustomResponse_error ''Trade information already exists for this customer''
                     None HTTP_400_BAD_REQUEST, s))
     \<and> (list_ex (\<lambda>t. TradeInformation.user t = j) (trade_information s) \<longrightarrow>
          \<not> success (fst (TradeInformationRegisterAPIView_post cfg e req s))
          \<and> snd (TradeInformationRegisterAPIView_post cfg e req s) = s)"
  using assms
  by (auto simp: TradeInformationRegisterAPIView_post_def objects_get_DoesNotExist
           split: lookup.splits)

lemma ex_trade_email_ann:
  "request_email (trd_email (example_trade_request ''ann@example.com'')) = Some ''ann@example.com''"
  by (simp add: request_email_def example_trade_request_def)

lemma ex_get_bob_with_information:
  "objects_get (\<lambda>c. Customer.email c = ''bob@example.com'') (customers trade_db_with_information)
     = Found 0 (example_customer ''bob@example.com'' Trade)"
  by (simp add: objects_get_def objects_filter_def example_defs)

lemma ex_trade_information:
  "objects_get (\<lambda>t. TradeInformation.user t = 0) (trade_information trade_db_with_information)
     = Found 0 example_trade_information"
  by (simp add: objects_get_def objects_filter_def example_defs)

theorem trade_information_exists_answers_400:
  "statusCode (fst (TradeInformationRegisterAPIView_post example_settings (example_env 1000)
                      (example_trade_request ''bob@example.com'') trade_db_with_information)) = 400
   \<and> statusCode (fst (TradeInformationRegisterAPIView_post example_settings (example_env 1000)
                      (example_trade_request ''bob@example.com'') trade_db_with_information)) \<noteq> 409"
  by (simp add: TradeInformationRegisterAPIView_post_def ex_trade_email
        ex_get_bob_with_information ex_types ex_trade_information)

theorem trade_information_refusals_witness:
  "request_email (trd_email (example_trade_request ''ann@example.com'')) = Some ''ann@example.com''
   \<and> objects_get (\<lambda>c. Customer.email c = ''ann@example.com'') (customers example_db)
       = Found 0 (example_customer ''ann@example.com'' Retail)
   \<and> customer_type (example_customer ''ann@example.com'' Retail) \<noteq> Trade
   \<and> TradeInformationRegisterAPIView_post example_settings (example_env 1000)
        (example_trade_request ''ann@example.com'') example_db
       = (CustomResponse_error ''Only Trade customers can submit trade information'' None
               HTTP_403_FORBIDDEN, example_db)
   \<and> request_email (trd_email (example_trade_request ''bob@example.com'')) = Some ''bob@example.com''
   \<and> objects_get (\<lambda>c. Customer.email c = ''bob@example.com'') (customers trade_db_with_information)
       = Found 0 (example_customer ''bob@example.com'' Trade)
   \<and> customer_type (example_customer ''bob@example.com'' Trade) = Trade
   \<and> objects_get (\<lambda>t. TradeInformation.user t = 0) (trade_information trade_db_with_information)
       = Found 0 example_trade_information
   \<and> TradeInformationRegisterAPIView_post example_settings (example_env 1000)
        (example_trade_request ''bob@example.com'') trade_db_with_information
       = (CustomResponse_error ''Trade information already exists for this customer'' None
               HTTP_400_BAD_REQUEST, trade_db_with_information)"
proof -
  have nt: "customer_type (example_customer ''ann@example.com'' Retail) \<noteq> Trade"
    by (simp add: ex_types)
  note a = trade_information_refusals[OF ex_trade_email_ann ex_get,
             of example_settings "example_env 1000", THEN conjunct1, THEN mp, OF nt]
  note b = trade_information_refusals[OF ex_trade_email ex_get_bob_with_information,
             of example_settings "example_env 1000", THEN conjunct2, THEN conjunct1,
             THEN spec, THEN spec, THEN mp, OF conjI[OF ex_types(2) ex_trade_information]]
  show ?thesis
    by (intro conjI) (rule ex_trade_email_ann ex_get nt a ex_trade_email
                           ex_get_bob_with_information ex_types(2) ex_trade_information b)+
qed

section \<open>Login\<close>

lemma Login_by_authenticate:
  assumes "LoginSerializer cfg req = Inr (em, raw, remember_me)"
  shows "LoginAPIView_post cfg e req s =
     (case authenticate cfg em raw s of
        RaisedMultipleObjectsReturned \<Rightarrow> (server_error, s)
      | NoUser \<Rightarrow> (CustomResponse_error ''Invalid credentials'' None HTTP_401_UNAUTHORIZED, s)
      | User j u \<Rightarrow>
          if \<not> is_verified u
          then (CustomResponse_error ''Email not verified. Please verify your email first.''
                  None HTTP_403_FORBIDDEN, s)
          else if \<not> is_active u
          then (CustomResponse_error ''Account is deactivated'' None HTTP_403_FORBIDDEN, s)
          else
            (CustomResponse_success
               (Some (LoginData
                        (access_token cfg e
                           (if remember_me
                            then (fst (RefreshToken_for_user cfg e j s))
                                   \<lparr>token_exp := now e + timedelta_days 30\<rparr>
                            else fst (RefreshToken_for_user cfg e j s)))
                        (if remember_me
                         then (fst (RefreshToken_for_user cfg e j s))
                                \<lparr>token_exp := now e + timedelta_days 30\<rparr>
                         else fst (RefreshToken_for_user cfg e j s))
                        (UserSummary j (Customer.email u) (first_name u) (last_name u)
                           (customer_type u) (is_verified u))))
               ''Login successful'' HTTP_200_OK,
             snd (RefreshToken_for_user cfg e j s)))"
  using assms
  by (simp add: LoginAPIView_post_def Let_def split: authenticated.splits prod.splits)

text \<open>What holds of login under every backend: a refusal by \<open>authenticate\<close> is answered 401
  whatever the customer's flags; an authenticated customer who is not verified gets 403;
  tokens go to verified and active customers only.\<close>

lemma Login_wrong_password:
  assumes "LoginSerializer cfg req = Inr (em, raw, remember_me)"
    and "objects_get (\<lambda>c. Customer.email c = em) (customers s) = Found j u"
    and "\<not> check_password raw (password u)"
  shows "LoginAPIView_post cfg e req s
           = (CustomResponse_error ''Invalid credentials'' None HTTP_401_UNAUTHORIZED, s)"
  using assms by (simp add: Login_by_authenticate authenticate_def)

lemma Login_unknown_email:
  assumes "LoginSerializer cfg req = Inr (em, raw, remember_me)"
    and "objects_get (\<lambda>c. Customer.email c = em) (customers s) = DoesNotExist"
  shows "LoginAPIView_post cfg e req s
           = (CustomResponse_error ''Invalid credentials'' None HTTP_401_UNAUTHORIZED, s)"
  using assms by (simp add: Login_by_authenticate authenticate_def)

lemma Login_unverified:
  assumes "LoginSerializer cfg req = Inr (em, raw, remember_me)"
    and "objects_get (\<lambda>c. Customer.email c = em) (customers s) = Found j u"
    and "check_password raw (password u)" "is_active u" "\<not> is_verified u"
  shows "LoginAPIView_post cfg e req s
           = (CustomResponse_error ''Email not verified. Please verify your email first.''
                None HTTP_403_FORBIDDEN, s)"
  using assms
  by (simp add: Login_by_authenticate authenticate_def user_can_authenticate_def
           split: backend.splits)

lemma Login_tokens_only_verified_active:
  assumes "LoginSerializer cfg req = Inr (em, raw, remember_me)"
    and "LoginAPIView_post cfg e req s = (resp, s')" "success resp"
  shows "\<exists>j u. objects_get (\<lambda>c. Customer.email c = em) (customers s) = Found j u
           \<and> check_password raw (password u) \<and> is_verified u \<and> is_active u"
  using assms
  by (auto simp: Login_by_authenticate authenticate_def
           split: authenticated.splits lookup.splits if_splits)

text \<open>The deactivated customer. Under a backend that lets inactive users through, the
  view's own check answers 403; under \<open>ModelBackend\<close>, the framework's default, the
  customer never reaches that check.\<close>

lemma Login_deactivated_AllowAllUsersModelBackend:
  assumes "LoginSerializer cfg req = Inr (em, raw, remember_me)"
    and "objects_get (\<lambda>c. Customer.email c = em) (customers s) = Found j u"
    and "check_password raw (password u)" "is_verified u" "\<not> is_active u"
    and "AUTHENTICATION_BACKENDS cfg = AllowAllUsersModelBackend"
  shows "LoginAPIView_post cfg e req s
           = (CustomResponse_error ''Account is deactivated'' None HTTP_403_FORBIDDEN, s)"
  using assms
  by (simp add: Login_by_authenticate authenticate_def user_can_authenticate_def)

lemma Login_deactivated_ModelBackend:
  assumes "LoginSerializer cfg req = Inr (em, raw, remember_me)"
    and "objects_get (\<lambda>c. Customer.email c = em) (customers s) = Found j u"
    and "\<not> is_active u"
    and "AUTHENTICATION_BACKENDS cfg = ModelBackend"
  shows "LoginAPIView_post cfg e req s
           = (CustomResponse_error ''Invalid credentials'' None HTTP_401_UNAUTHORIZED, s)"
  using assms
  by (simp add: Login_by_authenticate authenticate_def user_can_authenticate_def)

lemma Login_deactivated_branch_dead:
  assumes "AUTHENTICATION_BACKENDS cfg = ModelBackend"
  shows "message (fst (LoginAPIView_post cfg e req s)) \<noteq> ''Account is deactivated''"
proof (cases "LoginSerializer cfg req")
  case (Inl errors)
  then show ?thesis by (simp add: LoginAPIView_post_def)
next
  case (Inr v)
  obtain em raw remember_me where v: "v = (em, raw, remember_me)" by (cases v)
  show ?thesis
    using assms
    by (auto simp: Login_by_authenticate[OF Inr[unfolded v]] authenticate_def
          user_can_authenticate_def server_error_def
          split: authenticated.splits lookup.splits if_splits)
qed

lemma ex_login_ser:
  "LoginSerializer example_settings example_login_request
     = Inr (''ann@example.com'', ''correct horse'', False)"
  by (simp add: LoginSerializer_def field_defs example_defs)

lemma ex_get_deactivated:
  "objects_get (\<lambda>c. Customer.email c = ''ann@example.com'') (customers deactivated_db)
     = Found 0 ((example_customer ''ann@example.com'' Retail)\<lparr>is_verified := True, is_active := False\<rparr>)"
  by (simp add: objects_get_def objects_filter_def example_defs)

text \<open>
  Claim C5 says that a customer who is verified but not active, logging in with the
  right password, is answered 403 with a message of its own. Under the framework's
  default backend the answer is 401 "Invalid credentials": \<open>authenticate\<close> has refused
  the inactive customer before the view looks at \<open>is_active\<close>.
\<close>

theorem login_deactivated_customer_default_backend:
  "AUTHENTICATION_BACKENDS example_settings = ModelBackend
   \<and> is_verified (customers deactivated_db ! 0)
   \<and> \<not> is_active (customers deactivated_db ! 0)
   \<and> check_password ''correct horse'' (password (customers deactivated_db ! 0))
   \<and> LoginAPIView_post example_settings (example_env 1000) example_login_request deactivated_db
       = (CustomResponse_error ''Invalid credentials'' None HTTP_401_UNAUTHORIZED, deactivated_db)
   \<and> statusCode (fst (LoginAPIView_post example_settings (example_env 1000)
                         example_login_request deactivated_db)) \<noteq> HTTP_403_FORBIDDEN"
proof -
  have b: "AUTHENTICATION_BACKENDS example_settings = ModelBackend"
    by (simp add: example_settings_def)
  have f: "is_verified (customers deactivated_db ! 0)"
      "\<not> is_active (customers deactivated_db ! 0)"
      "check_password ''correct horse'' (password (customers deactivated_db ! 0))"
    by (simp_all add: example_defs)
  have i: "\<not> is_active ((example_customer ''ann@example.com'' Retail)\<lparr>is_verified := True, is_active := False\<rparr>)"
    by simp
  note p = Login_deactivated_ModelBackend[OF ex_login_ser ex_get_deactivated i b, of "example_env 1000"]
  from b f p show ?thesis by simp
qed

section \<open>Profile update: the address loops\<close>

lemma user_Address_update [simp]: "Address.user (Address_update e vd r) = Address.user r"
  by (simp add: Address_update_def)

lemma user_Address_create [simp]: "Address.user (Address_create e u vd) = u"
  by (simp add: Address_create_def)






lemma only_own_rows_written_refl: "only_own_rows_written u tbl tbl"
  by simp

lemma Customer_save_frame [simp]:
  "billing_addresses (Customer_save e j c s) = billing_addresses s"
  "delivery_addresses (Customer_save e j c s) = delivery_addresses s"
  "trade_information (Customer_save e j c s) = trade_information s"
  "outbox (Customer_save e j c s) = outbox s"
  by (simp_all add: Customer_save_def)

lemma update_trade_information_frame:
  assumes "update_trade_information e j c td s = (x, s')"
  shows "billing_addresses s' = billing_addresses s \<and> delivery_addresses s' = delivery_addresses s
       \<and> customers s' = customers s \<and> otps s' = otps s \<and> outbox s' = outbox s"
  using assms
  by (auto simp: update_trade_information_def Let_def TradeInformation_create_def
           split: if_splits lookup.splits sum.splits option.splits)
















text \<open>An \<open>id\<close> that is not a UUID is not passed over: the lookup raises, nothing catches
  it, and the round ends the update with an error.\<close>

lemma update_address_malformed_id:
  "adr_id d = MalformedId \<Longrightarrow> update_address e u d tbl = Inl DjangoValidationError"
  by (simp add: update_address_def)

lemma exception_response_malformed_id:
  "statusCode (exception_response DjangoValidationError) = HTTP_500_INTERNAL_SERVER_ERROR"
  by (simp add: exception_response_def)

section \<open>What each operation does to the customers and to the OTP rows\<close>

lemma Register_kept:
  assumes "RegisterAPIView_post cfg e req s = (resp, s')"
  shows "verified_flags_kept s s'" and "used_flags_kept s s'"
proof -
  have "s' = s \<or> (\<exists>k u s1. create_user e (projr (CustomerRegistrationSerializer cfg s req)) s
                       = Returned (k, u, s1) \<and> s' = s1)"
    using assms
    by (auto simp: RegisterAPIView_post_def split: sum.splits raised.splits)
  then show "verified_flags_kept s s'" and "used_flags_kept s s'"
    by (auto dest!: create_user_frame simp: nth_append)
qed

lemma Billing_kept:
  assumes "BillingAddressRegisterAPIView_post cfg e req s = (resp, s')"
  shows "customers s' = customers s" and "otps s' = otps s"
  using assms
  by (auto simp: BillingAddressRegisterAPIView_post_def Let_def
           split: option.splits lookup.splits sum.splits)

lemma Delivery_kept:
  assumes "DeliveryAddressRegisterAPIView_post cfg e req s = (resp, s')"
  shows "customers s' = customers s" and "used_flags_kept s s'"
  using assms
  by (auto simp: DeliveryAddressRegisterAPIView_post_def Let_def nth_append
           split: option.splits lookup.splits sum.splits if_splits)

lemma Trade_kept:
  assumes "TradeInformationRegisterAPIView_post cfg e req s = (resp, s')"
  shows "customers s' = customers s" and "used_flags_kept s s'"
  using assms
  by (auto simp: TradeInformationRegisterAPIView_post_def Let_def nth_append
           split: option.splits lookup.splits sum.splits if_splits prod.splits
           dest: TradeInformation_create_frame')

lemma Resend_kept:
  assumes "ResendOTPAPIView_post cfg e req s = (resp, s')"
  shows "customers s' = customers s" and "used_flags_kept s s'"
  using assms
  by (auto simp: ResendOTPAPIView_post_def Let_def nth_append
           split: lookup.splits sum.splits if_splits)

lemma Forgot_kept:
  assumes "ForgotPasswordAPIView_post cfg e req s = (resp, s')"
  shows "customers s' = customers s" and "used_flags_kept s s'"
  using assms
  by (auto simp: ForgotPasswordAPIView_post_def Let_def nth_append
           split: lookup.splits sum.splits if_splits)

lemma Login_kept:
  assumes "LoginAPIView_post cfg e req s = (resp, s')"
  shows "customers s' = customers s" and "otps s' = otps s"
  using assms
  by (auto simp: LoginAPIView_post_def Let_def RefreshToken_for_user_def
           split: sum.splits authenticated.splits if_splits prod.splits)

lemma Logout_kept:
  assumes "LogoutAPIView_post cfg e req s = (resp, s')"
  shows "customers s' = customers s" and "otps s' = otps s"
  using assms
  by (auto simp: LogoutAPIView_post_def blacklist_def
           split: sum.splits presented.splits option.splits)

lemma Refresh_kept:
  assumes "RefreshTokenAPIView_post cfg e req s = (resp, s')"
  shows "s' = s"
  using assms
  by (auto simp: RefreshTokenAPIView_post_def split: presented.splits option.splits)

lemma VerifyResetOTP_kept:
  assumes "VerifyResetOTPAPIView_post cfg e req s = (resp, s')"
  shows "s' = s"
  using assms
  by (auto simp: VerifyResetOTPAPIView_post_def split: sum.splits option.splits if_splits)

lemma GetProfile_kept:
  assumes "ProfileAPIView_get cfg e req s = (resp, s')"
  shows "s' = s"
  using assms
  by (auto simp: ProfileAPIView_get_def split: sum.splits option.splits)

lemma request_user_Inr:
  "request_user e s p = Inr (j, u) \<Longrightarrow> j < length (customers s) \<and> customers s ! j = u"
  by (auto simp: request_user_def split: presented.splits if_splits)

lemma ChangePassword_kept:
  assumes "ChangePasswordAPIView_post cfg e req s = (resp, s')"
  shows "verified_flags_kept s s'" and "otps s' = otps s"
proof -
  have "s' = s \<or> (\<exists>j u pw. request_user e s (cp_auth req) = Inr (j, u)
                      \<and> s' = Customer_save e j (set_password pw u) s)"
    using assms
    by (auto simp: ChangePasswordAPIView_post_def split: sum.splits)
  then show "verified_flags_kept s s'" and "otps s' = otps s"
    by (auto dest!: request_user_Inr simp: nth_list_update set_password_def split: if_splits)
qed

lemma latest_otp_SomeD:
  "latest_otp em cd s = Some (i, r) \<Longrightarrow> i < length (otps s) \<and> otps s ! i = r"
  using latest_otp_Some(1,2) by blast

lemma ResetPassword_kept:
  assumes p: "ResetPasswordAPIView_post cfg e req s = (resp, s')"
  shows "verified_flags_kept s s'" and "used_flags_kept s s'"
proof -
  have "verified_flags_kept s s' \<and> used_flags_kept s s'"
  proof (cases "ResetPasswordSerializer cfg req")
    case (Inl errors)
    with p have "s' = s" by (simp add: ResetPasswordAPIView_post_def)
    then show ?thesis by auto
  next
    case (Inr v)
    obtain em cd pw where v: "ResetPasswordSerializer cfg req = Inr (em, cd, pw)"
      using Inr by (cases v) auto
    show ?thesis
    proof (cases "latest_otp em cd s")
      case None
      from ResetPassword_no_row[OF v None, of e] p have "s' = s" by simp
      then show ?thesis by auto
    next
      case (Some m)
      obtain i r where l: "latest_otp em cd s = Some (i, r)" using Some by (cases m) auto
      note ir = latest_otp_SomeD[OF l]
      show ?thesis
      proof (cases "is_valid e r")
        case False
        from ResetPassword_invalid_row[OF v l False] p have "s' = s" by simp
        then show ?thesis by auto
      next
        case True
        note q = ResetPassword_valid_row[OF v l True]
        show ?thesis
        proof (cases "objects_get (\<lambda>c. Customer.email c = em) (customers s)")
          case DoesNotExist
          with q p have "s' = OTP_save i (r\<lparr>is_used := True\<rparr>) s" by simp
          with ir show ?thesis by (auto simp: nth_list_update)
        next
          case MultipleObjectsReturned
          with q p have "s' = OTP_save i (r\<lparr>is_used := True\<rparr>) s" by simp
          with ir show ?thesis by (auto simp: nth_list_update)
        next
          case (Found j c)
          with q p have "s' = Customer_save e j (set_password pw c) (OTP_save i (r\<lparr>is_used := True\<rparr>) s)"
            by simp
          with ir objects_get_Found[OF Found] show ?thesis
            by (auto simp: nth_list_update set_password_def)
        qed
      qed
    qed
  qed
  then show "verified_flags_kept s s'" and "used_flags_kept s s'" by simp_all
qed

text \<open>Verify-email is the one operation that sets the flag, and only as follows.\<close>

lemma VerifyEmail_effect:
  assumes p: "VerifyEmailAPIView_post cfg e req s = (resp, s')"
  shows "used_flags_kept s s'
     \<and> ((customers s' = customers s \<and> \<not> success resp)
        \<or> (\<exists>em cd i r j c.
              VerifyEmailSerializer cfg req = Inr (em, cd)
            \<and> latest_otp em cd s = Some (i, r) \<and> is_valid e r
            \<and> objects_get (\<lambda>c. Customer.email c = em) (customers s) = Found j c
            \<and> success resp
            \<and> otps s' = (otps s)[i := r\<lparr>is_used := True\<rparr>]
            \<and> customers s' = (customers s)[j := c\<lparr>is_verified := True,
                                                   Customer.updated_at := stamp e\<rparr>]))"
proof (cases "VerifyEmailSerializer cfg req")
  case (Inl errors)
  with p have "s' = s" "\<not> success resp" by (auto simp: VerifyEmailAPIView_post_def)
  then show ?thesis by simp
next
  case (Inr v)
  obtain em cd where v: "VerifyEmailSerializer cfg req = Inr (em, cd)"
    using Inr by (cases v) auto
  show ?thesis
  proof (cases "latest_otp em cd s")
    case None
    from VerifyEmail_no_row[OF v None, of e] p have "s' = s" "\<not> success resp" by auto
    then show ?thesis by auto
  next
    case (Some m)
    obtain i r where l: "latest_otp em cd s = Some (i, r)" using Some by (cases m) auto
    note ir = latest_otp_SomeD[OF l]
    show ?thesis
    proof (cases "is_valid e r")
      case False
      from VerifyEmail_invalid_row[OF v l False] p have "s' = s" "\<not> success resp" by auto
      then show ?thesis by auto
    next
      case True
      note q = VerifyEmail_valid_row[OF v l True]
      show ?thesis
      proof (cases "objects_get (\<lambda>c. Customer.email c = em) (customers s)")
        case DoesNotExist
        with q p have "s' = OTP_save i (r\<lparr>is_used := True\<rparr>) s" "\<not> success resp" by auto
        with ir show ?thesis by (auto simp: nth_list_update)
      next
        case MultipleObjectsReturned
        with q p have "s' = OTP_save i (r\<lparr>is_used := True\<rparr>) s" "\<not> success resp" by auto
        with ir show ?thesis by (auto simp: nth_list_update)
      next
        case (Found j c)
        with q p have s': "s' = Customer_save e j (c\<lparr>is_verified := True\<rparr>)
                                 (OTP_save i (r\<lparr>is_used := True\<rparr>) s)"
          and ok: "success resp" by auto
        from s' ir have u: "used_flags_kept s s'" by (auto simp: nth_list_update)
        from s' have "otps s' = (otps s)[i := r\<lparr>is_used := True\<rparr>]"
          "customers s' = (customers s)[j := c\<lparr>is_verified := True,
                                                   Customer.updated_at := stamp e\<rparr>]"
          by simp_all
        with v l True Found ok have "\<exists>em cd i r j c.
              VerifyEmailSerializer cfg req = Inr (em, cd)
            \<and> latest_otp em cd s = Some (i, r) \<and> is_valid e r
            \<and> objects_get (\<lambda>c. Customer.email c = em) (customers s) = Found j c
            \<and> success resp
            \<and> otps s' = (otps s)[i := r\<lparr>is_used := True\<rparr>]
            \<and> customers s' = (customers s)[j := c\<lparr>is_verified := True,
                                                   Customer.updated_at := stamp e\<rparr>]"
          by blast
        with u show ?thesis by blast
      qed
    qed
  qed
qed

lemma ProfileUpdate_kept:
  assumes "ProfileUpdateAPIView_patch cfg e req s = (resp, s')"
  shows "verified_flags_kept s s'" and "otps s' = otps s"
proof -
  have u: "customers s1 = customers (Customer_save e j
               (c\<lparr> first_name := or_else (vp_first_name vd) (first_name c),
                   last_name := or_else (vp_last_name vd) (last_name c),
                   phone_number := or_else (vp_phone_number vd) (phone_number c) \<rparr>) s)
           \<and> otps s1 = otps s"
    if "update e j c vd s = (x, s1)" for j c vd x s1
    using that
    by (auto simp: update_def Let_def
           split: option.splits prod.splits dest: update_trade_information_frame)
  have "s' = s \<or> (\<exists>j c vd x. request_user e s (pr_auth req) = Inr (j, c)
                      \<and> update e j c vd s = (x, s'))"
    using assms
    by (auto simp: ProfileUpdateAPIView_patch_def split: sum.splits option.splits prod.splits)
  then show "verified_flags_kept s s'" and "otps s' = otps s"
    by (auto dest!: request_user_Inr u simp: nth_list_update split: if_splits)
qed

lemma dispatch_effect:
  assumes "dispatch cfg e rq s = (resp, s')"
  shows "used_flags_kept s s'
     \<and> (verified_flags_kept s s'
        \<or> (\<exists>d em cd i r j c.
              rq = VerifyEmail d
            \<and> VerifyEmailSerializer cfg d = Inr (em, cd)
            \<and> latest_otp em cd s = Some (i, r) \<and> is_valid e r
            \<and> objects_get (\<lambda>c. Customer.email c = em) (customers s) = Found j c
            \<and> success resp
            \<and> otps s' = (otps s)[i := r\<lparr>is_used := True\<rparr>]
            \<and> customers s' = (customers s)[j := c\<lparr>is_verified := True,
                                                   Customer.updated_at := stamp e\<rparr>]))"
proof (cases rq)
  case (Register d)
  with assms Register_kept[of cfg e d s resp s'] show ?thesis by auto
next
  case (RegisterBilling d)
  with assms Billing_kept[of cfg e d s resp s'] show ?thesis by auto
next
  case (RegisterDelivery d)
  with assms Delivery_kept[of cfg e d s resp s'] show ?thesis by auto
next
  case (RegisterTrade d)
  with assms Trade_kept[of cfg e d s resp s'] show ?thesis by auto
next
  case (VerifyEmail d)
  with assms have p: "VerifyEmailAPIView_post cfg e d s = (resp, s')" by simp
  from VerifyEmail_effect[OF p] have u: "used_flags_kept s s'" by blast
  from VerifyEmail_effect[OF p] consider
      (same) "customers s' = customers s"
    | (verified) em cd i r j c where
        "VerifyEmailSerializer cfg d = Inr (em, cd)"
        "latest_otp em cd s = Some (i, r)" "is_valid e r"
        "objects_get (\<lambda>c. Customer.email c = em) (customers s) = Found j c"
        "success resp"
        "otps s' = (otps s)[i := r\<lparr>is_used := True\<rparr>]"
        "customers s' = (customers s)[j := c\<lparr>is_verified := True,
                                                   Customer.updated_at := stamp e\<rparr>]"
    by blast
  then show ?thesis
  proof cases
    case same
    then have "verified_flags_kept s s'" by auto
    with u show ?thesis by blast
  next
    case verified
    with VerifyEmail have "\<exists>d em cd i r j c.
              rq = VerifyEmail d
            \<and> VerifyEmailSerializer cfg d = Inr (em, cd)
            \<and> latest_otp em cd s = Some (i, r) \<and> is_valid e r
            \<and> objects_get (\<lambda>c. Customer.email c = em) (customers s) = Found j c
            \<and> success resp
            \<and> otps s' = (otps s)[i := r\<lparr>is_used := True\<rparr>]
            \<and> customers s' = (customers s)[j := c\<lparr>is_verified := True,
                                                   Customer.updated_at := stamp e\<rparr>]"
      by blast
    with u show ?thesis by blast
  qed
next
  case (ResendOTP d)
  with assms Resend_kept[of cfg e d s resp s'] show ?thesis by auto
next
  case (Login d)
  with assms Login_kept[of cfg e d s resp s'] show ?thesis by auto
next
  case (Logout d)
  with assms Logout_kept[of cfg e d s resp s'] show ?thesis by auto
next
  case (TokenRefresh d)
  with assms Refresh_kept[of cfg e d s resp s'] show ?thesis by auto
next
  case (ForgotPassword d)
  with assms Forgot_kept[of cfg e d s resp s'] show ?thesis by auto
next
  case (VerifyResetOTP d)
  with assms VerifyResetOTP_kept[of cfg e d s resp s'] show ?thesis by auto
next
  case (ResetPassword d)
  with assms ResetPassword_kept[of cfg e d s resp s'] show ?thesis by auto
next
  case (ChangePassword d)
  with assms ChangePassword_kept[of cfg e d s resp s'] show ?thesis by auto
next
  case (GetProfile d)
  with assms GetProfile_kept[of cfg e d s resp s'] show ?thesis by auto
next
  case (ProfileUpdate d)
  with assms ProfileUpdate_kept[of cfg e d s resp s'] show ?thesis by auto
qed

text \<open>One step: a customer who is verified after a request and was not verified (or not
  there) before it.\<close>

lemma dispatch_newly_verified:
  assumes p: "dispatch cfg e rq s = (resp, s')"
    and k: "k < length (customers s')" "is_verified (customers s' ! k)"
    and n: "\<not> (k < length (customers s) \<and> is_verified (customers s ! k))"
  shows "\<exists>d em cd i r.
           rq = VerifyEmail d \<and> success resp
         \<and> VerifyEmailSerializer cfg d = Inr (em, cd)
         \<and> k < length (customers s) \<and> Customer.email (customers s ! k) = em
         \<and> latest_otp em cd s = Some (i, r) \<and> is_valid e r
         \<and> is_used (otps s' ! i)"
proof -
  from dispatch_effect[OF p] consider
      (kept) "verified_flags_kept s s'"
    | (verified) d em cd i r j c where
        "rq = VerifyEmail d"
        "VerifyEmailSerializer cfg d = Inr (em, cd)"
        "latest_otp em cd s = Some (i, r)" "is_valid e r"
        "objects_get (\<lambda>c. Customer.email c = em) (customers s) = Found j c"
        "success resp"
        "otps s' = (otps s)[i := r\<lparr>is_used := True\<rparr>]"
        "customers s' = (customers s)[j := c\<lparr>is_verified := True,
                                                   Customer.updated_at := stamp e\<rparr>]"
    by blast
  then show ?thesis
  proof cases
    case kept
    show ?thesis
    proof (cases "k < length (customers s)")
      case True
      with kept k n show ?thesis by auto
    next
      case False
      with kept k show ?thesis by (auto simp: not_less)
    qed
  next
    case verified
    note j = objects_get_Found[OF verified(5)]
    note i = latest_otp_SomeD[OF verified(3)]
    from verified(8) k have kl: "k < length (customers s)" by simp
    have "k = j"
    proof (rule ccontr)
      assume "k \<noteq> j"
      with verified(8) have "customers s' ! k = customers s ! k" by simp
      with k n kl show False by simp
    qed
    with j have em: "Customer.email (customers s ! k) = em" by simp
    from verified(7) i have "is_used (otps s' ! i)" by simp
    with verified kl em show ?thesis by blast
  qed
qed

lemma serve_Cons:
  "serve cfg ((e, rq) # rest) s =
     (fst (dispatch cfg e rq s) # fst (serve cfg rest (snd (dispatch cfg e rq s))),
      snd (serve cfg rest (snd (dispatch cfg e rq s))))"
  by (simp add: Let_def split: prod.splits)

lemma serve_newly_verified:
  assumes "k < length (customers (snd (serve cfg ops s)))"
    and "is_verified (customers (snd (serve cfg ops s)) ! k)"
    and "\<not> (k < length (customers s) \<and> is_verified (customers s ! k))"
  shows "\<exists>pre e d post em cd i r.
           ops = pre @ (e, VerifyEmail d) # post
         \<and> success (fst (dispatch cfg e (VerifyEmail d) (snd (serve cfg pre s))))
         \<and> VerifyEmailSerializer cfg d = Inr (em, cd)
         \<and> k < length (customers (snd (serve cfg pre s)))
         \<and> Customer.email (customers (snd (serve cfg pre s)) ! k) = em
         \<and> latest_otp em cd (snd (serve cfg pre s)) = Some (i, r) \<and> is_valid e r"
  using assms
proof (induction ops arbitrary: s)
  case Nil
  then show ?case by simp
next
  case (Cons a ops)
  obtain e rq where a: "a = (e, rq)" by (cases a)
  let ?s1 = "snd (dispatch cfg e rq s)"
  have p: "dispatch cfg e rq s = (fst (dispatch cfg e rq s), ?s1)" by simp
  show ?case
  proof (cases "k < length (customers ?s1) \<and> is_verified (customers ?s1 ! k)")
    case True
    from dispatch_newly_verified[OF p _ _ Cons.prems(3)] True
    obtain d em cd i r where
      "rq = VerifyEmail d" "success (fst (dispatch cfg e rq s))"
      "VerifyEmailSerializer cfg d = Inr (em, cd)"
      "k < length (customers s)" "Customer.email (customers s ! k) = em"
      "latest_otp em cd s = Some (i, r)" "is_valid e r"
      by blast
    with a have "a # ops = [] @ (e, VerifyEmail d) # ops
         \<and> success (fst (dispatch cfg e (VerifyEmail d) (snd (serve cfg [] s))))
         \<and> VerifyEmailSerializer cfg d = Inr (em, cd)
         \<and> k < length (customers (snd (serve cfg [] s)))
         \<and> Customer.email (customers (snd (serve cfg [] s)) ! k) = em
         \<and> latest_otp em cd (snd (serve cfg [] s)) = Some (i, r) \<and> is_valid e r"
      by simp
    then show ?thesis by blast
  next
    case False
    from Cons.prems a have
      "k < length (customers (snd (serve cfg ops ?s1)))"
      "is_verified (customers (snd (serve cfg ops ?s1)) ! k)"
      by (simp_all add: serve_Cons del: serve.simps)
    from Cons.IH[OF this False]
    obtain pre e' d post em cd i r where
      f: "ops = pre @ (e', VerifyEmail d) # post"
         "success (fst (dispatch cfg e' (VerifyEmail d) (snd (serve cfg pre ?s1))))"
         "VerifyEmailSerializer cfg d = Inr (em, cd)"
         "k < length (customers (snd (serve cfg pre ?s1)))"
         "Customer.email (customers (snd (serve cfg pre ?s1)) ! k) = em"
         "latest_otp em cd (snd (serve cfg pre ?s1)) = Some (i, r)" "is_valid e' r"
      by blast
    have s: "snd (serve cfg ((e, rq) # pre) s) = snd (serve cfg pre ?s1)"
      by (simp add: serve_Cons del: serve.simps)
    from f a have "a # ops = ((e, rq) # pre) @ (e', VerifyEmail d) # post
         \<and> success (fst (dispatch cfg e' (VerifyEmail d) (snd (serve cfg ((e, rq) # pre) s))))
         \<and> VerifyEmailSerializer cfg d = Inr (em, cd)
         \<and> k < length (customers (snd (serve cfg ((e, rq) # pre) s)))
         \<and> Customer.email (customers (snd (serve cfg ((e, rq) # pre) s)) ! k) = em
         \<and> latest_otp em cd (snd (serve cfg ((e, rq) # pre) s)) = Some (i, r) \<and> is_valid e' r"
      unfolding s by simp
    then show ?thesis by blast
  qed
qed

lemma serve_used_flags_kept:
  "used_flags_kept s (snd (serve cfg ops s))"
proof (induction ops arbitrary: s)
  case Nil
  then show ?case by simp
next
  case (Cons a ops)
  obtain e rq where a: "a = (e, rq)" by (cases a)
  let ?s1 = "snd (dispatch cfg e rq s)"
  have p: "dispatch cfg e rq s = (fst (dispatch cfg e rq s), ?s1)" by simp
  from dispatch_effect[OF p] have 1: "used_flags_kept s ?s1" by blast
  note 2 = Cons.IH[of ?s1]
  have "used_flags_kept s (snd (serve cfg ops ?s1))"
  proof (intro conjI allI impI)
    from 1 2 show "length (otps s) \<le> length (otps (snd (serve cfg ops ?s1)))" by linarith
  next
    fix i assume i: "i < length (otps s)" and u: "is_used (otps s ! i)"
    with 1 have "i < length (otps ?s1)" "is_used (otps ?s1 ! i)" by auto
    with 2 show "is_used (otps (snd (serve cfg ops ?s1)) ! i)" by blast
  qed
  with a show ?case by (simp add: serve_Cons del: serve.simps)
qed

text \<open>
  Claim C6. Among the public operations (the fifteen routes of the accounts
  application), only a successful verify-email makes a customer verified. If a customer
  is verified after a request and was not verified, or did not exist, before it, then
  the request was a verify-email that succeeded for that customer's address, on a valid
  OTP row which it left marked used. Hence in every sequence of requests, a customer who
  is verified at the end and was not at the start was verified by a successful
  verify-email request of the sequence. (Customers created by registration start
  unverified.)
\<close>

theorem verified_only_by_verify_email:
  "(dispatch cfg e rq s = (resp, s')
      \<and> k < length (customers s') \<and> is_verified (customers s' ! k)
      \<and> \<not> (k < length (customers s) \<and> is_verified (customers s ! k))
    \<longrightarrow> (\<exists>d em cd i r.
           rq = VerifyEmail d \<and> success resp
         \<and> VerifyEmailSerializer cfg d = Inr (em, cd)
         \<and> k < length (customers s) \<and> Customer.email (customers s ! k) = em
         \<and> latest_otp em cd s = Some (i, r) \<and> is_valid e r
         \<and> is_used (otps s' ! i)))
   \<and> (k < length (customers (snd (serve cfg ops s)))
      \<and> is_verified (customers (snd (serve cfg ops s)) ! k)
      \<and> \<not> (k < length (customers s) \<and> is_verified (customers s ! k))
    \<longrightarrow> (\<exists>pre e d post em cd i r.
           ops = pre @ (e, VerifyEmail d) # post
         \<and> success (fst (dispatch cfg e (VerifyEmail d) (snd (serve cfg pre s))))
         \<and> VerifyEmailSerializer cfg d = Inr (em, cd)
         \<and> k < length (customers (snd (serve cfg pre s)))
         \<and> Customer.email (customers (snd (serve cfg pre s)) ! k) = em
         \<and> latest_otp em cd (snd (serve cfg pre s)) = Some (i, r) \<and> is_valid e r))"
proof (rule conjI)
  show "dispatch cfg e rq s = (resp, s')
      \<and> k < length (customers s') \<and> is_verified (customers s' ! k)
      \<and> \<not> (k < length (customers s) \<and> is_verified (customers s ! k))
    \<longrightarrow> (\<exists>d em cd i r.
           rq = VerifyEmail d \<and> success resp
         \<and> VerifyEmailSerializer cfg d = Inr (em, cd)
         \<and> k < length (customers s) \<and> Customer.email (customers s ! k) = em
         \<and> latest_otp em cd s = Some (i, r) \<and> is_valid e r
         \<and> is_used (otps s' ! i))"
  proof (rule impI)
    assume a: "dispatch cfg e rq s = (resp, s')
      \<and> k < length (customers s') \<and> is_verified (customers s' ! k)
      \<and> \<not> (k < length (customers s) \<and> is_verified (customers s ! k))"
    show "\<exists>d em cd i r.
           rq = VerifyEmail d \<and> success resp
         \<and> VerifyEmailSerializer cfg d = Inr (em, cd)
         \<and> k < length (customers s) \<and> Customer.email (customers s ! k) = em
         \<and> latest_otp em cd s = Some (i, r) \<and> is_valid e r
         \<and> is_used (otps s' ! i)"
      by (rule dispatch_newly_verified[OF a[THEN conjunct1] a[THEN conjunct2, THEN conjunct1]
             a[THEN conjunct2, THEN conjunct2, THEN conjunct1]
             a[THEN conjunct2, THEN conjunct2, THEN conjunct2]])
  qed
next
  show "k < length (customers (snd (serve cfg ops s)))
      \<and> is_verified (customers (snd (serve cfg ops s)) ! k)
      \<and> \<not> (k < length (customers s) \<and> is_verified (customers s ! k))
    \<longrightarrow> (\<exists>pre e d post em cd i r.
           ops = pre @ (e, VerifyEmail d) # post
         \<and> success (fst (dispatch cfg e (VerifyEmail d) (snd (serve cfg pre s))))
         \<and> VerifyEmailSerializer cfg d = Inr (em, cd)
         \<and> k < length (customers (snd (serve cfg pre s)))
         \<and> Customer.email (customers (snd (serve cfg pre s)) ! k) = em
         \<and> latest_otp em cd (snd (serve cfg pre s)) = Some (i, r) \<and> is_valid e r)"
  proof (rule impI)
    assume a: "k < length (customers (snd (serve cfg ops s)))
      \<and> is_verified (customers (snd (serve cfg ops s)) ! k)
      \<and> \<not> (k < length (customers s) \<and> is_verified (customers s ! k))"
    show "\<exists>pre e d post em cd i r.
           ops = pre @ (e, VerifyEmail d) # post
         \<and> success (fst (dispatch cfg e (VerifyEmail d) (snd (serve cfg pre s))))
         \<and> VerifyEmailSerializer cfg d = Inr (em, cd)
         \<and> k < length (customers (snd (serve cfg pre s)))
         \<and> Customer.email (customers (snd (serve cfg pre s)) ! k) = em
         \<and> latest_otp em cd (snd (serve cfg pre s)) = Some (i, r) \<and> is_valid e r"
      by (rule serve_newly_verified[OF a[THEN conjunct1] a[THEN conjunct2, THEN conjunct1]
             a[THEN conjunct2, THEN conjunct2]])
  qed
qed

lemma ex_dispatch_verify:
  "dispatch example_settings (example_env 1000) (VerifyEmail example_otp_request) example_db
     = (CustomResponse_success None
             ''Email verified successfully. Registration complete! You can now login.''
             HTTP_200_OK,
        example_db\<lparr> customers := [(example_customer ''ann@example.com'' Retail)
                                     \<lparr>is_verified := True, Customer.updated_at := 1000\<rparr>],
                    otps := [example_otp\<lparr>is_used := True\<rparr>] \<rparr>)"
  by (simp add: ex_post)

theorem verified_only_by_verify_email_witness:
  "0 < length (customers (snd (dispatch example_settings (example_env 1000)
                                  (VerifyEmail example_otp_request) example_db)))
   \<and> is_verified (customers (snd (dispatch example_settings (example_env 1000)
                                  (VerifyEmail example_otp_request) example_db)) ! 0)
   \<and> \<not> is_verified (customers example_db ! 0)
   \<and> success (fst (dispatch example_settings (example_env 1000)
                      (VerifyEmail example_otp_request) example_db))
   \<and> is_used (otps (snd (dispatch example_settings (example_env 1000)
                            (VerifyEmail example_otp_request) example_db)) ! 0)"
proof -
  let ?p = "dispatch example_settings (example_env 1000) (VerifyEmail example_otp_request) example_db"
  have k: "0 < length (customers (snd ?p))" "is_verified (customers (snd ?p) ! 0)"
    unfolding ex_dispatch_verify by simp_all
  have n: "\<not> is_verified (customers example_db ! 0)" by (simp add: example_defs)
  then have n': "\<not> (0 < length (customers example_db) \<and> is_verified (customers example_db ! 0))"
    by simp
  from verified_only_by_verify_email
         [THEN conjunct1, THEN mp,
          OF conjI[OF prod.collapse[symmetric] conjI[OF k(1) conjI[OF k(2) n']]]]
  obtain d em cd i r where
    f: "VerifyEmail example_otp_request = VerifyEmail d" "success (fst ?p)"
       "VerifyEmailSerializer example_settings d = Inr (em, cd)"
       "latest_otp em cd example_db = Some (i, r)"
       "is_used (otps (snd ?p) ! i)"
    by (elim exE conjE)
  from f(1) have "d = example_otp_request" by simp
  with f(3) ex_ser have "em = ''ann@example.com''" "cd = ''12345678''" by simp_all
  with f(4) ex_latest have "i = 0" by simp
  with f(5) have u: "is_used (otps (snd ?p) ! 0)" by simp
  show ?thesis
    by (intro conjI) (rule k n f(2) u)+
qed

section \<open>An OTP spent on an unknown address\<close>

text \<open>
  Claim C10. In verify-email and in reset-password alike, when the most recent OTP row
  for the submitted address and code is valid and no customer has that address, the row
  is saved as used before the customer is looked up: the answer is 404 "User not found"
  and the store has changed. The row is not valid at any later time, the same request
  sent again is refused with 400, and no sequence of public requests makes the row
  unused again.
\<close>

theorem otp_consumed_before_customer_lookup:
  assumes l: "latest_otp em cd s = Some (i, r)"
    and v: "is_valid e r"
    and nc: "objects_get (\<lambda>c. Customer.email c = em) (customers s) = DoesNotExist"
  shows
    "(VerifyEmailSerializer cfg req = Inr (em, cd) \<longrightarrow>
        VerifyEmailAPIView_post cfg e req s
          = (CustomResponse_error ''User not found'' None HTTP_404_NOT_FOUND,
             OTP_save i (r\<lparr>is_used := True\<rparr>) s)
        \<and> (\<forall>e'. VerifyEmailAPIView_post cfg e' req (OTP_save i (r\<lparr>is_used := True\<rparr>) s)
              = (CustomResponse_error ''Invalid or expired OTP'' None HTTP_400_BAD_REQUEST,
                 OTP_save i (r\<lparr>is_used := True\<rparr>) s)))
     \<and> (ResetPasswordSerializer cfg req' = Inr (em, cd, pw) \<longrightarrow>
        ResetPasswordAPIView_post cfg e req' s
          = (CustomResponse_error ''User not found'' None HTTP_404_NOT_FOUND,
             OTP_save i (r\<lparr>is_used := True\<rparr>) s)
        \<and> (\<forall>e'. ResetPasswordAPIView_post cfg e' req' (OTP_save i (r\<lparr>is_used := True\<rparr>) s)
              = (CustomResponse_error ''Invalid or expired OTP'' None HTTP_400_BAD_REQUEST,
                 OTP_save i (r\<lparr>is_used := True\<rparr>) s)))
     \<and> \<not> is_used (otps s ! i)
     \<and> otps (OTP_save i (r\<lparr>is_used := True\<rparr>) s) = (otps s)[i := r\<lparr>is_used := True\<rparr>]
     \<and> is_used (otps (OTP_save i (r\<lparr>is_used := True\<rparr>) s) ! i)
     \<and> OTP_save i (r\<lparr>is_used := True\<rparr>) s \<noteq> s
     \<and> (\<forall>e'. \<not> is_valid e' (otps (OTP_save i (r\<lparr>is_used := True\<rparr>) s) ! i))
     \<and> (\<forall>ops. i < length (otps (snd (serve cfg ops (OTP_save i (r\<lparr>is_used := True\<rparr>) s))))
            \<and> is_used (otps (snd (serve cfg ops (OTP_save i (r\<lparr>is_used := True\<rparr>) s))) ! i))"
proof -
  let ?s1 = "OTP_save i (r\<lparr>is_used := True\<rparr>) s"
  note f = latest_otp_Some[OF l]
  have l1: "latest_otp em cd ?s1 = Some (i, r\<lparr>is_used := True\<rparr>)"
    by (rule latest_otp_after_use[OF l])
  have inv: "\<not> is_valid e' (r\<lparr>is_used := True\<rparr>)" for e' by (simp add: is_valid_def)
  have u0: "\<not> is_used (otps s ! i)" using v f(2) by (simp add: is_valid_def)
  have u1: "is_used (otps ?s1 ! i)" using f(1) by simp
  have ne: "?s1 \<noteq> s"
  proof
    assume eq: "?s1 = s"
    from u1 have "is_used (otps s ! i)" unfolding eq .
    with u0 show False ..
  qed
  have a: "VerifyEmailAPIView_post cfg e req s
          = (CustomResponse_error ''User not found'' None HTTP_404_NOT_FOUND, ?s1)"
    if "VerifyEmailSerializer cfg req = Inr (em, cd)"
    using VerifyEmail_valid_row[OF that l v] nc by simp
  have a': "VerifyEmailAPIView_post cfg e' req ?s1
          = (CustomResponse_error ''Invalid or expired OTP'' None HTTP_400_BAD_REQUEST, ?s1)"
    if "VerifyEmailSerializer cfg req = Inr (em, cd)" for e'
    by (rule VerifyEmail_invalid_row[OF that l1 inv])
  have b: "ResetPasswordAPIView_post cfg e req' s
          = (CustomResponse_error ''User not found'' None HTTP_404_NOT_FOUND, ?s1)"
    if "ResetPasswordSerializer cfg req' = Inr (em, cd, pw)"
    using ResetPassword_valid_row[OF that l v] nc by simp
  have b': "ResetPasswordAPIView_post cfg e' req' ?s1
          = (CustomResponse_error ''Invalid or expired OTP'' None HTTP_400_BAD_REQUEST, ?s1)"
    if "ResetPasswordSerializer cfg req' = Inr (em, cd, pw)" for e'
    by (rule ResetPassword_invalid_row[OF that l1 inv])
  have inv1: "\<not> is_valid e' (otps ?s1 ! i)" for e' using u1 by (simp add: is_valid_def)
  have il: "i < length (otps ?s1)" using f(1) by simp
  have forever: "i < length (otps (snd (serve cfg ops ?s1)))
            \<and> is_used (otps (snd (serve cfg ops ?s1)) ! i)" for ops
    using serve_used_flags_kept[of ?s1 cfg ops] il u1 by auto
  from a a' b b' u0 u1 ne inv1 forever show ?thesis by simp
qed

lemma ex_orphan_latest:
  "latest_otp ''ann@example.com'' ''12345678'' orphan_otp_db = Some (0, example_otp)"
  by (simp add: latest_otp_def objects_filter_def example_defs)

lemma ex_orphan_get:
  "objects_get (\<lambda>c. Customer.email c = ''ann@example.com'') (customers orphan_otp_db) = DoesNotExist"
  by (simp add: objects_get_def objects_filter_def example_defs)

theorem otp_consumed_before_customer_lookup_witness:
  "latest_otp ''ann@example.com'' ''12345678'' orphan_otp_db = Some (0, example_otp)
   \<and> is_valid (example_env 1000) example_otp
   \<and> objects_get (\<lambda>c. Customer.email c = ''ann@example.com'') (customers orphan_otp_db)
       = DoesNotExist
   \<and> VerifyEmailSerializer example_settings example_otp_request
       = Inr (''ann@example.com'', ''12345678'')
   \<and> ResetPasswordSerializer example_settings example_reset_request
        = Inr (''ann@example.com'', ''12345678'', ''tr0ub4dor and 3'')
   \<and> VerifyEmailAPIView_post example_settings (example_env 1000) example_otp_request orphan_otp_db
       = (CustomResponse_error ''User not found'' None HTTP_404_NOT_FOUND,
          OTP_save 0 (example_otp\<lparr>is_used := True\<rparr>) orphan_otp_db)
   \<and> ResetPasswordAPIView_post example_settings (example_env 1000) example_reset_request orphan_otp_db
       = (CustomResponse_error ''User not found'' None HTTP_404_NOT_FOUND,
          OTP_save 0 (example_otp\<lparr>is_used := True\<rparr>) orphan_otp_db)
   \<and> otps (OTP_save 0 (example_otp\<lparr>is_used := True\<rparr>) orphan_otp_db)
       = [example_otp\<lparr>is_used := True\<rparr>]"
proof -
  note t = otp_consumed_before_customer_lookup[OF ex_orphan_latest ex_valid ex_orphan_get,
             of example_settings example_otp_request example_reset_request "''tr0ub4dor and 3''"]
  from t ex_ser have a: "VerifyEmailAPIView_post example_settings (example_env 1000) example_otp_request orphan_otp_db
       = (CustomResponse_error ''User not found'' None HTTP_404_NOT_FOUND,
          OTP_save 0 (example_otp\<lparr>is_used := True\<rparr>) orphan_otp_db)" by blast
  from t ex_reset_ser have b: "ResetPasswordAPIView_post example_settings (example_env 1000) example_reset_request orphan_otp_db
       = (CustomResponse_error ''User not found'' None HTTP_404_NOT_FOUND,
          OTP_save 0 (example_otp\<lparr>is_used := True\<rparr>) orphan_otp_db)" by blast
  have c: "otps (OTP_save 0 (example_otp\<lparr>is_used := True\<rparr>) orphan_otp_db)
       = [example_otp\<lparr>is_used := True\<rparr>]" by (simp add: orphan_otp_db_def)
  from ex_orphan_latest ex_valid ex_orphan_get ex_ser ex_reset_ser a b c show ?thesis by blast
qed

section \<open>Which operations issue codes\<close>

text \<open>Verify-email and reset-password overwrite an OTP row and add none.\<close>

lemma VerifyEmail_length_otps:
  "VerifyEmailAPIView_post cfg e req s = (resp, s') \<Longrightarrow> length (otps s') = length (otps s)"
  by (auto simp: VerifyEmailAPIView_post_def Let_def
           split: sum.splits option.splits if_splits lookup.splits)

lemma ResetPassword_length_otps:
  "ResetPasswordAPIView_post cfg e req s = (resp, s') \<Longrightarrow> length (otps s') = length (otps s)"
  by (auto simp: ResetPasswordAPIView_post_def Let_def
           split: sum.splits option.splits if_splits lookup.splits)

section \<open>Codes issued outside the registration steps\<close>

lemma Delivery_failure:
  assumes "DeliveryAddressRegisterAPIView_post cfg e req s = (resp, s')" "\<not> success resp"
  shows "s' = s"
  using assms
  by (auto simp: DeliveryAddressRegisterAPIView_post_def Let_def
           split: option.splits lookup.splits sum.splits if_splits)

lemma Resend_found:
  assumes "ResendOTPSerializer cfg req = Inr em"
    and "objects_get (\<lambda>c. Customer.email c = em) (customers s) = Found j customer"
    and "\<not> is_verified customer"
  shows "ResendOTPAPIView_post cfg e req s =
           (CustomResponse_success None ''OTP sent successfully'' HTTP_200_OK,
            send_mail ''Email Verification'' em (generate_otp e)
              (OTP_objects_create e em (generate_otp e) s))"
  using assms by (simp add: ResendOTPAPIView_post_def Let_def)

lemma Resend_success:
  assumes "ResendOTPAPIView_post cfg e req s = (resp, s')" "success resp"
  shows "\<exists>em j customer.
           ResendOTPSerializer cfg req = Inr em
         \<and> objects_get (\<lambda>c. Customer.email c = em) (customers s) = Found j customer
         \<and> \<not> is_verified customer
         \<and> s' = send_mail ''Email Verification'' em (generate_otp e)
                  (OTP_objects_create e em (generate_otp e) s)"
  using assms
  by (auto simp: ResendOTPAPIView_post_def Let_def split: sum.splits lookup.splits if_splits)

lemma Resend_failure:
  assumes "ResendOTPAPIView_post cfg e req s = (resp, s')" "\<not> success resp"
  shows "s' = s"
  using assms
  by (auto simp: ResendOTPAPIView_post_def Let_def split: sum.splits lookup.splits if_splits)

lemma Forgot_found:
  assumes "ForgotPasswordSerializer cfg req = Inr em"
    and "objects_get (\<lambda>c. Customer.email c = em) (customers s) = Found j customer"
  shows "ForgotPasswordAPIView_post cfg e req s =
           (CustomResponse_success None ''Password reset OTP sent to your email'' HTTP_200_OK,
            send_mail ''Password Reset Code'' em (generate_otp e)
              (OTP_objects_create e em (generate_otp e) s))"
  using assms by (simp add: ForgotPasswordAPIView_post_def Let_def)

lemma Forgot_success:
  assumes "ForgotPasswordAPIView_post cfg e req s = (resp, s')" "success resp"
  shows "\<exists>em j customer.
           ForgotPasswordSerializer cfg req = Inr em
         \<and> objects_get (\<lambda>c. Customer.email c = em) (customers s) = Found j customer
         \<and> s' = send_mail ''Password Reset Code'' em (generate_otp e)
                  (OTP_objects_create e em (generate_otp e) s)"
  using assms
  by (auto simp: ForgotPasswordAPIView_post_def Let_def split: sum.splits lookup.splits if_splits)

lemma Forgot_failure:
  assumes "ForgotPasswordAPIView_post cfg e req s = (resp, s')" "\<not> success resp"
  shows "s' = s"
  using assms
  by (auto simp: ForgotPasswordAPIView_post_def Let_def split: sum.splits lookup.splits if_splits)

lemma issued_row:
  assumes "s' = send_mail subj em (generate_otp e) (OTP_objects_create e em (generate_otp e) s)"
  shows "\<exists>row. otps s' = otps s @ [row]
           \<and> OTP.email row = em \<and> otp row = generate_otp e
           \<and> \<not> is_used row \<and> expires_at row = now e + timedelta_minutes 10
           \<and> outbox s' = outbox s @ [\<lparr> subject = subj, recipient = em, body_code = otp row \<rparr>]
           \<and> customers s' = customers s \<and> trade_information s' = trade_information s"
  unfolding assms
  by (intro exI[of _ "OTP_new e em (generate_otp e) None"])
     (simp add: OTP_new_def send_mail_def OTP_objects_create_def)

lemma Delivery_adds_row:
  assumes p: "DeliveryAddressRegisterAPIView_post cfg e req s = (resp, s')"
    and n: "length (otps s') \<noteq> length (otps s)"
  shows "success resp \<and> length (otps s') = Suc (length (otps s))
       \<and> (\<exists>em j customer.
             request_email (adr_email req) = Some em
           \<and> objects_get (\<lambda>c. Customer.email c = em) (customers s) = Found j customer
           \<and> customer_type customer = Retail)"
proof -
  have ok: "success resp"
  proof (rule ccontr)
    assume "\<not> success resp"
    with p have "s' = s" by (rule Delivery_failure)
    with n show False by simp
  qed
  from Delivery_success[OF p ok] obtain em j customer where
    f: "request_email (adr_email req) = Some em"
       "objects_get (\<lambda>c. Customer.email c = em) (customers s) = Found j customer"
    and g: "if customer_type customer = Trade
             then otps s' = otps s \<and> outbox s' = outbox s
             else otps s' = otps s @ [OTP_new e (Customer.email customer) (generate_otp e) None]
                \<and> outbox s' = outbox s @
                     [\<lparr> subject = ''Email Verification - Seidik Ecommerce'',
                        recipient = Customer.email customer, body_code = generate_otp e \<rparr>]"
    by blast
  from g n have nt: "customer_type customer \<noteq> Trade" by auto
  then have r: "customer_type customer = Retail" by (cases "customer_type customer") simp_all
  from g nt have "length (otps s') = Suc (length (otps s))" by simp
  with ok f r show ?thesis by blast
qed

lemma Trade_adds_row:
  assumes p: "TradeInformationRegisterAPIView_post cfg e req s = (resp, s')"
    and n: "length (otps s') \<noteq> length (otps s)"
  shows "success resp \<and> length (otps s') = Suc (length (otps s))
       \<and> (\<exists>em j customer.
             request_email (trd_email req) = Some em
           \<and> objects_get (\<lambda>c. Customer.email c = em) (customers s) = Found j customer
           \<and> customer_type customer = Trade)"
proof -
  have ok: "success resp"
  proof (rule ccontr)
    assume "\<not> success resp"
    with p have "s' = s" by (rule Trade_failure)
    with n show False by simp
  qed
  from Trade_success[OF p ok] obtain em j customer where
    f: "request_email (trd_email req) = Some em"
       "objects_get (\<lambda>c. Customer.email c = em) (customers s) = Found j customer"
       "customer_type customer = Trade"
       "otps s' = otps s @ [OTP_new e (Customer.email customer) (generate_otp e) None]"
    by blast
  then have "length (otps s') = Suc (length (otps s))" by simp
  with ok f show ?thesis by blast
qed

lemma Resend_adds_row:
  assumes p: "ResendOTPAPIView_post cfg e req s = (resp, s')"
    and n: "length (otps s') \<noteq> length (otps s)"
  shows "success resp \<and> length (otps s') = Suc (length (otps s))"
proof -
  have ok: "success resp"
  proof (rule ccontr)
    assume "\<not> success resp"
    with p have "s' = s" by (rule Resend_failure)
    with n show False by simp
  qed
  from Resend_success[OF p ok] have "length (otps s') = Suc (length (otps s))" by auto
  with ok show ?thesis by simp
qed

lemma Forgot_adds_row:
  assumes p: "ForgotPasswordAPIView_post cfg e req s = (resp, s')"
    and n: "length (otps s') \<noteq> length (otps s)"
  shows "success resp \<and> length (otps s') = Suc (length (otps s))"
proof -
  have ok: "success resp"
  proof (rule ccontr)
    assume "\<not> success resp"
    with p have "s' = s" by (rule Forgot_failure)
    with n show False by simp
  qed
  from Forgot_success[OF p ok] have "length (otps s') = Suc (length (otps s))" by auto
  with ok show ?thesis by simp
qed

lemma dispatch_issues:
  assumes p: "dispatch cfg e rq s = (resp, s')"
    and n: "length (otps s') \<noteq> length (otps s)"
  shows "success resp \<and> length (otps s') = Suc (length (otps s))
       \<and> ((\<exists>d em j customer. rq = RegisterDelivery d
              \<and> request_email (adr_email d) = Some em
              \<and> objects_get (\<lambda>c. Customer.email c = em) (customers s) = Found j customer
              \<and> customer_type customer = Retail)
         \<or> (\<exists>d em j customer. rq = RegisterTrade d
              \<and> request_email (trd_email d) = Some em
              \<and> objects_get (\<lambda>c. Customer.email c = em) (customers s) = Found j customer
              \<and> customer_type customer = Trade)
         \<or> (\<exists>d. rq = ResendOTP d) \<or> (\<exists>d. rq = ForgotPassword d))"
proof (cases rq)
  case (Register d)
  with p n Register_otps[of cfg e d s resp s'] show ?thesis by simp
next
  case (RegisterBilling d)
  with p n Billing_otps[of cfg e d s resp s'] show ?thesis by simp
next
  case (RegisterDelivery d)
  with p have "DeliveryAddressRegisterAPIView_post cfg e d s = (resp, s')" by simp
  from Delivery_adds_row[OF this n] RegisterDelivery show ?thesis by blast
next
  case (RegisterTrade d)
  with p have "TradeInformationRegisterAPIView_post cfg e d s = (resp, s')" by simp
  from Trade_adds_row[OF this n] RegisterTrade show ?thesis by blast
next
  case (VerifyEmail d)
  with p n VerifyEmail_length_otps[of cfg e d s resp s'] show ?thesis by simp
next
  case (ResendOTP d)
  with p have "ResendOTPAPIView_post cfg e d s = (resp, s')" by simp
  from Resend_adds_row[OF this n] ResendOTP show ?thesis by blast
next
  case (Login d)
  with p n Login_kept[of cfg e d s resp s'] show ?thesis by simp
next
  case (Logout d)
  with p n Logout_kept[of cfg e d s resp s'] show ?thesis by simp
next
  case (TokenRefresh d)
  with p n Refresh_kept[of cfg e d s resp s'] show ?thesis by simp
next
  case (ForgotPassword d)
  with p have "ForgotPasswordAPIView_post cfg e d s = (resp, s')" by simp
  from Forgot_adds_row[OF this n] ForgotPassword show ?thesis by blast
next
  case (VerifyResetOTP d)
  with p n VerifyResetOTP_kept[of cfg e d s resp s'] show ?thesis by simp
next
  case (ResetPassword d)
  with p n ResetPassword_length_otps[of cfg e d s resp s'] show ?thesis by simp
next
  case (ChangePassword d)
  with p n ChangePassword_kept(2)[of cfg e d s resp s'] show ?thesis by simp
next
  case (GetProfile d)
  with p n GetProfile_kept[of cfg e d s resp s'] show ?thesis by simp
next
  case (ProfileUpdate d)
  with p n ProfileUpdate_kept(2)[of cfg e d s resp s'] show ?thesis by simp
qed

lemma ex_resend_ser:
  "ResendOTPSerializer example_settings (example_email_request ''bob@example.com'')
     = Inr ''bob@example.com''"
  "ForgotPasswordSerializer example_settings (example_email_request ''bob@example.com'')
     = Inr ''bob@example.com''"
  by (simp_all add: ForgotPasswordSerializer_def ResendOTPSerializer_def field_defs example_defs)

lemma ex_unverified: "\<not> is_verified (example_customer em ct)"
  by (simp add: example_customer_def)

lemma ex_generate_otp: "generate_otp (example_env t) = ''01234567''"
  by (simp add: generate_otp_def string_digits_def example_env_def upt_rec)

text \<open>
  Claim C3. A successful add-delivery-address request for a Retail customer adds exactly
  one OTP row, for the customer's address, unused, and hands one verification mail with
  that code to the mail transport; for a Trade customer it adds no OTP row and sends
  nothing, and neither do the register and add-billing-address steps. A successful
  add-trade-information step adds the row and sends the mail for a Trade customer; when
  it fails it changes nothing. That step is not the only one that issues a code to a
  Trade customer: resend-otp succeeds for every existing customer who is not verified,
  and forgot-password for every existing customer, whatever the customer type and
  whether or not trade information exists, and each adds one OTP row for the address and
  sends one mail. No other operation adds an OTP row, none adds one when it fails, and an
  add-delivery-address request that adds one is for a Retail customer.
\<close>

theorem otp_issuing_operations:
  "(DeliveryAddressRegisterAPIView_post cfg e req s = (resp, s') \<and> success resp \<longrightarrow>
      (\<exists>em j customer.
          request_email (adr_email req) = Some em
        \<and> objects_get (\<lambda>c. Customer.email c = em) (customers s) = Found j customer
        \<and> (customer_type customer = Retail \<longrightarrow>
              (\<exists>row. otps s' = otps s @ [row]
                 \<and> OTP.email row = Customer.email customer \<and> otp row = generate_otp e
                 \<and> \<not> is_used row \<and> expires_at row = now e + timedelta_minutes 10
                 \<and> outbox s' = outbox s @
                      [\<lparr> subject = ''Email Verification - Seidik Ecommerce'',
                         recipient = Customer.email customer, body_code = otp row \<rparr>]))
        \<and> (customer_type customer = Trade \<longrightarrow> otps s' = otps s \<and> outbox s' = outbox s)))
   \<and> (TradeInformationRegisterAPIView_post cfg e treq s = (tresp, ts') \<longrightarrow>
        (success tresp \<longrightarrow>
           (\<exists>em j customer row.
               request_email (trd_email treq) = Some em
             \<and> objects_get (\<lambda>c. Customer.email c = em) (customers s) = Found j customer
             \<and> customer_type customer = Trade
             \<and> otps ts' = otps s @ [row]
             \<and> OTP.email row = Customer.email customer \<and> otp row = generate_otp e
             \<and> \<not> is_used row \<and> expires_at row = now e + timedelta_minutes 10
             \<and> outbox ts' = outbox s @
                  [\<lparr> subject = ''Email Verification - Seidik Ecommerce'',
                     recipient = Customer.email customer, body_code = otp row \<rparr>]))
      \<and> (\<not> success tresp \<longrightarrow> ts' = s))
   \<and> (RegisterAPIView_post cfg e rreq s = (rresp, rs') \<longrightarrow>
        otps rs' = otps s \<and> outbox rs' = outbox s)
   \<and> (BillingAddressRegisterAPIView_post cfg e breq s = (bresp, bs') \<longrightarrow>
        otps bs' = otps s \<and> outbox bs' = outbox s)
   \<and> (ResendOTPAPIView_post cfg e qreq s = (qresp, qs') \<longrightarrow>
        (success qresp \<longleftrightarrow>
           (\<exists>em j customer.
               ResendOTPSerializer cfg qreq = Inr em
             \<and> objects_get (\<lambda>c. Customer.email c = em) (customers s) = Found j customer
             \<and> \<not> is_verified customer))
      \<and> (success qresp \<longrightarrow>
           (\<exists>em row.
               ResendOTPSerializer cfg qreq = Inr em
             \<and> otps qs' = otps s @ [row]
             \<and> OTP.email row = em \<and> otp row = generate_otp e
             \<and> \<not> is_used row \<and> expires_at row = now e + timedelta_minutes 10
             \<and> outbox qs' = outbox s @
                  [\<lparr> subject = ''Email Verification'', recipient = em, body_code = otp row \<rparr>]
             \<and> customers qs' = customers s \<and> trade_information qs' = trade_information s))
      \<and> (\<not> success qresp \<longrightarrow> qs' = s))
   \<and> (ForgotPasswordAPIView_post cfg e freq s = (fresp, fs') \<longrightarrow>
        (success fresp \<longleftrightarrow>
           (\<exists>em j customer.
               ForgotPasswordSerializer cfg freq = Inr em
             \<and> objects_get (\<lambda>c. Customer.email c = em) (customers s) = Found j customer))
      \<and> (success fresp \<longrightarrow>
           (\<exists>em row.
               ForgotPasswordSerializer cfg freq = Inr em
             \<and> otps fs' = otps s @ [row]
             \<and> OTP.email row = em \<and> otp row = generate_otp e
             \<and> \<not> is_used row \<and> expires_at row = now e + timedelta_minutes 10
             \<and> outbox fs' = outbox s @
                  [\<lparr> subject = ''Password Reset Code'', recipient = em, body_code = otp row \<rparr>]
             \<and> customers fs' = customers s \<and> trade_information fs' = trade_information s))
      \<and> (\<not> success fresp \<longrightarrow> fs' = s))
   \<and> (dispatch cfg e rq s = (dresp, ds') \<and> length (otps ds') \<noteq> length (otps s) \<longrightarrow>
        success dresp \<and> length (otps ds') = Suc (length (otps s))
      \<and> ((\<exists>d em j customer. rq = RegisterDelivery d
              \<and> request_email (adr_email d) = Some em
              \<and> objects_get (\<lambda>c. Customer.email c = em) (customers s) = Found j customer
              \<and> customer_type customer = Retail)
         \<or> (\<exists>d em j customer. rq = RegisterTrade d
              \<and> request_email (trd_email d) = Some em
              \<and> objects_get (\<lambda>c. Customer.email c = em) (customers s) = Found j customer
              \<and> customer_type customer = Trade)
         \<or> (\<exists>d. rq = ResendOTP d) \<or> (\<exists>d. rq = ForgotPassword d)))"
proof -
  have r: "ResendOTPAPIView_post cfg e qreq s = (qresp, qs') \<longrightarrow>
        (success qresp \<longleftrightarrow>
           (\<exists>em j customer.
               ResendOTPSerializer cfg qreq = Inr em
             \<and> objects_get (\<lambda>c. Customer.email c = em) (customers s) = Found j customer
             \<and> \<not> is_verified customer))
      \<and> (success qresp \<longrightarrow>
           (\<exists>em row.
               ResendOTPSerializer cfg qreq = Inr em
             \<and> otps qs' = otps s @ [row]
             \<and> OTP.email row = em \<and> otp row = generate_otp e
             \<and> \<not> is_used row \<and> expires_at row = now e + timedelta_minutes 10
             \<and> outbox qs' = outbox s @
                  [\<lparr> subject = ''Email Verification'', recipient = em, body_code = otp row \<rparr>]
             \<and> customers qs' = customers s \<and> trade_information qs' = trade_information s))
      \<and> (\<not> success qresp \<longrightarrow> qs' = s)"
  proof (intro impI conjI)
    assume p: "ResendOTPAPIView_post cfg e qreq s = (qresp, qs')"
    show "success qresp \<longleftrightarrow>
           (\<exists>em j customer.
               ResendOTPSerializer cfg qreq = Inr em
             \<and> objects_get (\<lambda>c. Customer.email c = em) (customers s) = Found j customer
             \<and> \<not> is_verified customer)"
    proof
      assume "success qresp"
      from Resend_success[OF p this]
      show "\<exists>em j customer.
               ResendOTPSerializer cfg qreq = Inr em
             \<and> objects_get (\<lambda>c. Customer.email c = em) (customers s) = Found j customer
             \<and> \<not> is_verified customer" by blast
    next
      assume "\<exists>em j customer.
               ResendOTPSerializer cfg qreq = Inr em
             \<and> objects_get (\<lambda>c. Customer.email c = em) (customers s) = Found j customer
             \<and> \<not> is_verified customer"
      then obtain em j customer where
        "ResendOTPSerializer cfg qreq = Inr em"
        "objects_get (\<lambda>c. Customer.email c = em) (customers s) = Found j customer"
        "\<not> is_verified customer" by blast
      from Resend_found[OF this, of e] p show "success qresp" by auto
    qed
  next
    assume p: "ResendOTPAPIView_post cfg e qreq s = (qresp, qs')" and ok: "success qresp"
    from Resend_success[OF p ok] obtain em where
      ser: "ResendOTPSerializer cfg qreq = Inr em"
      and eq: "qs' = send_mail ''Email Verification'' em (generate_otp e)
                  (OTP_objects_create e em (generate_otp e) s)" by blast
    from issued_row[OF eq] ser
    show "\<exists>em row.
               ResendOTPSerializer cfg qreq = Inr em
             \<and> otps qs' = otps s @ [row]
             \<and> OTP.email row = em \<and> otp row = generate_otp e
             \<and> \<not> is_used row \<and> expires_at row = now e + timedelta_minutes 10
             \<and> outbox qs' = outbox s @
                  [\<lparr> subject = ''Email Verification'', recipient = em, body_code = otp row \<rparr>]
             \<and> customers qs' = customers s \<and> trade_information qs' = trade_information s"
      by blast
  next
    assume "ResendOTPAPIView_post cfg e qreq s = (qresp, qs')" "\<not> success qresp"
    then show "qs' = s" by (rule Resend_failure)
  qed
  have f: "ForgotPasswordAPIView_post cfg e freq s = (fresp, fs') \<longrightarrow>
        (success fresp \<longleftrightarrow>
           (\<exists>em j customer.
               ForgotPasswordSerializer cfg freq = Inr em
             \<and> objects_get (\<lambda>c. Customer.email c = em) (customers s) = Found j customer))
      \<and> (success fresp \<longrightarrow>
           (\<exists>em row.
               ForgotPasswordSerializer cfg freq = Inr em
             \<and> otps fs' = otps s @ [row]
             \<and> OTP.email row = em \<and> otp row = generate_otp e
             \<and> \<not> is_used row \<and> expires_at row = now e + timedelta_minutes 10
             \<and> outbox fs' = outbox s @
                  [\<lparr> subject = ''Password Reset Code'', recipient = em, body_code = otp row \<rparr>]
             \<and> customers fs' = customers s \<and> trade_information fs' = trade_information s))
      \<and> (\<not> success fresp \<longrightarrow> fs' = s)"
  proof (intro impI conjI)
    assume p: "ForgotPasswordAPIView_post cfg e freq s = (fresp, fs')"
    show "success fresp \<longleftrightarrow>
           (\<exists>em j customer.
               ForgotPasswordSerializer cfg freq = Inr em
             \<and> objects_get (\<lambda>c. Customer.email c = em) (customers s) = Found j customer)"
    proof
      assume "success fresp"
      from Forgot_success[OF p this]
      show "\<exists>em j customer.
               ForgotPasswordSerializer cfg freq = Inr em
             \<and> objects_get (\<lambda>c. Customer.email c = em) (customers s) = Found j customer"
        by blast
    next
      assume "\<exists>em j customer.
               ForgotPasswordSerializer cfg freq = Inr em
             \<and> objects_get (\<lambda>c. Customer.email c = em) (customers s) = Found j customer"
      then obtain em j customer where
        "ForgotPasswordSerializer cfg freq = Inr em"
        "objects_get (\<lambda>c. Customer.email c = em) (customers s) = Found j customer" by blast
      from Forgot_found[OF this, of e] p show "success fresp" by auto
    qed
  next
    assume p: "ForgotPasswordAPIView_post cfg e freq s = (fresp, fs')" and ok: "success fresp"
    from Forgot_success[OF p ok] obtain em where
      ser: "ForgotPasswordSerializer cfg freq = Inr em"
      and eq: "fs' = send_mail ''Password Reset Code'' em (generate_otp e)
                  (OTP_objects_create e em (generate_otp e) s)" by blast
    from issued_row[OF eq] ser
    show "\<exists>em row.
               ForgotPasswordSerializer cfg freq = Inr em
             \<and> otps fs' = otps s @ [row]
             \<and> OTP.email row = em \<and> otp row = generate_otp e
             \<and> \<not> is_used row \<and> expires_at row = now e + timedelta_minutes 10
             \<and> outbox fs' = outbox s @
                  [\<lparr> subject = ''Password Reset Code'', recipient = em, body_code = otp row \<rparr>]
             \<and> customers fs' = customers s \<and> trade_information fs' = trade_information s"
      by blast
  next
    assume "ForgotPasswordAPIView_post cfg e freq s = (fresp, fs')" "\<not> success fresp"
    then show "fs' = s" by (rule Forgot_failure)
  qed
  have d: "dispatch cfg e rq s = (dresp, ds') \<and> length (otps ds') \<noteq> length (otps s) \<longrightarrow>
        success dresp \<and> length (otps ds') = Suc (length (otps s))
      \<and> ((\<exists>d em j customer. rq = RegisterDelivery d
              \<and> request_email (adr_email d) = Some em
              \<and> objects_get (\<lambda>c. Customer.email c = em) (customers s) = Found j customer
              \<and> customer_type customer = Retail)
         \<or> (\<exists>d em j customer. rq = RegisterTrade d
              \<and> request_email (trd_email d) = Some em
              \<and> objects_get (\<lambda>c. Customer.email c = em) (customers s) = Found j customer
              \<and> customer_type customer = Trade)
         \<or> (\<exists>d. rq = ResendOTP d) \<or> (\<exists>d. rq = ForgotPassword d))"
  proof
    assume "dispatch cfg e rq s = (dresp, ds') \<and> length (otps ds') \<noteq> length (otps s)"
    then have "dispatch cfg e rq s = (dresp, ds')" "length (otps ds') \<noteq> length (otps s)"
      by simp_all
    then show "success dresp \<and> length (otps ds') = Suc (length (otps s))
      \<and> ((\<exists>d em j customer. rq = RegisterDelivery d
              \<and> request_email (adr_email d) = Some em
              \<and> objects_get (\<lambda>c. Customer.email c = em) (customers s) = Found j customer
              \<and> customer_type customer = Retail)
         \<or> (\<exists>d em j customer. rq = RegisterTrade d
              \<and> request_email (trd_email d) = Some em
              \<and> objects_get (\<lambda>c. Customer.email c = em) (customers s) = Found j customer
              \<and> customer_type customer = Trade)
         \<or> (\<exists>d. rq = ResendOTP d) \<or> (\<exists>d. rq = ForgotPassword d))"
      by (rule dispatch_issues)
  qed
  show ?thesis
    apply (rule conjI)
     apply (rule registration_steps_otps[THEN conjunct1])
    apply (rule conjI)
     apply (rule registration_steps_otps[THEN conjunct2, THEN conjunct1])
    apply (rule conjI)
     apply (rule registration_steps_otps[THEN conjunct2, THEN conjunct2, THEN conjunct1])
    apply (rule conjI)
     apply (rule registration_steps_otps[THEN conjunct2, THEN conjunct2, THEN conjunct2])
    apply (rule conjI)
     apply (rule r)
    apply (rule conjI)
     apply (rule f)
    apply (rule d)
    done
qed

text \<open>A Trade customer who has registered and sent no trade information asks for a code
  with resend-otp, and with forgot-password: each request succeeds, stores a code for the
  customer's address and sends it, and there is still no trade information.\<close>

theorem resend_otp_issues_code_to_trade_customer:
  "customers trade_db = [example_customer ''bob@example.com'' Trade]
   \<and> customer_type (example_customer ''bob@example.com'' Trade) = Trade
   \<and> trade_information trade_db = [] \<and> otps trade_db = [] \<and> outbox trade_db = []
   \<and> ResendOTPAPIView_post example_settings (example_env 1000)
        (example_email_request ''bob@example.com'') trade_db
       = (CustomResponse_success None ''OTP sent successfully'' HTTP_200_OK,
          trade_db\<lparr> otps := [\<lparr> OTP.email = ''bob@example.com'', otp = ''01234567'',
                                OTP.created_at = 1000, expires_at = 600001000,
                                is_used = False \<rparr>],
                    outbox := [\<lparr> subject = ''Email Verification'',
                                  recipient = ''bob@example.com'',
                                  body_code = ''01234567'' \<rparr>] \<rparr>)
   \<and> ForgotPasswordAPIView_post example_settings (example_env 1000)
        (example_email_request ''bob@example.com'') trade_db
       = (CustomResponse_success None ''Password reset OTP sent to your email'' HTTP_200_OK,
          trade_db\<lparr> otps := [\<lparr> OTP.email = ''bob@example.com'', otp = ''01234567'',
                                OTP.created_at = 1000, expires_at = 600001000,
                                is_used = False \<rparr>],
                    outbox := [\<lparr> subject = ''Password Reset Code'',
                                  recipient = ''bob@example.com'',
                                  body_code = ''01234567'' \<rparr>] \<rparr>)"
proof -
  have a: "customers trade_db = [example_customer ''bob@example.com'' Trade]"
    "trade_information trade_db = []" "otps trade_db = []" "outbox trade_db = []"
    by (simp_all add: trade_db_def empty_db_def)
  have n: "OTP_new (example_env 1000) ''bob@example.com'' ''01234567'' None
             = \<lparr> OTP.email = ''bob@example.com'', otp = ''01234567'',
                 OTP.created_at = 1000, expires_at = 600001000, is_used = False \<rparr>"
    by (simp add: OTP_new_def example_env_def timedelta_minutes_def)
  have q: "ResendOTPAPIView_post example_settings (example_env 1000)
        (example_email_request ''bob@example.com'') trade_db
       = (CustomResponse_success None ''OTP sent successfully'' HTTP_200_OK,
          trade_db\<lparr> otps := [\<lparr> OTP.email = ''bob@example.com'', otp = ''01234567'',
                                OTP.created_at = 1000, expires_at = 600001000,
                                is_used = False \<rparr>],
                    outbox := [\<lparr> subject = ''Email Verification'',
                                  recipient = ''bob@example.com'',
                                  body_code = ''01234567'' \<rparr>] \<rparr>)"
    by (simp add: Resend_found[OF ex_resend_ser(1) ex_get_bob ex_unverified] ex_generate_otp
          send_mail_def OTP_objects_create_def n a)
  have f: "ForgotPasswordAPIView_post example_settings (example_env 1000)
        (example_email_request ''bob@example.com'') trade_db
       = (CustomResponse_success None ''Password reset OTP sent to your email'' HTTP_200_OK,
          trade_db\<lparr> otps := [\<lparr> OTP.email = ''bob@example.com'', otp = ''01234567'',
                                OTP.created_at = 1000, expires_at = 600001000,
                                is_used = False \<rparr>],
                    outbox := [\<lparr> subject = ''Password Reset Code'',
                                  recipient = ''bob@example.com'',
                                  body_code = ''01234567'' \<rparr>] \<rparr>)"
    by (simp add: Forgot_found[OF ex_resend_ser(2) ex_get_bob] ex_generate_otp
          send_mail_def OTP_objects_create_def n a)
  show ?thesis by (intro conjI) (rule a ex_types q f)+
qed

theorem otp_issuing_operations_witness:
  "success (fst (DeliveryAddressRegisterAPIView_post example_settings (example_env 1000)
                   (example_address_request ''ann@example.com'') example_db))
   \<and> customer_type (example_customer ''ann@example.com'' Retail) = Retail
   \<and> length (otps (snd (DeliveryAddressRegisterAPIView_post example_settings (example_env 1000)
                   (example_address_request ''ann@example.com'') example_db)))
       = Suc (length (otps example_db))
   \<and> success (fst (DeliveryAddressRegisterAPIView_post example_settings (example_env 1000)
                   (example_address_request ''bob@example.com'') trade_db))
   \<and> customer_type (example_customer ''bob@example.com'' Trade) = Trade
   \<and> otps (snd (DeliveryAddressRegisterAPIView_post example_settings (example_env 1000)
                   (example_address_request ''bob@example.com'') trade_db)) = otps trade_db
   \<and> success (fst (TradeInformationRegisterAPIView_post example_settings (example_env 1000)
                   (example_trade_request ''bob@example.com'') trade_db))
   \<and> length (otps (snd (TradeInformationRegisterAPIView_post example_settings (example_env 1000)
                   (example_trade_request ''bob@example.com'') trade_db)))
       = Suc (length (otps trade_db))
   \<and> ResendOTPSerializer example_settings (example_email_request ''bob@example.com'')
       = Inr ''bob@example.com''
   \<and> objects_get (\<lambda>c. Customer.email c = ''bob@example.com'') (customers trade_db)
       = Found 0 (example_customer ''bob@example.com'' Trade)
   \<and> \<not> is_verified (example_customer ''bob@example.com'' Trade)
   \<and> success (fst (ResendOTPAPIView_post example_settings (example_env 1000)
                   (example_email_request ''bob@example.com'') trade_db))
   \<and> length (otps (snd (ResendOTPAPIView_post example_settings (example_env 1000)
                   (example_email_request ''bob@example.com'') trade_db)))
       = Suc (length (otps trade_db))
   \<and> trade_information (snd (ResendOTPAPIView_post example_settings (example_env 1000)
                   (example_email_request ''bob@example.com'') trade_db))
       = trade_information trade_db
   \<and> success (fst (ForgotPasswordAPIView_post example_settings (example_env 1000)
                   (example_email_request ''bob@example.com'') trade_db))
   \<and> length (otps (snd (ForgotPasswordAPIView_post example_settings (example_env 1000)
                   (example_email_request ''bob@example.com'') trade_db)))
       = Suc (length (otps trade_db))
   \<and> success (fst (dispatch example_settings (example_env 1000)
                   (ForgotPassword (example_email_request ''bob@example.com'')) trade_db))"
proof -
  let ?a = "DeliveryAddressRegisterAPIView_post example_settings (example_env 1000)
                   (example_address_request ''ann@example.com'') example_db"
  let ?b = "DeliveryAddressRegisterAPIView_post example_settings (example_env 1000)
                   (example_address_request ''bob@example.com'') trade_db"
  let ?t = "TradeInformationRegisterAPIView_post example_settings (example_env 1000)
                   (example_trade_request ''bob@example.com'') trade_db"
  let ?q = "ResendOTPAPIView_post example_settings (example_env 1000)
                   (example_email_request ''bob@example.com'') trade_db"
  let ?f = "ForgotPasswordAPIView_post example_settings (example_env 1000)
                   (example_email_request ''bob@example.com'') trade_db"
  let ?d = "dispatch example_settings (example_env 1000)
                   (ForgotPassword (example_email_request ''bob@example.com'')) trade_db"
  have oka: "success (fst ?a)"
    by (simp add: Delivery_found[OF ex_addr_email(1) ex_get ex_addr_ser] ex_types)
  have okb: "success (fst ?b)"
    by (simp add: Delivery_found[OF ex_addr_email(2) ex_get_bob ex_addr_ser] ex_types)
  from otp_issuing_operations
         [THEN conjunct1, THEN mp, OF conjI[OF prod.collapse[symmetric] oka]]
  obtain em j customer where
    a1: "request_email (adr_email (example_address_request ''ann@example.com'')) = Some em"
    and a2: "objects_get (\<lambda>c. Customer.email c = em) (customers example_db) = Found j customer"
    and a3: "customer_type customer = Retail \<longrightarrow>
              (\<exists>row. otps (snd ?a) = otps example_db @ [row]
                 \<and> OTP.email row = Customer.email customer \<and> otp row = generate_otp (example_env 1000)
                 \<and> \<not> is_used row \<and> expires_at row = now (example_env 1000) + timedelta_minutes 10
                 \<and> outbox (snd ?a) = outbox example_db @
                      [\<lparr> subject = ''Email Verification - Seidik Ecommerce'',
                         recipient = Customer.email customer, body_code = otp row \<rparr>])"
    by (elim exE conjE)
  from a1 ex_addr_email(1) have "em = ''ann@example.com''" by simp
  with a2 ex_get have "customer = example_customer ''ann@example.com'' Retail" by simp
  with a3 ex_types(1) obtain row where "otps (snd ?a) = otps example_db @ [row]" by blast
  then have la: "length (otps (snd ?a)) = Suc (length (otps example_db))" by simp
  from otp_issuing_operations
         [THEN conjunct1, THEN mp, OF conjI[OF prod.collapse[symmetric] okb]]
  obtain em j customer where
    b1: "request_email (adr_email (example_address_request ''bob@example.com'')) = Some em"
    and b2: "objects_get (\<lambda>c. Customer.email c = em) (customers trade_db) = Found j customer"
    and b3: "customer_type customer = Trade \<longrightarrow>
               otps (snd ?b) = otps trade_db \<and> outbox (snd ?b) = outbox trade_db"
    by (elim exE conjE)
  from b1 ex_addr_email(2) have "em = ''bob@example.com''" by simp
  with b2 ex_get_bob have "customer = example_customer ''bob@example.com'' Trade" by simp
  with b3 ex_types(2) have lb: "otps (snd ?b) = otps trade_db" by blast
  from otp_issuing_operations
         [THEN conjunct2, THEN conjunct1, THEN mp, OF prod.collapse[symmetric],
          THEN conjunct1, THEN mp, OF ex_trade_ok]
  obtain row where "otps (snd ?t) = otps trade_db @ [row]" by (elim exE conjE)
  then have lt: "length (otps (snd ?t)) = Suc (length (otps trade_db))" by simp
  note uq = ex_unverified[of "''bob@example.com''" Trade]
  note q = otp_issuing_operations
         [THEN conjunct2, THEN conjunct2, THEN conjunct2, THEN conjunct2, THEN conjunct1,
          THEN mp, OF prod.collapse[symmetric], of example_settings "example_env 1000"
          "example_email_request ''bob@example.com''" trade_db]
  have okq: "success (fst ?q)"
    by (rule q[THEN conjunct1, THEN iffD2])
       (intro exI conjI, rule ex_resend_ser(1), rule ex_get_bob, rule uq)
  from q[THEN conjunct2, THEN conjunct1, THEN mp, OF okq]
  obtain row where "otps (snd ?q) = otps trade_db @ [row]"
    and tq: "trade_information (snd ?q) = trade_information trade_db"
    by (elim exE conjE)
  then have lq: "length (otps (snd ?q)) = Suc (length (otps trade_db))" by simp
  note f = otp_issuing_operations
         [THEN conjunct2, THEN conjunct2, THEN conjunct2, THEN conjunct2, THEN conjunct2,
          THEN conjunct1, THEN mp, OF prod.collapse[symmetric], of example_settings
          "example_env 1000" "example_email_request ''bob@example.com''" trade_db]
  have okf: "success (fst ?f)"
    by (rule f[THEN conjunct1, THEN iffD2])
       (intro exI conjI, rule ex_resend_ser(2), rule ex_get_bob)
  from f[THEN conjunct2, THEN conjunct1, THEN mp, OF okf]
  obtain row where "otps (snd ?f) = otps trade_db @ [row]" by (elim exE conjE)
  then have lf: "length (otps (snd ?f)) = Suc (length (otps trade_db))" by simp
  have df: "?d = ?f" by simp
  from lf have "length (otps (snd ?d)) \<noteq> length (otps trade_db)" unfolding df by simp
  from otp_issuing_operations
         [THEN conjunct2, THEN conjunct2, THEN conjunct2, THEN conjunct2, THEN conjunct2,
          THEN conjunct2, THEN mp, OF conjI[OF prod.collapse[symmetric] this], THEN conjunct1]
  have okd: "success (fst ?d)" .
  show ?thesis
    by (intro conjI)
       (rule oka okb ex_types la lb lt ex_trade_ok ex_resend_ser(1) ex_get_bob uq okq lq tq
             okf lf okd)+
qed

end
